theory Spec2Isabelle
  imports Main
begin

section \<open>The transaction controller: data model\<close>

text \<open>
  The development follows \<^verbatim>\<open>app/scripts/controllers/transactions/index.js\<close>
  (class \<^verbatim>\<open>TransactionController\<close>) and the fee helper of
  \<^verbatim>\<open>ui/hooks/useIncrementedGasFees.js\<close>.

  Transaction statuses and types are the members of \<^verbatim>\<open>TRANSACTION_STATUSES\<close> and
  \<^verbatim>\<open>TRANSACTION_TYPES\<close> that the controller names.
\<close>

datatype status =
  UNAPPROVED | APPROVED | SIGNED | SUBMITTED | CONFIRMED | FAILED | DROPPED | REJECTED

datatype txType =
  SENT_ETHER | CONTRACT_INTERACTION | DEPLOY_CONTRACT
  | TOKEN_METHOD_APPROVE | TOKEN_METHOD_TRANSFER | TOKEN_METHOD_TRANSFER_FROM
  | CANCEL | RETRY | SWAP

datatype envelope = LEGACY | FEE_MARKET

text \<open>
  Errors are values. Each constructor is one \<^verbatim>\<open>throw\<close> site of the controller, an
  error of the transaction store, or an error raised by a collaborator (signer, chain
  client, nonce tracker), which carries its message.
\<close>

datatype error =
    InvalidAccount "string option" string "string option"
      \<comment> \<open>\<^verbatim>\<open>ethErrors.rpc.internal\<close>: internally initiated transaction is using invalid account\<close>
  | Unauthorized "string option"
      \<comment> \<open>\<^verbatim>\<open>ethErrors.provider.unauthorized({ data: { origin } })\<close>\<close>
  | NonContractCall "string option"
      \<comment> \<open>errorKey \<^verbatim>\<open>TRANSACTION_NO_CONTRACT_ERROR_KEY\<close>, with the getCode response\<close>
  | TypeError string
  | NotFoundError
  | InvalidTransitionError
  | DuplicateIdError
  | External string

fun message :: "error \<Rightarrow> string" where
  "message (InvalidAccount origin f sel) = ''Internally initiated transaction is using invalid account.''"
| "message (Unauthorized origin) = ''The requested account and/or method has not been authorized by the user.''"
| "message (NonContractCall c) = ''TxGasUtil - Trying to call a function on a non-contract address''"
| "message (TypeError m) = m"
| "message NotFoundError = ''NotFoundError''"
| "message InvalidTransitionError = ''InvalidTransitionError''"
| "message DuplicateIdError = ''DuplicateIdError''"
| "message (External m) = m"

text \<open>
  The result of a call. An \<^verbatim>\<open>async\<close> method either fulfils, throws, or is still
  suspended at an \<^verbatim>\<open>await\<close> whose promise has not settled; the state that comes with
  \<open>Pending\<close> is the state the rest of the wallet sees while the call is in flight.
\<close>

datatype 'a outcome = Fulfilled 'a | Thrown error | Pending

record txParams =
  fromAddr :: string
  toAddr :: "string option"
  nonce :: "string option"
  txValue :: "string option"
  txData :: "string option"
  gas :: "string option"
  gasPrice :: "string option"
  maxFeePerGas :: "string option"
  maxPriorityFeePerGas :: "string option"

text \<open>\<^verbatim>\<open>CustomGasSettings\<close>, also the shape of \<^verbatim>\<open>previousGasParams\<close> and \<^verbatim>\<open>newGasParams\<close>.\<close>

record gasSettings =
  cg_gas :: "string option"
  cg_gasLimit :: "string option"
  cg_gasPrice :: "string option"
  cg_maxFeePerGas :: "string option"
  cg_maxPriorityFeePerGas :: "string option"

text \<open>A transaction receipt; \<^verbatim>\<open>gasUsed\<close> arrives as a hex string or as a big number.\<close>

record receipt =
  rc_gasUsed :: "string + nat"
  rc_status :: "string option"

record storedReceipt =
  sr_gasUsed :: string
  sr_status :: "string option"

text \<open>
  \<^verbatim>\<open>txMeta\<close>. \<open>customNonceValue\<close> holds \<^verbatim>\<open>Number(txMeta.customNonceValue)\<close>:
  \<open>None\<close> is \<^verbatim>\<open>NaN\<close> (the field is absent or not numeric), \<open>Some n\<close> the number.
\<close>

record txMeta =
  tx_id :: nat
  status :: status
  txParams :: txParams
  origin :: "string option"
  tx_type :: "txType option"
  loadingDefaults :: bool
  previousGasParams :: "gasSettings option"
  customNonceValue :: "nat option"
  userFeeLevel :: "string option"
  simulationFails :: "string option"
  estimatedBaseFee :: "string option"
  rawTx :: "string option"
  hash :: "string option"
  sig_r :: "string option"
  sig_s :: "string option"
  sig_v :: "string option"
  err :: "error option"
  replacedBy :: "string option"
  txReceipt :: "storedReceipt option"
  baseFeePerGas :: "string option"
  preTxBalance :: "string option"
  postTxBalance :: "string option"

record nonceLock =
  nextNonce :: nat
  lockAddress :: string

text \<open>What the signer receives: \<^verbatim>\<open>{ ...txMeta.txParams, type, chainId, gasLimit }\<close> and the hardfork of the common configuration.\<close>

record signPayload =
  sp_txParams :: txParams
  sp_type :: envelope
  sp_chainId :: nat
  sp_gasLimit :: "string option"
  sp_london :: bool

record signedTx =
  st_r :: string
  st_s :: string
  st_v :: string
  st_serialized :: string

datatype extCall =
    GetNonceLock string
  | SignEthTx signPayload string
  | SendRawTransaction string

text \<open>
  The controller's state: the store's transaction list in insertion order, the id source of
  \<^verbatim>\<open>generateTxMeta\<close>, the set \<^verbatim>\<open>inProcessOfSigning\<close>, the addresses whose nonce
  lock is held, and the requests sent to the nonce tracker, the signer and the broadcaster.

  A \<^verbatim>\<open>txMeta\<close> is a shared JavaScript object: the reference that \<^verbatim>\<open>getTransaction\<close>
  hands out is the stored object, so an assignment to one of its fields is an update of the
  stored record (\<open>modifyTx\<close>).
\<close>

record controller =
  transactions :: "txMeta list"
  nextId :: nat
  inProcessOfSigning :: "nat set"
  nonceLocks :: "string list"
  calls :: "extCall list"

datatype verdict = Apply | Skip | Reject

datatype feeEstimates =
    FeeMarketEstimates "string option" "string option"
      \<comment> \<open>medium.suggestedMaxPriorityFeePerGas, medium.suggestedMaxFeePerGas\<close>
  | LegacyEstimates string
      \<comment> \<open>medium\<close>
  | EthGasPriceEstimates string
      \<comment> \<open>gasPrice\<close>
  | NoEstimates

datatype chainType = Mainnet | Testnet | Custom

text \<open>
  The collaborators, which live outside the controller: preferences, permissions,
  network, fee estimates, chain client, nonce tracker, signer, and the helpers of
  \<^verbatim>\<open>lib/util\<close> that are not part of the sources at hand. \<open>statusChange\<close> is the store's
  decision on a status update: perform it, ignore it, or refuse it.
\<close>

record env =
  selectedAddress :: "string option"
  permittedAccounts :: "string option \<Rightarrow> string list outcome"
  networkEIP1559 :: "bool outcome"
  accountEIP1559 :: "string option \<Rightarrow> bool outcome"
  chainId :: nat
  chainTypeOf :: chainType
  normalizeTxParams :: "txParams \<Rightarrow> txParams"
  validateTxParams :: "txParams \<Rightarrow> bool \<Rightarrow> error option"
  tokenMethod :: "string \<Rightarrow> txType option"
  getCode :: "string option \<Rightarrow> string option outcome"
  gasFeeEstimates :: "feeEstimates outcome"
  decGWEIToHexWEI :: "string \<Rightarrow> string"
  queryGasPrice :: "nat option outcome"
  analyzeGasUsage :: "txMeta \<Rightarrow> (string \<times> string \<times> string option) outcome"
  addGasBuffer :: "string \<Rightarrow> string \<Rightarrow> string"
  nonceLockFor :: "string \<Rightarrow> nat outcome"
  signEthTx :: "signPayload \<Rightarrow> string \<Rightarrow> signedTx outcome"
  sendRawTransaction :: "string \<Rightarrow> string outcome"
  getBalance :: "string \<Rightarrow> nat outcome"
  keccak :: "string \<Rightarrow> string"
  statusChange :: "status \<Rightarrow> status \<Rightarrow> verdict"

section \<open>Strings and hex quantities\<close>

definition hexDigits :: string where
  "hexDigits = ''0123456789abcdef''"

text \<open>\<^verbatim>\<open>Number.prototype.toString(16)\<close> on a non-negative integer.\<close>

function toString16 :: "nat \<Rightarrow> string" where
  "toString16 n =
     (if n < 16 then [hexDigits ! n] else toString16 (n div 16) @ [hexDigits ! (n mod 16)])"
  by pat_completeness auto
termination
  by (relation "measure (\<lambda>n. n)") auto

declare toString16.simps [simp del]

text \<open>
  Modelled from the spec: \<^verbatim>\<open>addHexPrefix\<close> of \<^verbatim>\<open>app/scripts/lib/util\<close>, which is not
  among the sources. Quantities are "hex-encoded strings at the boundary": the helper puts
  \<^verbatim>\<open>0x\<close> in front of a string that does not start with it.
\<close>

definition addHexPrefix :: "string \<Rightarrow> string" where
  "addHexPrefix str = (if take 2 str = ''0x'' then str else ''0x'' @ str)"

text \<open>\<^verbatim>\<open>String.prototype.toLowerCase\<close> on ASCII letters, and \<^verbatim>\<open>String.prototype.includes\<close>.\<close>

definition toLowerChar :: "char \<Rightarrow> char" where
  "toLowerChar c =
     (case map_of (zip ''ABCDEFGHIJKLMNOPQRSTUVWXYZ'' ''abcdefghijklmnopqrstuvwxyz'') c of
        Some l \<Rightarrow> l
      | None \<Rightarrow> c)"

definition toLowerCase :: "string \<Rightarrow> string" where
  "toLowerCase str = map toLowerChar str"

fun includesStr :: "string \<Rightarrow> string \<Rightarrow> bool" where
  "includesStr [] pat = (pat = [])"
| "includesStr (c # cs) pat = (take (length pat) (c # cs) = pat \<or> includesStr cs pat)"

text \<open>JavaScript truthiness of an optional string: \<^verbatim>\<open>undefined\<close> and \<^verbatim>\<open>''\<close> are falsy.\<close>

definition truthy :: "string option \<Rightarrow> bool" where
  "truthy v = (case v of None \<Rightarrow> False | Some str \<Rightarrow> str \<noteq> [])"

section \<open>The transaction store\<close>

text \<open>
  Modelled from the spec: the transaction store (\<^verbatim>\<open>tx-state-manager\<close>), which is not
  among the sources. Section 4.1: \<^verbatim>\<open>add\<close> inserts a record and fails with
  \<^verbatim>\<open>DuplicateIdError\<close> if the id exists; \<^verbatim>\<open>update\<close> fails with \<^verbatim>\<open>NotFoundError\<close>
  if the record is absent; \<^verbatim>\<open>query\<close> returns the matching records in insertion order;
  \<^verbatim>\<open>updateStatus\<close> checks the transition and fails with \<^verbatim>\<open>InvalidTransitionError\<close>
  when it refuses it. Ids are assigned monotonically (section 3). Which transitions the
  store performs is the parameter \<open>statusChange\<close>; \<open>specStatusChange\<close> is the reading of
  sections 3 and 4.4: forward along
  \<^verbatim>\<open>unapproved, approved, signed, submitted, {confirmed, failed, dropped}\<close>,
  \<^verbatim>\<open>rejected\<close> from \<^verbatim>\<open>unapproved\<close> or \<^verbatim>\<open>approved\<close>, and failing or dropping a
  terminal record is a no-op.
\<close>

definition getTransaction :: "nat \<Rightarrow> controller \<Rightarrow> txMeta option" where
  "getTransaction i s = find (\<lambda>t. tx_id t = i) (transactions s)"

definition modifyTx :: "nat \<Rightarrow> (txMeta \<Rightarrow> txMeta) \<Rightarrow> controller \<Rightarrow> controller" where
  "modifyTx i f s = s\<lparr>transactions := map (\<lambda>t. if tx_id t = i then f t else t) (transactions s)\<rparr>"

definition generateTxMeta :: "txParams \<Rightarrow> controller \<Rightarrow> txMeta \<times> controller" where
  "generateTxMeta p s =
     (\<lparr>tx_id = nextId s, status = UNAPPROVED, txParams = p, origin = None, tx_type = None,
       loadingDefaults = True, previousGasParams = None, customNonceValue = None,
       userFeeLevel = None, simulationFails = None, estimatedBaseFee = None, rawTx = None,
       hash = None, sig_r = None, sig_s = None, sig_v = None, err = None, replacedBy = None,
       txReceipt = None, baseFeePerGas = None, preTxBalance = None, postTxBalance = None\<rparr>,
      s\<lparr>nextId := Suc (nextId s)\<rparr>)"

definition storeAddTransaction :: "txMeta \<Rightarrow> controller \<Rightarrow> unit outcome \<times> controller" where
  "storeAddTransaction t s =
     (if getTransaction (tx_id t) s \<noteq> None then (Thrown DuplicateIdError, s)
      else (Fulfilled (), s\<lparr>transactions := transactions s @ [t]\<rparr>))"

definition updateTransaction :: "nat \<Rightarrow> controller \<Rightarrow> unit outcome \<times> controller" where
  "updateTransaction i s =
     (if getTransaction i s = None then (Thrown NotFoundError, s) else (Fulfilled (), s))"

definition getTransactions :: "string option \<Rightarrow> string \<Rightarrow> controller \<Rightarrow> txMeta list" where
  "getTransactions n f s =
     filter (\<lambda>t. nonce (txParams t) = n \<and> fromAddr (txParams t) = f) (transactions s)"

definition setTransactionStatus ::
  "env \<Rightarrow> nat \<Rightarrow> status \<Rightarrow> (txMeta \<Rightarrow> txMeta) \<Rightarrow> controller \<Rightarrow> unit outcome \<times> controller" where
  "setTransactionStatus e i st f s =
     (case getTransaction i s of
        None \<Rightarrow> (Thrown NotFoundError, s)
      | Some t \<Rightarrow>
          (case statusChange e (status t) st of
             Apply \<Rightarrow> (Fulfilled (), modifyTx i (\<lambda>t. (f t)\<lparr>status := st\<rparr>) s)
           | Skip \<Rightarrow> (Fulfilled (), s)
           | Reject \<Rightarrow> (Thrown InvalidTransitionError, s)))"

definition setTxStatusApproved :: "env \<Rightarrow> nat \<Rightarrow> controller \<Rightarrow> unit outcome \<times> controller" where
  "setTxStatusApproved e i s = setTransactionStatus e i APPROVED (\<lambda>t. t) s"

definition setTxStatusSigned :: "env \<Rightarrow> nat \<Rightarrow> controller \<Rightarrow> unit outcome \<times> controller" where
  "setTxStatusSigned e i s = setTransactionStatus e i SIGNED (\<lambda>t. t) s"

definition setTxStatusSubmitted :: "env \<Rightarrow> nat \<Rightarrow> controller \<Rightarrow> unit outcome \<times> controller" where
  "setTxStatusSubmitted e i s = setTransactionStatus e i SUBMITTED (\<lambda>t. t) s"

definition setTxStatusConfirmed :: "env \<Rightarrow> nat \<Rightarrow> controller \<Rightarrow> unit outcome \<times> controller" where
  "setTxStatusConfirmed e i s = setTransactionStatus e i CONFIRMED (\<lambda>t. t) s"

definition setTxStatusDropped :: "env \<Rightarrow> nat \<Rightarrow> controller \<Rightarrow> unit outcome \<times> controller" where
  "setTxStatusDropped e i s = setTransactionStatus e i DROPPED (\<lambda>t. t) s"

definition setTxStatusFailed ::
  "env \<Rightarrow> nat \<Rightarrow> error \<Rightarrow> controller \<Rightarrow> unit outcome \<times> controller" where
  "setTxStatusFailed e i er s = setTransactionStatus e i FAILED (\<lambda>t. t\<lparr>err := Some er\<rparr>) s"

definition terminal :: "status \<Rightarrow> bool" where
  "terminal st = (st = CONFIRMED \<or> st = FAILED \<or> st = DROPPED \<or> st = REJECTED)"

fun rank :: "status \<Rightarrow> nat" where
  "rank UNAPPROVED = 0"
| "rank APPROVED = 1"
| "rank SIGNED = 2"
| "rank SUBMITTED = 3"
| "rank CONFIRMED = 4"
| "rank FAILED = 4"
| "rank DROPPED = 4"
| "rank REJECTED = 4"

definition specStatusChange :: "status \<Rightarrow> status \<Rightarrow> verdict" where
  "specStatusChange old new =
     (if terminal old then (if new = FAILED \<or> new = DROPPED then Skip else Reject)
      else if new = REJECTED then (if old = UNAPPROVED \<or> old = APPROVED then Apply else Reject)
      else if rank old \<le> rank new then Apply
      else Reject)"

text \<open>
  Modelled from the spec: \<^verbatim>\<open>isEIP1559Transaction\<close> of
  \<^verbatim>\<open>shared/modules/transaction.utils\<close>, which is not among the sources. Section 4.4: the
  envelope is "selected by whether fee-market fields are present".
\<close>

definition isEIP1559Transaction :: "txMeta \<Rightarrow> bool" where
  "isEIP1559Transaction t =
     (maxFeePerGas (txParams t) \<noteq> None \<and> maxPriorityFeePerGas (txParams t) \<noteq> None)"

section \<open>Sequencing\<close>

definition andThen ::
  "'a outcome \<times> 's \<Rightarrow> ('a \<Rightarrow> 's \<Rightarrow> 'b outcome \<times> 's) \<Rightarrow> 'b outcome \<times> 's" where
  "andThen m f =
     (case m of
        (Fulfilled a, s) \<Rightarrow> f a s
      | (Thrown e, s) \<Rightarrow> (Thrown e, s)
      | (Pending, s) \<Rightarrow> (Pending, s))"

section \<open>Approval: nonce, signature, broadcast\<close>

definition getEIP1559Compatibility ::
  "env \<Rightarrow> string option \<Rightarrow> controller \<Rightarrow> bool outcome \<times> controller" where
  "getEIP1559Compatibility e fromAddress s =
     andThen (networkEIP1559 e, s) (\<lambda>currentNetworkIsCompatible s1.
     andThen (accountEIP1559 e fromAddress, s1) (\<lambda>fromAccountIsCompatible s2.
       (Fulfilled (currentNetworkIsCompatible \<and> fromAccountIsCompatible), s2)))"

text \<open>\<^verbatim>\<open>getCommonConfiguration\<close>: of the \<^verbatim>\<open>Common\<close> object only the hardfork is kept
  (\<open>True\<close> for London, \<open>False\<close> for Berlin).\<close>

definition getCommonConfiguration ::
  "env \<Rightarrow> string \<Rightarrow> controller \<Rightarrow> bool outcome \<times> controller" where
  "getCommonConfiguration e fromAddress s = getEIP1559Compatibility e (Some fromAddress) s"

text \<open>
  Modelled from the spec: the nonce tracker (section 4.2), an outside collaborator.
  \<^verbatim>\<open>acquireLock(address)\<close> suspends while a lock for the address is held; on acquisition it
  returns the computed next nonce and a release function; if the network query fails, it
  surfaces the error without granting the lock. Release is idempotent.
\<close>

definition getNonceLock :: "env \<Rightarrow> string \<Rightarrow> controller \<Rightarrow> nonceLock outcome \<times> controller" where
  "getNonceLock e address s =
     (let s1 = s\<lparr>calls := calls s @ [GetNonceLock address]\<rparr> in
      if address \<in> set (nonceLocks s) then (Pending, s1)
      else (case nonceLockFor e address of
              Fulfilled n \<Rightarrow>
                (Fulfilled \<lparr>nextNonce = n, lockAddress = address\<rparr>,
                 s1\<lparr>nonceLocks := address # nonceLocks s1\<rparr>)
            | Thrown er \<Rightarrow> (Thrown er, s1)
            | Pending \<Rightarrow> (Pending, s1)))"

definition releaseLock :: "nonceLock \<Rightarrow> controller \<Rightarrow> controller" where
  "releaseLock l s = s\<lparr>nonceLocks := removeAll (lockAddress l) (nonceLocks s)\<rparr>"

definition signTransaction :: "env \<Rightarrow> nat \<Rightarrow> controller \<Rightarrow> string outcome \<times> controller" where
  "signTransaction e txId s =
     (case getTransaction txId s of
        None \<Rightarrow> (Thrown (TypeError ''txMeta is undefined''), s)
      | Some txMeta \<Rightarrow>
          (let ty = (if isEIP1559Transaction txMeta then FEE_MARKET else LEGACY);
               fromAddress = fromAddr (txParams txMeta)
           in andThen (getCommonConfiguration e fromAddress s) (\<lambda>london s1.
                (let payload = \<lparr>sp_txParams = txParams txMeta, sp_type = ty,
                                sp_chainId = chainId e, sp_gasLimit = gas (txParams txMeta),
                                sp_london = london\<rparr>;
                     s2 = s1\<lparr>calls := calls s1 @ [SignEthTx payload fromAddress]\<rparr>
                 in andThen (signEthTx e payload fromAddress, s2) (\<lambda>signedEthTx s3.
                      (let s4 = modifyTx txId (\<lambda>t. t\<lparr>sig_r := Some (st_r signedEthTx),
                                  sig_s := Some (st_s signedEthTx),
                                  sig_v := Some (st_v signedEthTx)\<rparr>) s3
                       in andThen (updateTransaction txId s4) (\<lambda>_ s5.
                          andThen (setTxStatusSigned e txId s5) (\<lambda>_ s6.
                            (Fulfilled (st_serialized signedEthTx), s6)))))))))"

definition setTxHash :: "nat \<Rightarrow> string \<Rightarrow> controller \<Rightarrow> unit outcome \<times> controller" where
  "setTxHash txId txHash s =
     (case getTransaction txId s of
        None \<Rightarrow> (Thrown (TypeError ''txMeta is undefined''), s)
      | Some txMeta \<Rightarrow> updateTransaction txId (modifyTx txId (\<lambda>t. t\<lparr>hash := Some txHash\<rparr>) s))"

text \<open>The \<^verbatim>\<open>try\<close>/\<^verbatim>\<open>catch\<close> around \<^verbatim>\<open>this.query.sendRawTransaction(rawTx)\<close>.\<close>

definition broadcast :: "env \<Rightarrow> string \<Rightarrow> controller \<Rightarrow> string outcome \<times> controller" where
  "broadcast e raw s =
     (let s1 = s\<lparr>calls := calls s @ [SendRawTransaction raw]\<rparr> in
      case sendRawTransaction e raw of
        Fulfilled txHash \<Rightarrow> (Fulfilled txHash, s1)
      | Thrown er \<Rightarrow>
          (if includesStr (toLowerCase (message er)) ''known transaction''
           then (Fulfilled (addHexPrefix (keccak e (addHexPrefix raw))), s1)
           else (Thrown er, s1))
      | Pending \<Rightarrow> (Pending, s1))"

definition publishTransaction ::
  "env \<Rightarrow> nat \<Rightarrow> string \<Rightarrow> controller \<Rightarrow> unit outcome \<times> controller" where
  "publishTransaction e txId raw s =
     (case getTransaction txId s of
        None \<Rightarrow> (Thrown (TypeError ''txMeta is undefined''), s)
      | Some txMeta \<Rightarrow>
          (let s1 = modifyTx txId (\<lambda>t. t\<lparr>rawTx := Some raw\<rparr>) s
           in andThen
                (if tx_type txMeta = Some SWAP
                 then andThen (getBalance e (fromAddr (txParams txMeta)), s1) (\<lambda>preTxBalance s2.
                        (Fulfilled (),
                         modifyTx txId (\<lambda>t. t\<lparr>preTxBalance := Some (toString16 preTxBalance)\<rparr>) s2))
                 else (Fulfilled (), s1))
                (\<lambda>_ s3.
                   andThen (updateTransaction txId s3) (\<lambda>_ s4.
                   andThen (broadcast e raw s4) (\<lambda>txHash s5.
                   andThen (setTxHash txId txHash s5) (\<lambda>_ s6.
                     setTxStatusSubmitted e txId s6))))))"

definition failTransaction :: "env \<Rightarrow> nat \<Rightarrow> error \<Rightarrow> controller \<Rightarrow> unit outcome \<times> controller" where
  "failTransaction e txId er s = setTxStatusFailed e txId er s"

definition dropTransaction :: "env \<Rightarrow> nat \<Rightarrow> controller \<Rightarrow> unit outcome \<times> controller" where
  "dropTransaction e txId s = setTxStatusDropped e txId s"

text \<open>The value assigned to \<^verbatim>\<open>txParams.nonce\<close> is a number (custom or next nonce) or the
  string already in \<^verbatim>\<open>txParams.nonce\<close>; \<^verbatim>\<open>toString(16)\<close> leaves a string as it is.\<close>

datatype nonceValue = NumV nat | StrV string

fun nonceToString16 :: "nonceValue \<Rightarrow> string" where
  "nonceToString16 (NumV n) = toString16 n"
| "nonceToString16 (StrV str) = str"

definition chooseNonce :: "txMeta \<Rightarrow> nat option \<Rightarrow> nonceLock \<Rightarrow> nonceValue option" where
  "chooseNonce txMeta customNonce l =
     (let nonce = (if previousGasParams txMeta \<noteq> None
                   then map_option StrV (nonce (txParams txMeta))
                   else Some (NumV (nextNonce l)))
      in if customNonce = Some 0 then Some (NumV 0)
         else (case customNonce of
                 Some n \<Rightarrow> if n \<noteq> 0 then Some (NumV n) else nonce
               | None \<Rightarrow> nonce))"

text \<open>The \<^verbatim>\<open>try\<close> block of \<^verbatim>\<open>approveTransaction\<close> up to the nonce lock, and from there on.\<close>

definition approveAcquire ::
  "env \<Rightarrow> nat \<Rightarrow> controller \<Rightarrow> (nat option \<times> nonceLock) outcome \<times> controller" where
  "approveAcquire e txId s =
     andThen (setTxStatusApproved e txId s) (\<lambda>_ s1.
       case getTransaction txId s1 of
         None \<Rightarrow> (Thrown (TypeError ''txMeta is undefined''), s1)
       | Some txMeta \<Rightarrow>
           andThen (getNonceLock e (fromAddr (txParams txMeta)) s1) (\<lambda>l s2.
             (Fulfilled (customNonceValue txMeta, l), s2)))"

definition approveLocked ::
  "env \<Rightarrow> nat \<Rightarrow> nat option \<Rightarrow> nonceLock \<Rightarrow> controller \<Rightarrow> unit outcome \<times> controller" where
  "approveLocked e txId customNonce l s =
     (case getTransaction txId s of
        None \<Rightarrow> (Thrown (TypeError ''txMeta is undefined''), s)
      | Some txMeta \<Rightarrow>
          (case chooseNonce txMeta customNonce l of
             None \<Rightarrow> (Thrown (TypeError ''customOrNonce is undefined''), s)
           | Some customOrNonce \<Rightarrow>
               (let s1 = modifyTx txId (\<lambda>t. t\<lparr>txParams := (txParams t)
                           \<lparr>nonce := Some (addHexPrefix (nonceToString16 customOrNonce))\<rparr>\<rparr>) s
                in andThen (updateTransaction txId s1) (\<lambda>_ s2.
                   andThen (signTransaction e txId s2) (\<lambda>raw s3.
                   andThen (publishTransaction e txId raw s3) (\<lambda>_ s4.
                     (Fulfilled (), releaseLock l s4)))))))"

text \<open>The \<^verbatim>\<open>catch\<close> block: \<^verbatim>\<open>_failTransaction\<close> with its own error swallowed, then the
  release of the lock if there is one. The \<^verbatim>\<open>finally\<close> block removes the id.\<close>

definition failSwallowed :: "env \<Rightarrow> nat \<Rightarrow> error \<Rightarrow> controller \<Rightarrow> controller" where
  "failSwallowed e txId er s = snd (failTransaction e txId er s)"

definition finallyDelete :: "nat \<Rightarrow> controller \<Rightarrow> controller" where
  "finallyDelete txId s = s\<lparr>inProcessOfSigning := inProcessOfSigning s - {txId}\<rparr>"

definition approveTransaction :: "env \<Rightarrow> nat \<Rightarrow> controller \<Rightarrow> unit outcome \<times> controller" where
  "approveTransaction e txId s =
     (if txId \<in> inProcessOfSigning s then (Fulfilled (), s)
      else
        (let s0 = s\<lparr>inProcessOfSigning := insert txId (inProcessOfSigning s)\<rparr> in
         case approveAcquire e txId s0 of
           (Pending, s1) \<Rightarrow> (Pending, s1)
         | (Thrown er, s1) \<Rightarrow> (Thrown er, finallyDelete txId (failSwallowed e txId er s1))
         | (Fulfilled (customNonce, l), s1) \<Rightarrow>
             (case approveLocked e txId customNonce l s1 of
                (Pending, s2) \<Rightarrow> (Pending, s2)
              | (Thrown er, s2) \<Rightarrow>
                  (Thrown er, finallyDelete txId (releaseLock l (failSwallowed e txId er s2)))
              | (Fulfilled u, s2) \<Rightarrow> (Fulfilled (), finallyDelete txId s2))))"

section \<open>Gas fees of a replacement\<close>

text \<open>
  Modelled from the spec: \<^verbatim>\<open>hexToBn\<close>, \<^verbatim>\<open>bnToHex\<close> and \<^verbatim>\<open>BnMultiplyByFraction\<close> of
  \<^verbatim>\<open>app/scripts/lib/util\<close>, which is not among the sources. Section 4.4: quantities are
  "arbitrary-precision integers carried as hex-encoded strings", and fee bumping uses
  "arbitrary-precision integer math": the product is divided by the denominator as integers.
  \<^verbatim>\<open>GAS_LIMITS.SIMPLE\<close> is the 21000 (\<^verbatim>\<open>0x5208\<close>) of section 8.
\<close>

definition hexValue :: "char \<Rightarrow> nat" where
  "hexValue c =
     (case map_of (zip ''0123456789abcdefABCDEF''
                       [0, 1, 2, 3, 4, 5, 6, 7, 8, 9, 10, 11, 12, 13, 14, 15, 10, 11, 12, 13, 14, 15]) c of
        Some v \<Rightarrow> v
      | None \<Rightarrow> 0)"

definition stripHexPrefix :: "string \<Rightarrow> string" where
  "stripHexPrefix str = (if take 2 str = ''0x'' then drop 2 str else str)"

definition hexToBn :: "string \<Rightarrow> nat" where
  "hexToBn str = foldl (\<lambda>acc c. 16 * acc + hexValue c) 0 (stripHexPrefix str)"

definition bnToHex :: "nat \<Rightarrow> string" where
  "bnToHex n = addHexPrefix (toString16 n)"

definition BnMultiplyByFraction :: "nat \<Rightarrow> nat \<Rightarrow> nat \<Rightarrow> nat" where
  "BnMultiplyByFraction targetBN numerator denominator = targetBN * numerator div denominator"

definition GAS_LIMITS_SIMPLE :: string where
  "GAS_LIMITS_SIMPLE = ''0x5208''"

text \<open>\<^verbatim>\<open>a || b\<close> and \<^verbatim>\<open>a ?? b\<close> on an optional string.\<close>

definition orElse :: "string option \<Rightarrow> string \<Rightarrow> string" where
  "orElse v d = (case v of None \<Rightarrow> d | Some str \<Rightarrow> if str \<noteq> [] then str else d)"

definition nullishElse :: "string option \<Rightarrow> string \<Rightarrow> string" where
  "nullishElse v d = (case v of None \<Rightarrow> d | Some str \<Rightarrow> str)"

definition emptyGasSettings :: gasSettings where
  "emptyGasSettings =
     \<lparr>cg_gas = None, cg_gasLimit = None, cg_gasPrice = None, cg_maxFeePerGas = None,
      cg_maxPriorityFeePerGas = None\<rparr>"

text \<open>The bumped fee \<^verbatim>\<open>custom || bnToHex(BnMultiplyByFraction(hexToBn(fee), incrementNumerator, 10))\<close>.
  The right operand is evaluated only when the custom value is falsy; a fee that is absent
  from the original transaction cannot be read as a quantity.\<close>

definition bumpedFee :: "string option \<Rightarrow> string option \<Rightarrow> nat \<Rightarrow> error + string" where
  "bumpedFee custom fee incrementNumerator =
     (if truthy custom then Inr (orElse custom [])
      else (case fee of
              None \<Rightarrow> Inl (TypeError ''fee is undefined'')
            | Some f \<Rightarrow> Inr (bnToHex (BnMultiplyByFraction (hexToBn f) incrementNumerator 10))))"

definition generateNewGasParams ::
  "txMeta \<Rightarrow> gasSettings \<Rightarrow> nat \<Rightarrow> error + (gasSettings \<times> gasSettings)" where
  "generateNewGasParams originalTxMeta customGasSettings incrementNumerator =
     (let p = txParams originalTxMeta;
          newGas = (if truthy (cg_gasLimit customGasSettings)
                    then Some (nullishElse (cg_gas customGasSettings) GAS_LIMITS_SIMPLE)
                    else None)
      in if isEIP1559Transaction originalTxMeta
         then (case bumpedFee (cg_maxFeePerGas customGasSettings) (maxFeePerGas p) incrementNumerator of
                 Inl er \<Rightarrow> Inl er
               | Inr newMaxFee \<Rightarrow>
                   (case bumpedFee (cg_maxPriorityFeePerGas customGasSettings)
                           (maxPriorityFeePerGas p) incrementNumerator of
                      Inl er \<Rightarrow> Inl er
                    | Inr newMaxPriority \<Rightarrow>
                        Inr (emptyGasSettings\<lparr>cg_maxFeePerGas := maxFeePerGas p,
                               cg_maxPriorityFeePerGas := maxPriorityFeePerGas p\<rparr>,
                             emptyGasSettings\<lparr>cg_gas := newGas,
                               cg_maxFeePerGas := Some newMaxFee,
                               cg_maxPriorityFeePerGas := Some newMaxPriority\<rparr>)))
         else (case bumpedFee (cg_gasPrice customGasSettings) (gasPrice p) incrementNumerator of
                 Inl er \<Rightarrow> Inl er
               | Inr newGasPrice \<Rightarrow>
                   Inr (emptyGasSettings\<lparr>cg_gasPrice := gasPrice p\<rparr>,
                        emptyGasSettings\<lparr>cg_gas := newGas, cg_gasPrice := Some newGasPrice\<rparr>)))"

text \<open>The spread \<^verbatim>\<open>{ ...txParams, ...newGasParams }\<close>: a key of \<^verbatim>\<open>newGasParams\<close> replaces
  the one of \<^verbatim>\<open>txParams\<close>.\<close>

definition spreadGasParams :: "txParams \<Rightarrow> gasSettings \<Rightarrow> txParams" where
  "spreadGasParams p g =
     p\<lparr>gas := (case cg_gas g of None \<Rightarrow> gas p | Some v \<Rightarrow> Some v),
       gasPrice := (case cg_gasPrice g of None \<Rightarrow> gasPrice p | Some v \<Rightarrow> Some v),
       maxFeePerGas := (case cg_maxFeePerGas g of None \<Rightarrow> maxFeePerGas p | Some v \<Rightarrow> Some v),
       maxPriorityFeePerGas :=
         (case cg_maxPriorityFeePerGas g of None \<Rightarrow> maxPriorityFeePerGas p | Some v \<Rightarrow> Some v)\<rparr>"

text \<open>
  The fee helper of the interface, \<^verbatim>\<open>getHighestIncrementedFee\<close> in
  \<^verbatim>\<open>useIncrementedGasFees.js\<close>. Its converters are not among the sources and are
  parameters: \<open>timesOnePointOne\<close> is \<^verbatim>\<open>multiplyCurrencies(value, 1.1, ...)\<close> to a hex
  string, \<open>decGWEIToHex\<close> is \<^verbatim>\<open>decGWEIToHexWEI\<close>, and \<open>bigNumber\<close> reads a hex string as
  \<^verbatim>\<open>new BigNumber(value, 16)\<close> does.
\<close>

definition addTenPercent :: "(string \<Rightarrow> string) \<Rightarrow> string \<Rightarrow> string" where
  "addTenPercent timesOnePointOne hexStringValue = addHexPrefix (timesOnePointOne hexStringValue)"

definition getHighestIncrementedFee ::
  "(string \<Rightarrow> string) \<Rightarrow> (string \<Rightarrow> string) \<Rightarrow> (string \<Rightarrow> 'n::linorder) \<Rightarrow> string \<Rightarrow> string \<Rightarrow> string" where
  "getHighestIncrementedFee timesOnePointOne decGWEIToHex bigNumber originalFee currentEstimate =
     (let buffedOriginalHexWei = addTenPercent timesOnePointOne originalFee;
          currentEstimateHexWei = decGWEIToHex currentEstimate
      in if bigNumber buffedOriginalHexWei > bigNumber currentEstimateHexWei
         then buffedOriginalHexWei
         else currentEstimateHexWei)"

text \<open>The claim's formula for the bumped fee, on quantities: the greater of the original
  fee times 1.10 and the medium estimate.\<close>

definition specBumpedFee :: "nat \<Rightarrow> nat \<Rightarrow> nat" where
  "specBumpedFee originalFee mediumEstimate = max (originalFee * 11 div 10) mediumEstimate"

section \<open>Cancel and speed-up\<close>

definition addTransaction :: "txMeta \<Rightarrow> controller \<Rightarrow> unit outcome \<times> controller" where
  "addTransaction t s = storeAddTransaction t s"

definition withEstimatedBaseFee :: "string option \<Rightarrow> txMeta \<Rightarrow> txMeta" where
  "withEstimatedBaseFee b t = (if truthy b then t\<lparr>estimatedBaseFee := b\<rparr> else t)"

text \<open>Both return the new \<^verbatim>\<open>txMeta\<close> object, which is the stored one: the result is its id.\<close>

definition createCancelTransaction ::
  "env \<Rightarrow> nat \<Rightarrow> gasSettings option \<Rightarrow> string option \<Rightarrow> controller \<Rightarrow> nat outcome \<times> controller" where
  "createCancelTransaction e originalTxId customGasSettings estimatedBaseFeeArg s =
     (case getTransaction originalTxId s of
        None \<Rightarrow> (Thrown (TypeError ''originalTxMeta is undefined''), s)
      | Some originalTxMeta \<Rightarrow>
          (case customGasSettings of
             None \<Rightarrow> (Thrown (TypeError ''customGasSettings is undefined''), s)
           | Some cgs \<Rightarrow>
               (case generateNewGasParams originalTxMeta
                       (cgs\<lparr>cg_gasLimit := Some (orElse (cg_gasLimit cgs) GAS_LIMITS_SIMPLE)\<rparr>) 11 of
                  Inl er \<Rightarrow> (Thrown er, s)
                | Inr (previousGas, newGasParams) \<Rightarrow>
                    (let fromA = fromAddr (txParams originalTxMeta);
                         (generated, s1) = generateTxMeta
                            (spreadGasParams
                               \<lparr>fromAddr = fromA, toAddr = Some fromA,
                                nonce = nonce (txParams originalTxMeta), txValue = Some ''0x0'',
                                txData = None, gas = None, gasPrice = None, maxFeePerGas = None,
                                maxPriorityFeePerGas = None\<rparr> newGasParams) s;
                         newTxMeta = withEstimatedBaseFee estimatedBaseFeeArg
                            (generated\<lparr>previousGasParams := Some previousGas,
                               loadingDefaults := False, status := APPROVED,
                               tx_type := Some CANCEL\<rparr>)
                     in andThen (addTransaction newTxMeta s1) (\<lambda>_ s2.
                        andThen (approveTransaction e (tx_id newTxMeta) s2) (\<lambda>_ s3.
                          (Fulfilled (tx_id newTxMeta), s3)))))))"

definition createSpeedUpTransaction ::
  "env \<Rightarrow> nat \<Rightarrow> gasSettings option \<Rightarrow> string option \<Rightarrow> controller \<Rightarrow> nat outcome \<times> controller" where
  "createSpeedUpTransaction e originalTxId customGasSettings estimatedBaseFeeArg s =
     (case getTransaction originalTxId s of
        None \<Rightarrow> (Thrown (TypeError ''originalTxMeta is undefined''), s)
      | Some originalTxMeta \<Rightarrow>
          (case generateNewGasParams originalTxMeta
                  (case customGasSettings of None \<Rightarrow> emptyGasSettings | Some cgs \<Rightarrow> cgs) 11 of
             Inl er \<Rightarrow> (Thrown er, s)
           | Inr (previousGas, newGasParams) \<Rightarrow>
               (let (generated, s1) = generateTxMeta
                       (spreadGasParams (txParams originalTxMeta) newGasParams) s;
                    newTxMeta = withEstimatedBaseFee estimatedBaseFeeArg
                       (generated\<lparr>previousGasParams := Some previousGas,
                          loadingDefaults := False, status := APPROVED,
                          tx_type := Some RETRY\<rparr>)
                in andThen (addTransaction newTxMeta s1) (\<lambda>_ s2.
                   andThen (approveTransaction e (tx_id newTxMeta) s2) (\<lambda>_ s3.
                     (Fulfilled (tx_id newTxMeta), s3))))))"

section \<open>Confirmation\<close>

text \<open>The body of the \<^verbatim>\<open>forEach\<close> in \<^verbatim>\<open>_markNonceDuplicatesDropped\<close>, over the ids of
  \<^verbatim>\<open>sameNonceTxs\<close>; a throw ends the loop.\<close>

fun dropEach :: "env \<Rightarrow> nat \<Rightarrow> nat list \<Rightarrow> controller \<Rightarrow> unit outcome \<times> controller" where
  "dropEach e txId [] s = (Fulfilled (), s)"
| "dropEach e txId (other # rest) s =
     (if other = txId then dropEach e txId rest s
      else
        (let confirmedHash = Option.bind (getTransaction txId s) hash;
             s1 = modifyTx other (\<lambda>t. t\<lparr>replacedBy := confirmedHash\<rparr>) s
         in andThen (updateTransaction txId s1) (\<lambda>_ s2.
            andThen (dropTransaction e other s2) (\<lambda>_ s3.
              dropEach e txId rest s3))))"

definition markNonceDuplicatesDropped ::
  "env \<Rightarrow> nat \<Rightarrow> controller \<Rightarrow> unit outcome \<times> controller" where
  "markNonceDuplicatesDropped e txId s =
     (case getTransaction txId s of
        None \<Rightarrow> (Thrown (TypeError ''txMeta is undefined''), s)
      | Some txMeta \<Rightarrow>
          (let sameNonceTxs =
                 getTransactions (nonce (txParams txMeta)) (fromAddr (txParams txMeta)) s
           in if sameNonceTxs = [] then (Fulfilled (), s)
              else dropEach e txId (map tx_id sameNonceTxs) s))"

definition confirmBody ::
  "env \<Rightarrow> nat \<Rightarrow> txMeta \<Rightarrow> receipt \<Rightarrow> string option \<Rightarrow> controller \<Rightarrow> unit outcome \<times> controller" where
  "confirmBody e txId txMeta rcpt baseFee s =
     (let gasUsed = (case rc_gasUsed rcpt of Inl str \<Rightarrow> str | Inr n \<Rightarrow> toString16 n);
          s1 = modifyTx txId
                 (\<lambda>t. t\<lparr>txReceipt := Some \<lparr>sr_gasUsed = gasUsed, sr_status = rc_status rcpt\<rparr>\<rparr>) s;
          s2 = (if truthy baseFee then modifyTx txId (\<lambda>t. t\<lparr>baseFeePerGas := baseFee\<rparr>) s1 else s1)
      in andThen (setTxStatusConfirmed e txId s2) (\<lambda>_ s3.
         andThen (markNonceDuplicatesDropped e txId s3) (\<lambda>_ s4.
         andThen (updateTransaction txId s4) (\<lambda>_ s5.
           if tx_type txMeta = Some SWAP
           then andThen (getBalance e (fromAddr (txParams txMeta)), s5) (\<lambda>postBalance s6.
                  updateTransaction txId
                    (modifyTx txId (\<lambda>t. t\<lparr>postTxBalance := Some (toString16 postBalance)\<rparr>) s6))
           else (Fulfilled (), s5)))))"

definition confirmTransaction ::
  "env \<Rightarrow> nat \<Rightarrow> receipt \<Rightarrow> string option \<Rightarrow> controller \<Rightarrow> unit outcome \<times> controller" where
  "confirmTransaction e txId rcpt baseFee s =
     (case getTransaction txId s of
        None \<Rightarrow> (Fulfilled (), s)
      | Some txMeta \<Rightarrow>
          (case confirmBody e txId txMeta rcpt baseFee s of
             (Thrown er, s') \<Rightarrow> (Fulfilled (), s')
           | (r, s') \<Rightarrow> (r, s')))"

section \<open>Intake and gas defaults\<close>

definition getDefaultGasFees ::
  "env \<Rightarrow> txMeta \<Rightarrow> bool \<Rightarrow> controller \<Rightarrow> gasSettings outcome \<times> controller" where
  "getDefaultGasFees e txMeta eip1559Compatibility s =
     (let p = txParams txMeta;
          fromNode = andThen (queryGasPrice e, s) (\<lambda>price s1.
            (Fulfilled (emptyGasSettings
               \<lparr>cg_gasPrice := map_option (\<lambda>n. addHexPrefix (toString16 n)) price\<rparr>), s1))
      in if (\<not> eip1559Compatibility \<and> truthy (gasPrice p))
            \<or> (eip1559Compatibility \<and> truthy (maxFeePerGas p) \<and> truthy (maxPriorityFeePerGas p))
         then (Fulfilled emptyGasSettings, s)
         else (case gasFeeEstimates e of
                 Pending \<Rightarrow> (Pending, s)
               | Thrown er \<Rightarrow> fromNode
               | Fulfilled (FeeMarketEstimates suggestedMaxPriority suggestedMaxFee) \<Rightarrow>
                   (if eip1559Compatibility
                    then (if truthy suggestedMaxPriority \<and> truthy suggestedMaxFee
                          then (Fulfilled (emptyGasSettings
                                  \<lparr>cg_maxFeePerGas := map_option (decGWEIToHexWEI e) suggestedMaxFee,
                                   cg_maxPriorityFeePerGas :=
                                     map_option (decGWEIToHexWEI e) suggestedMaxPriority\<rparr>), s)
                          else fromNode)
                    else fromNode)
               | Fulfilled (LegacyEstimates medium) \<Rightarrow>
                   (Fulfilled (emptyGasSettings\<lparr>cg_gasPrice := Some (decGWEIToHexWEI e medium)\<rparr>), s)
               | Fulfilled (EthGasPriceEstimates price) \<Rightarrow>
                   (Fulfilled (emptyGasSettings\<lparr>cg_gasPrice := Some (decGWEIToHexWEI e price)\<rparr>), s)
               | Fulfilled NoEstimates \<Rightarrow> fromNode))"

definition getDefaultGasLimit ::
  "env \<Rightarrow> txMeta \<Rightarrow> string option \<Rightarrow> controller
     \<Rightarrow> (string option \<times> string option) outcome \<times> controller" where
  "getDefaultGasLimit e txMeta getCodeResponse s =
     (if truthy (gas (txParams txMeta)) then (Fulfilled (None, None), s)
      else if truthy (toAddr (txParams txMeta)) \<and> tx_type txMeta = Some SENT_ETHER
              \<and> chainTypeOf e \<noteq> Custom
      then (if truthy (txData (txParams txMeta))
            then (Thrown (NonContractCall getCodeResponse), s)
            else (Fulfilled (Some GAS_LIMITS_SIMPLE, None), s))
      else andThen (analyzeGasUsage e txMeta, s) (\<lambda>(blockGasLimit, estimatedGasHex, simFails) s1.
             (Fulfilled (Some (addGasBuffer e (addHexPrefix estimatedGasHex) blockGasLimit),
                         simFails), s1)))"

text \<open>The assignments of \<^verbatim>\<open>addTxGasDefaults\<close> to \<^verbatim>\<open>txMeta.txParams\<close> and
  \<^verbatim>\<open>txMeta.userFeeLevel\<close>, in the order of the source.\<close>

definition feeMarketDefaults :: "gasSettings \<Rightarrow> txParams \<Rightarrow> txParams" where
  "feeMarketDefaults d p =
     (let pa = (if truthy (cg_maxFeePerGas d) \<and> \<not> truthy (maxFeePerGas p)
                then p\<lparr>maxFeePerGas := cg_maxFeePerGas d\<rparr> else p);
          pb = (if truthy (cg_maxPriorityFeePerGas d) \<and> \<not> truthy (maxPriorityFeePerGas pa)
                then pa\<lparr>maxPriorityFeePerGas := cg_maxPriorityFeePerGas d\<rparr> else pa);
          pc = (if truthy (cg_gasPrice d) \<and> \<not> truthy (maxFeePerGas pb)
                then pb\<lparr>maxFeePerGas := cg_gasPrice d\<rparr> else pb)
      in if truthy (maxFeePerGas pc) \<and> \<not> truthy (maxPriorityFeePerGas pc)
         then pc\<lparr>maxPriorityFeePerGas := maxFeePerGas pc\<rparr> else pc)"

definition applyGasDefaults ::
  "bool \<Rightarrow> gasSettings \<Rightarrow> string option \<Rightarrow> string option \<Rightarrow> txMeta \<Rightarrow> txMeta" where
  "applyGasDefaults eip1559Compatibility d defaultGasLimit simFails txMeta0 =
     (let txMeta = (if truthy simFails then txMeta0\<lparr>simulationFails := simFails\<rparr> else txMeta0);
          p = txParams txMeta;
          (level, p1) =
            (if eip1559Compatibility
             then (if truthy (gasPrice p) \<and> \<not> truthy (maxFeePerGas p)
                       \<and> \<not> truthy (maxPriorityFeePerGas p)
                   then (Some ''custom'',
                         p\<lparr>maxFeePerGas := gasPrice p, maxPriorityFeePerGas := gasPrice p,
                           gasPrice := None\<rparr>)
                   else (if (truthy (cg_maxFeePerGas d) \<and> truthy (cg_maxPriorityFeePerGas d)
                             \<and> \<not> truthy (maxFeePerGas p) \<and> \<not> truthy (maxPriorityFeePerGas p))
                            \<or> origin txMeta = Some ''metamask''
                         then Some ''medium'' else Some ''custom'',
                         (feeMarketDefaults d p)\<lparr>gasPrice := None\<rparr>))
             else (userFeeLevel txMeta, p\<lparr>maxPriorityFeePerGas := None, maxFeePerGas := None\<rparr>));
          p2 = (if truthy (cg_gasPrice d) \<and> \<not> truthy (gasPrice p1)
                   \<and> \<not> truthy (maxPriorityFeePerGas p1) \<and> \<not> truthy (maxFeePerGas p1)
                then p1\<lparr>gasPrice := cg_gasPrice d\<rparr> else p1);
          p3 = (if truthy defaultGasLimit \<and> \<not> truthy (gas p2)
                then p2\<lparr>gas := defaultGasLimit\<rparr> else p2)
      in txMeta\<lparr>userFeeLevel := level, txParams := p3\<rparr>)"

definition addTxGasDefaults ::
  "env \<Rightarrow> txMeta \<Rightarrow> string option \<Rightarrow> controller \<Rightarrow> unit outcome \<times> controller" where
  "addTxGasDefaults e txMeta getCodeResponse s =
     andThen (getEIP1559Compatibility e None s) (\<lambda>eip1559Compatibility s1.
     andThen (getDefaultGasFees e txMeta eip1559Compatibility s1) (\<lambda>d s2.
     andThen (getDefaultGasLimit e txMeta getCodeResponse s2) (\<lambda>(defaultGasLimit, simFails) s3.
       (case getTransaction (tx_id txMeta) s3 of
          None \<Rightarrow> (Thrown (TypeError ''txMeta is undefined''), s3)
        | Some stored \<Rightarrow>
            (Fulfilled (),
             modifyTx (tx_id txMeta)
               (applyGasDefaults eip1559Compatibility d defaultGasLimit simFails) s3)))))"

definition determineTransactionType ::
  "env \<Rightarrow> txParams \<Rightarrow> controller \<Rightarrow> (txType \<times> string option) outcome \<times> controller" where
  "determineTransactionType e p s =
     (let tokenMethodName = (if truthy (txData p) then tokenMethod e (orElse (txData p) []) else None);
          result = (if truthy (txData p) \<and> tokenMethodName \<noteq> None then tokenMethodName
                    else if truthy (txData p) \<and> \<not> truthy (toAddr p) then Some DEPLOY_CONTRACT
                    else None)
      in case result of
           Some ty \<Rightarrow> (Fulfilled (ty, None), s)
         | None \<Rightarrow>
             (case getCode e (toAddr p) of
                Pending \<Rightarrow> (Pending, s)
              | Thrown er \<Rightarrow> (Fulfilled (SENT_ETHER, None), s)
              | Fulfilled code \<Rightarrow>
                  (let codeIsEmpty = (\<not> truthy code \<or> code = Some ''0x'' \<or> code = Some ''0x0'')
                   in (Fulfilled (if codeIsEmpty then SENT_ETHER else CONTRACT_INTERACTION, code), s))))"

definition authorizeOrigin ::
  "env \<Rightarrow> string option \<Rightarrow> txParams \<Rightarrow> controller \<Rightarrow> unit outcome \<times> controller" where
  "authorizeOrigin e originArg normalizedTxParams s =
     (if originArg = Some ''metamask''
      then (if Some (fromAddr normalizedTxParams) \<noteq> selectedAddress e
            then (Thrown (InvalidAccount originArg (fromAddr normalizedTxParams) (selectedAddress e)), s)
            else (Fulfilled (), s))
      else andThen (permittedAccounts e originArg, s) (\<lambda>permittedAddresses s1.
             if fromAddr normalizedTxParams \<notin> set permittedAddresses
             then (Thrown (Unauthorized originArg), s1)
             else (Fulfilled (), s1)))"

definition addUnapprovedTransaction ::
  "env \<Rightarrow> txParams \<Rightarrow> string option \<Rightarrow> controller \<Rightarrow> nat outcome \<times> controller" where
  "addUnapprovedTransaction e p originArg s =
     (let normalizedTxParams = normalizeTxParams e p in
      andThen (getEIP1559Compatibility e None s) (\<lambda>eip1559Compatibility s1.
        case validateTxParams e normalizedTxParams eip1559Compatibility of
          Some er \<Rightarrow> (Thrown er, s1)
        | None \<Rightarrow>
            (let (generated, s2) = generateTxMeta normalizedTxParams s1;
                 txMeta0 = generated\<lparr>origin := originArg\<rparr>
             in andThen (authorizeOrigin e originArg normalizedTxParams s2) (\<lambda>_ s3.
                andThen (determineTransactionType e p s3) (\<lambda>(ty, getCodeResponse) s4.
                  (let txMeta = txMeta0\<lparr>tx_type := Some ty,
                         txParams := (txParams txMeta0)
                           \<lparr>txValue := Some (if truthy (txValue (txParams txMeta0))
                                              then addHexPrefix (orElse (txValue (txParams txMeta0)) [])
                                              else ''0x0'')\<rparr>\<rparr>;
                       txId = tx_id txMeta
                   in andThen (addTransaction txMeta s4) (\<lambda>_ s5.
                        case addTxGasDefaults e txMeta getCodeResponse s5 of
                          (Pending, s6) \<Rightarrow> (Pending, s6)
                        | (Thrown er, s6) \<Rightarrow>
                            andThen (updateTransaction txId
                                       (modifyTx txId (\<lambda>t. t\<lparr>loadingDefaults := False\<rparr>) s6))
                              (\<lambda>_ s7. (Thrown er, s7))
                        | (Fulfilled u, s6) \<Rightarrow>
                            andThen (updateTransaction txId
                                       (modifyTx txId (\<lambda>t. t\<lparr>loadingDefaults := False\<rparr>) s6))
                              (\<lambda>_ s7. (Fulfilled txId, s7)))))))))"

section \<open>Notions used in the statements\<close>

text \<open>The record with id \<open>i\<close> is in the store and its status is one of \<open>A\<close>.\<close>

definition statusIn :: "status set \<Rightarrow> nat \<Rightarrow> controller \<Rightarrow> bool" where
  "statusIn A i s = (\<exists>t. getTransaction i s = Some t \<and> status t \<in> A)"

text \<open>The value of \<open>h\<close> on the record with id \<open>i\<close>, if the record is in the store.\<close>

definition fieldOf :: "(txMeta \<Rightarrow> 'a) \<Rightarrow> nat \<Rightarrow> controller \<Rightarrow> 'a option" where
  "fieldOf h i s = map_option h (getTransaction i s)"

text \<open>\<open>h\<close> does not read the fields that signing, broadcasting and failing write.\<close>

definition approvalFrame :: "(txMeta \<Rightarrow> 'a) \<Rightarrow> bool" where
  "approvalFrame h =
     (\<forall>t. (\<forall>x. h (t\<lparr>status := x\<rparr>) = h t) \<and> (\<forall>x. h (t\<lparr>err := x\<rparr>) = h t)
        \<and> (\<forall>x. h (t\<lparr>sig_r := x\<rparr>) = h t) \<and> (\<forall>x. h (t\<lparr>sig_s := x\<rparr>) = h t)
        \<and> (\<forall>x. h (t\<lparr>sig_v := x\<rparr>) = h t) \<and> (\<forall>x. h (t\<lparr>rawTx := x\<rparr>) = h t)
        \<and> (\<forall>x. h (t\<lparr>hash := x\<rparr>) = h t) \<and> (\<forall>x. h (t\<lparr>preTxBalance := x\<rparr>) = h t))"

text \<open>Exactly one fee shape: a gas price alone, or the fee-market pair alone.\<close>

definition oneFeeShape :: "txParams \<Rightarrow> bool" where
  "oneFeeShape p =
     ((truthy (gasPrice p) \<and> maxFeePerGas p = None \<and> maxPriorityFeePerGas p = None)
      \<or> (gasPrice p = None \<and> truthy (maxFeePerGas p) \<and> truthy (maxPriorityFeePerGas p)))"

text \<open>The sender passes the check of \<^verbatim>\<open>addUnapprovedTransaction\<close> for the origin.\<close>

definition authorized :: "env \<Rightarrow> string option \<Rightarrow> txParams \<Rightarrow> bool" where
  "authorized e originArg p =
     (if originArg = Some ''metamask'' then Some (fromAddr p) = selectedAddress e
      else (case permittedAccounts e originArg of
              Fulfilled permittedAddresses \<Rightarrow> fromAddr p \<in> set permittedAddresses
            | Thrown er \<Rightarrow> False
            | Pending \<Rightarrow> False))"

text \<open>\<^verbatim>\<open>getCode\<close> fails or reports no contract code.\<close>

definition noContractCode :: "string option outcome \<Rightarrow> bool" where
  "noContractCode r =
     (case r of
        Fulfilled c \<Rightarrow> \<not> truthy c \<or> c = Some ''0x'' \<or> c = Some ''0x0''
      | Thrown er \<Rightarrow> True
      | Pending \<Rightarrow> False)"

text \<open>Another record at the sender and nonce of \<open>t\<close>.\<close>

definition nonceDuplicate :: "txMeta \<Rightarrow> txMeta \<Rightarrow> bool" where
  "nonceDuplicate t other =
     (tx_id other \<noteq> tx_id t \<and> nonce (txParams other) = nonce (txParams t)
      \<and> fromAddr (txParams other) = fromAddr (txParams t))"

text \<open>The record \<open>t\<close> after \<^verbatim>\<open>_markNonceDuplicatesDropped\<close> has visited it for a confirmed
  hash \<open>h\<close>, with the store of the spec: the stamp is written, and the status becomes
  \<^verbatim>\<open>dropped\<close> unless it was terminal.\<close>

definition droppedBy :: "string option \<Rightarrow> txMeta \<Rightarrow> txMeta" where
  "droppedBy h t =
     (if terminal (status t) then t\<lparr>replacedBy := h\<rparr> else t\<lparr>replacedBy := h, status := DROPPED\<rparr>)"

section \<open>A sample wallet\<close>

text \<open>A legacy transfer awaiting approval, and collaborators that all answer.\<close>

definition sampleParams :: txParams where
  "sampleParams =
     \<lparr>fromAddr = ''0xa1'', toAddr = Some ''0xb2'', nonce = None, txValue = Some ''0x1'',
      txData = None, gas = Some ''0x5208'', gasPrice = Some ''0xa'', maxFeePerGas = None,
      maxPriorityFeePerGas = None\<rparr>"

definition sampleTx :: txMeta where
  "sampleTx =
     \<lparr>tx_id = 1, status = UNAPPROVED, txParams = sampleParams, origin = Some ''metamask'',
      tx_type = Some SENT_ETHER, loadingDefaults = False, previousGasParams = None,
      customNonceValue = None, userFeeLevel = None, simulationFails = None,
      estimatedBaseFee = None, rawTx = None, hash = None, sig_r = None, sig_s = None,
      sig_v = None, err = None, replacedBy = None, txReceipt = None, baseFeePerGas = None,
      preTxBalance = None, postTxBalance = None\<rparr>"

definition sampleStore :: controller where
  "sampleStore =
     \<lparr>transactions = [sampleTx], nextId = 2, inProcessOfSigning = {}, nonceLocks = [],
      calls = []\<rparr>"

definition sampleSigned :: signedTx where
  "sampleSigned = \<lparr>st_r = ''0x1'', st_s = ''0x2'', st_v = ''0x25'', st_serialized = ''0xf86c''\<rparr>"

definition sampleEnv :: env where
  "sampleEnv =
     \<lparr>selectedAddress = Some ''0xa1'',
      permittedAccounts = (\<lambda>origin. Fulfilled [''0xa1'']),
      networkEIP1559 = Fulfilled False,
      accountEIP1559 = (\<lambda>a. Fulfilled True),
      chainId = 1,
      chainTypeOf = Mainnet,
      normalizeTxParams = (\<lambda>p. p),
      validateTxParams = (\<lambda>p c. None),
      tokenMethod = (\<lambda>d. None),
      getCode = (\<lambda>a. Fulfilled (Some ''0x'')),
      gasFeeEstimates = Fulfilled (LegacyEstimates ''20''),
      decGWEIToHexWEI = (\<lambda>d. ''0x4a817c800''),
      queryGasPrice = Fulfilled (Some 20000000000),
      analyzeGasUsage = (\<lambda>t. Fulfilled (''0x1c9c380'', ''0x5208'', None)),
      addGasBuffer = (\<lambda>g b. g),
      nonceLockFor = (\<lambda>a. Fulfilled 5),
      signEthTx = (\<lambda>p a. Fulfilled sampleSigned),
      sendRawTransaction = (\<lambda>raw. Fulfilled ''0xabc''),
      getBalance = (\<lambda>a. Fulfilled 1000),
      keccak = (\<lambda>raw. ''9f3c''),
      statusChange = specStatusChange\<rparr>"

text \<open>A replacement at nonce \<^verbatim>\<open>0x7\<close> for which the user asked for nonce 0.\<close>

definition customNonceTx :: txMeta where
  "customNonceTx =
     sampleTx\<lparr>customNonceValue := Some 0, previousGasParams := Some emptyGasSettings,
       txParams := sampleParams\<lparr>nonce := Some ''0x7''\<rparr>\<rparr>"

definition customNonceStore :: controller where
  "customNonceStore = sampleStore\<lparr>transactions := [customNonceTx]\<rparr>"

text \<open>The sample transfer after its broadcast at nonce 3.\<close>

definition submittedTx :: txMeta where
  "submittedTx =
     sampleTx\<lparr>status := SUBMITTED, txParams := sampleParams\<lparr>nonce := Some ''0x3''\<rparr>,
       rawTx := Some ''0xf86c'', hash := Some ''0xabc''\<rparr>"

definition submittedStore :: controller where
  "submittedStore = sampleStore\<lparr>transactions := [submittedTx]\<rparr>"

text \<open>A draft that calls a function on an address without code, with no gas limit and
  with one, and a draft that names no fee.\<close>

definition callDraft :: txParams where
  "callDraft = sampleParams\<lparr>txData := Some ''0xdeadbeef'', gas := None\<rparr>"

definition callDraftWithGas :: txParams where
  "callDraftWithGas = sampleParams\<lparr>txData := Some ''0xdeadbeef''\<rparr>"

definition plainDraft :: txParams where
  "plainDraft = sampleParams\<lparr>gas := None, gasPrice := None\<rparr>"

text \<open>A speed-up of the submitted transfer, broadcast at the same nonce, and the receipt
  of that speed-up.\<close>

definition speedUpTx :: txMeta where
  "speedUpTx =
     submittedTx\<lparr>tx_id := 2, tx_type := Some RETRY, hash := Some ''0xdef'',
       txParams := (txParams submittedTx)\<lparr>gasPrice := Some ''0xb''\<rparr>,
       previousGasParams := Some (emptyGasSettings\<lparr>cg_gasPrice := Some ''0xa''\<rparr>)\<rparr>"

definition replacedStore :: controller where
  "replacedStore = sampleStore\<lparr>transactions := [submittedTx, speedUpTx], nextId := 3\<rparr>"

definition sampleReceipt :: receipt where
  "sampleReceipt = \<lparr>rc_gasUsed = Inr 21000, rc_status = Some ''0x1''\<rparr>"

text \<open>The draft without fees, stored and awaiting its defaults.\<close>

definition draftTx :: txMeta where
  "draftTx = sampleTx\<lparr>txParams := plainDraft, loadingDefaults := True\<rparr>"

definition defaultsStore :: controller where
  "defaultsStore = sampleStore\<lparr>transactions := [draftTx]\<rparr>"

text \<open>The sample transfer, mined: its record is in a terminal status.\<close>

definition confirmedTx :: txMeta where
  "confirmedTx = submittedTx\<lparr>status := CONFIRMED\<rparr>"

definition confirmedStore :: controller where
  "confirmedStore = sampleStore\<lparr>transactions := [confirmedTx]\<rparr>"

text \<open>The submitted transfer after a failure and after the tracker dropped it, and the store
  in which the failed transfer shares its nonce with the speed-up.\<close>

definition failedTx :: txMeta where
  "failedTx = submittedTx\<lparr>status := FAILED, err := Some (External ''nonce too low'')\<rparr>"

definition failedStore :: controller where
  "failedStore = sampleStore\<lparr>transactions := [failedTx, speedUpTx], nextId := 3\<rparr>"

definition droppedTx :: txMeta where
  "droppedTx = submittedTx\<lparr>status := DROPPED\<rparr>"

definition droppedStore :: controller where
  "droppedStore = sampleStore\<lparr>transactions := [droppedTx]\<rparr>"

section \<open>Evaluation on the sample wallet\<close>

lemmas sample_defs = sampleEnv_def sampleStore_def sampleTx_def sampleParams_def sampleSigned_def

lemmas run_defs = approveTransaction_def approveAcquire_def approveLocked_def andThen_def
  setTxStatusApproved_def setTxStatusSigned_def setTxStatusSubmitted_def setTxStatusFailed_def
  setTransactionStatus_def getTransaction_def modifyTx_def updateTransaction_def
  getNonceLock_def releaseLock_def signTransaction_def publishTransaction_def broadcast_def
  setTxHash_def failSwallowed_def failTransaction_def finallyDelete_def chooseNonce_def
  getCommonConfiguration_def getEIP1559Compatibility_def isEIP1559Transaction_def
  specStatusChange_def terminal_def addHexPrefix_def Let_def

text \<open>Evaluation proceeds from the outside: the continuation of \<open>andThen\<close> is looked at
  only once the first step has produced its result.\<close>

lemma andThen_weak_cong: "m = m' \<Longrightarrow> andThen m f = andThen m' f"
  by simp

lemma andThen_simps:
  "andThen (Fulfilled a, s) f = f a s"
  "andThen (Thrown er, s) f = (Thrown er, s)"
  "andThen (Pending, s) f = (Pending, s)"
  by (simp_all add: andThen_def)

lemmas eval_defs = approveTransaction_def approveAcquire_def approveLocked_def andThen_simps
  setTxStatusApproved_def setTxStatusSigned_def setTxStatusSubmitted_def setTxStatusFailed_def
  setTxStatusConfirmed_def setTxStatusDropped_def
  setTransactionStatus_def getTransaction_def modifyTx_def updateTransaction_def
  getNonceLock_def releaseLock_def signTransaction_def publishTransaction_def broadcast_def
  setTxHash_def failSwallowed_def failTransaction_def dropTransaction_def finallyDelete_def
  chooseNonce_def
  getCommonConfiguration_def getEIP1559Compatibility_def isEIP1559Transaction_def
  specStatusChange_def terminal_def addHexPrefix_def Let_def
  createCancelTransaction_def createSpeedUpTransaction_def
  generateNewGasParams_def bumpedFee_def bnToHex_def BnMultiplyByFraction_def hexToBn_def
  stripHexPrefix_def hexValue_def truthy_def orElse_def nullishElse_def emptyGasSettings_def
  spreadGasParams_def generateTxMeta_def addTransaction_def storeAddTransaction_def
  withEstimatedBaseFee_def GAS_LIMITS_SIMPLE_def submittedStore_def submittedTx_def
  fieldOf_def toString16.simps hexDigits_def toLowerCase_def toLowerChar_def

section \<open>Frame lemmas\<close>

lemma andThen_keeps:
  assumes "\<And>a s1. g (snd (f a s1)) = g s1"
  shows "g (snd (andThen m f)) = g (snd m)"
  using assms by (cases m; cases "fst m") (auto simp: andThen_def split: outcome.splits)

lemma andThen_cases:
  assumes "andThen m f = (r, s')"
  obtains (ok) a s1 where "m = (Fulfilled a, s1)" "f a s1 = (r, s')"
        | (thrown) er where "m = (Thrown er, s')" "r = Thrown er"
        | (pending) "m = (Pending, s')" "r = Pending"
  using assms by (cases m; cases "fst m") (auto simp: andThen_def split: outcome.splits)

lemma find_map_upd:
  assumes "\<And>t. tx_id (f t) = tx_id t"
  shows "find (\<lambda>t. tx_id t = i) (map (\<lambda>t. if tx_id t = j then f t else t) xs) =
         (if i = j then map_option f (find (\<lambda>t. tx_id t = i) xs) else find (\<lambda>t. tx_id t = i) xs)"
  using assms by (induction xs) auto

lemma getTransaction_modifyTx:
  assumes "\<And>t. tx_id (f t) = tx_id t"
  shows "getTransaction i (modifyTx j f s) =
         (if i = j then map_option f (getTransaction i s) else getTransaction i s)"
  using find_map_upd [OF assms] by (simp add: getTransaction_def modifyTx_def)

lemma modifyTx_frame [simp]:
  "inProcessOfSigning (modifyTx i f s) = inProcessOfSigning s"
  "nonceLocks (modifyTx i f s) = nonceLocks s"
  "nextId (modifyTx i f s) = nextId s"
  "calls (modifyTx i f s) = calls s"
  by (simp_all add: modifyTx_def)

lemma getTransaction_frame [simp]:
  "getTransaction i (s\<lparr>inProcessOfSigning := a\<rparr>) = getTransaction i s"
  "getTransaction i (s\<lparr>nonceLocks := b\<rparr>) = getTransaction i s"
  "getTransaction i (s\<lparr>calls := c\<rparr>) = getTransaction i s"
  "getTransaction i (s\<lparr>nextId := d\<rparr>) = getTransaction i s"
  by (simp_all add: getTransaction_def)

lemma updateTransaction_state [simp]: "snd (updateTransaction i s) = s"
  by (simp add: updateTransaction_def)

lemma getEIP1559Compatibility_state [simp]: "snd (getEIP1559Compatibility e a s) = s"
  by (simp add: getEIP1559Compatibility_def andThen_def split: outcome.splits)

lemma setTransactionStatus_frame [simp]:
  "inProcessOfSigning (snd (setTransactionStatus e i st f s)) = inProcessOfSigning s"
  "nonceLocks (snd (setTransactionStatus e i st f s)) = nonceLocks s"
  by (simp_all add: setTransactionStatus_def split: option.splits verdict.splits)

lemma signTransaction_frame [simp]:
  "inProcessOfSigning (snd (signTransaction e i s)) = inProcessOfSigning s"
  "nonceLocks (snd (signTransaction e i s)) = nonceLocks s"
  unfolding signTransaction_def
  by (simp_all split: option.splits add: Let_def getCommonConfiguration_def andThen_keeps
        setTxStatusSigned_def)

lemma broadcast_frame [simp]:
  "inProcessOfSigning (snd (broadcast e raw s)) = inProcessOfSigning s"
  "nonceLocks (snd (broadcast e raw s)) = nonceLocks s"
  by (simp_all add: broadcast_def Let_def split: outcome.splits)

lemma setTxHash_frame [simp]:
  "inProcessOfSigning (snd (setTxHash i h s)) = inProcessOfSigning s"
  "nonceLocks (snd (setTxHash i h s)) = nonceLocks s"
  by (simp_all add: setTxHash_def split: option.splits)

lemma publishTransaction_frame [simp]:
  "inProcessOfSigning (snd (publishTransaction e i raw s)) = inProcessOfSigning s"
  "nonceLocks (snd (publishTransaction e i raw s)) = nonceLocks s"
  unfolding publishTransaction_def
  by (simp_all split: option.splits add: Let_def andThen_keeps setTxStatusSubmitted_def)

lemma getNonceLock_inProc [simp]:
  "inProcessOfSigning (snd (getNonceLock e a s)) = inProcessOfSigning s"
  by (simp add: getNonceLock_def Let_def split: outcome.splits)

lemma approveAcquire_inProc [simp]:
  "inProcessOfSigning (snd (approveAcquire e i s)) = inProcessOfSigning s"
  unfolding approveAcquire_def
  by (simp add: andThen_keeps setTxStatusApproved_def split: option.splits)

lemma releaseLock_frame [simp]:
  "inProcessOfSigning (releaseLock l s) = inProcessOfSigning s"
  "getTransaction i (releaseLock l s) = getTransaction i s"
  by (simp_all add: releaseLock_def)

lemma approveLocked_inProc [simp]:
  "inProcessOfSigning (snd (approveLocked e i c l s)) = inProcessOfSigning s"
  unfolding approveLocked_def
  by (simp add: andThen_keeps Let_def split: option.splits)

section \<open>Coalescing of approvals\<close>

text \<open>
  C6. A call of \<^verbatim>\<open>approveTransaction(txId)\<close> made while \<open>txId\<close> is in
  \<^verbatim>\<open>inProcessOfSigning\<close> returns at once and leaves the whole state as it is: no status
  change, no request to the nonce tracker, the signer or the broadcaster. A call that starts
  with \<open>txId\<close> outside the set keeps it in the set for as long as it is suspended, so a second
  call made in that state is such a no-op; when the first call has returned or thrown, the
  id is out of the set again.
\<close>

theorem approveTransaction_coalesced:
  "(txId \<in> inProcessOfSigning s \<longrightarrow> approveTransaction e txId s = (Fulfilled (), s))
   \<and> (txId \<notin> inProcessOfSigning s \<longrightarrow>
        (case approveTransaction e txId s of
           (Pending, s1) \<Rightarrow>
             txId \<in> inProcessOfSigning s1 \<and> approveTransaction e2 txId s1 = (Fulfilled (), s1)
         | (r, s1) \<Rightarrow> txId \<notin> inProcessOfSigning s1))"
proof (intro conjI impI)
  assume "txId \<in> inProcessOfSigning s"
  then show "approveTransaction e txId s = (Fulfilled (), s)"
    by (simp add: approveTransaction_def)
next
  assume notin: "txId \<notin> inProcessOfSigning s"
  define s0 where "s0 = s\<lparr>inProcessOfSigning := insert txId (inProcessOfSigning s)\<rparr>"
  have a: "inProcessOfSigning (snd (approveAcquire e txId s0)) = insert txId (inProcessOfSigning s)"
    by (simp add: s0_def)
  have b: "\<And>c l s1. inProcessOfSigning s1 = insert txId (inProcessOfSigning s) \<Longrightarrow>
        inProcessOfSigning (snd (approveLocked e txId c l s1)) = insert txId (inProcessOfSigning s)"
    by simp
  show "case approveTransaction e txId s of
           (Pending, s1) \<Rightarrow>
             txId \<in> inProcessOfSigning s1 \<and> approveTransaction e2 txId s1 = (Fulfilled (), s1)
         | (r, s1) \<Rightarrow> txId \<notin> inProcessOfSigning s1"
  proof (cases "approveAcquire e txId s0")
    case (Pair r1 s1)
    with a have s1: "inProcessOfSigning s1 = insert txId (inProcessOfSigning s)" by simp
    show ?thesis
    proof (cases r1)
      case (Fulfilled cl)
      obtain c l where cl: "cl = (c, l)" by (cases cl)
      obtain r2 s2 where r2: "approveLocked e txId c l s1 = (r2, s2)"
        by (cases "approveLocked e txId c l s1")
      with b [OF s1, of c l] have s2: "inProcessOfSigning s2 = insert txId (inProcessOfSigning s)"
        by simp
      show ?thesis using notin Pair Fulfilled cl r2 s2
        by (cases r2) (simp_all add: approveTransaction_def s0_def [symmetric] finallyDelete_def
             failSwallowed_def failTransaction_def setTxStatusFailed_def releaseLock_def)
    next
      case (Thrown er)
      then show ?thesis using notin Pair s1
        by (simp add: approveTransaction_def s0_def [symmetric] finallyDelete_def
             failSwallowed_def failTransaction_def setTxStatusFailed_def)
    next
      case Pending
      then show ?thesis using notin Pair s1
        by (simp add: approveTransaction_def s0_def [symmetric])
    qed
  qed
qed

theorem approveTransaction_coalesced_witness:
  "1 \<notin> inProcessOfSigning sampleStore
   \<and> (case approveTransaction (sampleEnv\<lparr>signEthTx := (\<lambda>p a. Pending)\<rparr>) 1 sampleStore of
        (r, s1) \<Rightarrow> r = Pending \<and> 1 \<in> inProcessOfSigning s1
           \<and> approveTransaction sampleEnv 1 s1 = (Fulfilled (), s1))
   \<and> (case approveTransaction sampleEnv 1 sampleStore of
        (r, s1) \<Rightarrow> r = Fulfilled () \<and> 1 \<notin> inProcessOfSigning s1)"
  using approveTransaction_coalesced
      [of 1 sampleStore "sampleEnv\<lparr>signEthTx := (\<lambda>p a. Pending)\<rparr>" sampleEnv]
    approveTransaction_coalesced [of 1 sampleStore sampleEnv sampleEnv]
  by (simp add: sample_defs run_defs toString16.simps hexDigits_def)

section \<open>Status of a record along an approval\<close>

lemma statusIn_andThen:
  assumes "statusIn A i (snd m)" and "\<And>a s1. statusIn A i s1 \<Longrightarrow> statusIn A i (snd (f a s1))"
  shows "statusIn A i (snd (andThen m f))"
  using assms by (cases m; cases "fst m") (auto simp: andThen_def split: outcome.splits)

lemma statusIn_frame [simp]:
  "statusIn A i (s\<lparr>inProcessOfSigning := a\<rparr>) = statusIn A i s"
  "statusIn A i (s\<lparr>nonceLocks := b\<rparr>) = statusIn A i s"
  "statusIn A i (s\<lparr>calls := c\<rparr>) = statusIn A i s"
  by (simp_all add: statusIn_def)

lemma statusIn_modifyTx:
  assumes "statusIn A i s" and "\<And>t. tx_id (f t) = tx_id t" and "\<And>t. status (f t) = status t"
  shows "statusIn A i (modifyTx j f s)"
  using assms by (auto simp: statusIn_def getTransaction_modifyTx)

lemma statusIn_setTransactionStatus:
  assumes "statusIn A i s" and "st \<in> A" and "\<And>t. tx_id (f t) = tx_id t"
  shows "statusIn A i (snd (setTransactionStatus e j st f s))"
  using assms
  by (auto simp: statusIn_def setTransactionStatus_def getTransaction_modifyTx
      split: option.splits verdict.splits)

lemma statusIn_getNonceLock:
  "statusIn A i s \<Longrightarrow> statusIn A i (snd (getNonceLock e a s))"
  by (simp add: getNonceLock_def Let_def split: outcome.splits)

lemma statusIn_approveAcquire:
  assumes "statusIn A i s" and "APPROVED \<in> A"
  shows "statusIn A i (snd (approveAcquire e i s))"
  unfolding approveAcquire_def setTxStatusApproved_def
  apply (rule statusIn_andThen)
   apply (rule statusIn_setTransactionStatus [OF assms]; simp)
  apply (simp split: option.splits)
  apply (intro allI impI statusIn_andThen statusIn_getNonceLock; simp)
  done

lemma statusIn_signTransaction:
  assumes "statusIn A i s" and "SIGNED \<in> A"
  shows "statusIn A i (snd (signTransaction e i s))"
  using assms unfolding signTransaction_def setTxStatusSigned_def getCommonConfiguration_def
  apply (simp split: option.splits add: Let_def)
  apply (intro allI impI conjI statusIn_andThen statusIn_setTransactionStatus statusIn_modifyTx; simp?)+
  done

lemma statusIn_broadcast:
  "statusIn A i s \<Longrightarrow> statusIn A i (snd (broadcast e raw s))"
  by (simp add: broadcast_def Let_def split: outcome.splits)

lemma statusIn_setTxHash:
  "statusIn A i s \<Longrightarrow> statusIn A i (snd (setTxHash j h s))"
  by (auto simp: setTxHash_def intro: statusIn_modifyTx split: option.splits)

lemma statusIn_publishTransaction:
  assumes "statusIn A i s" and "SUBMITTED \<in> A"
  shows "statusIn A i (snd (publishTransaction e i raw s))"
  using assms unfolding publishTransaction_def setTxStatusSubmitted_def
  apply (simp split: option.splits add: Let_def)
  apply (intro allI impI conjI statusIn_andThen statusIn_setTransactionStatus statusIn_modifyTx
      statusIn_broadcast statusIn_setTxHash; simp?)+
  done

lemma statusIn_approveLocked:
  assumes "statusIn A i s" and "SIGNED \<in> A" and "SUBMITTED \<in> A"
  shows "statusIn A i (snd (approveLocked e i c l s))"
  using assms unfolding approveLocked_def
  apply (simp split: option.splits add: Let_def)
  apply (intro allI impI conjI statusIn_andThen statusIn_signTransaction statusIn_publishTransaction
       statusIn_modifyTx; (simp add: releaseLock_def)?)+
  done

lemma failSwallowed_failed:
  assumes "statusIn A i s" and "\<forall>st\<in>A. statusChange e st FAILED = Apply"
  shows "\<exists>t'. getTransaction i (failSwallowed e i er s) = Some t' \<and> status t' = FAILED
           \<and> err t' = Some er"
  using assms
  by (auto simp: statusIn_def failSwallowed_def failTransaction_def setTxStatusFailed_def
      setTransactionStatus_def getTransaction_modifyTx)


lemma setTxStatus_locksD:
  "setTransactionStatus e i st f s = (r, s') \<Longrightarrow> nonceLocks s' = nonceLocks s"
  using setTransactionStatus_frame(2) [of e i st f s] by simp

lemma signTransaction_locksD:
  "signTransaction e i s = (r, s') \<Longrightarrow> nonceLocks s' = nonceLocks s"
  using signTransaction_frame(2) [of e i s] by simp

lemma publishTransaction_locksD:
  "publishTransaction e i raw s = (r, s') \<Longrightarrow> nonceLocks s' = nonceLocks s"
  using publishTransaction_frame(2) [of e i raw s] by simp

lemma updateTransaction_D: "updateTransaction i s = (r, s') \<Longrightarrow> s' = s"
  using updateTransaction_state [of i s] by simp

lemma getNonceLock_locks:
  assumes "getNonceLock e a s = (r, s')"
  shows "case r of
           Fulfilled l \<Rightarrow> lockAddress l = a \<and> a \<notin> set (nonceLocks s) \<and> nonceLocks s' = a # nonceLocks s
         | _ \<Rightarrow> nonceLocks s' = nonceLocks s"
  using assms by (auto simp: getNonceLock_def Let_def split: outcome.splits if_splits)

lemma approveAcquire_locks:
  assumes "approveAcquire e i s = (r, s')"
  shows "case r of
           Fulfilled cl \<Rightarrow> lockAddress (snd cl) \<notin> set (nonceLocks s)
              \<and> nonceLocks s' = lockAddress (snd cl) # nonceLocks s
         | _ \<Rightarrow> nonceLocks s' = nonceLocks s"
  using assms unfolding approveAcquire_def setTxStatusApproved_def
  by (elim andThen_cases)
     (auto dest!: setTxStatus_locksD getNonceLock_locks elim!: andThen_cases
        split: option.splits outcome.splits)

lemma approveLocked_locks:
  assumes "approveLocked e i c l s = (r, s')"
  shows "nonceLocks s' = (case r of Fulfilled u \<Rightarrow> removeAll (lockAddress l) (nonceLocks s)
                          | _ \<Rightarrow> nonceLocks s)"
  using assms unfolding approveLocked_def
  by (auto simp: Let_def releaseLock_def split: option.splits elim!: andThen_cases
      dest!: signTransaction_locksD publishTransaction_locksD updateTransaction_D)

section \<open>Failure of an approval\<close>

text \<open>
  What an approval leaves behind. When \<^verbatim>\<open>approveTransaction\<close> has returned or thrown, the
  held nonce locks are those held before the call. When it throws \<open>er\<close>, for a stored
  record that the store allows to fail from the statuses it passes through, the record ends
  with status \<^verbatim>\<open>failed\<close> and with \<open>er\<close> attached.
\<close>

lemma approveTransaction_outcome:
  "case approveTransaction e txId s of
     (r, s') \<Rightarrow>
       (r \<noteq> Pending \<longrightarrow> nonceLocks s' = nonceLocks s)
       \<and> (\<forall>t er. r = Thrown er \<and> getTransaction txId s = Some t
             \<and> (\<forall>st \<in> {status t, APPROVED, SIGNED, SUBMITTED}. statusChange e st FAILED = Apply)
            \<longrightarrow> (\<exists>t'. getTransaction txId s' = Some t' \<and> status t' = FAILED \<and> err t' = Some er))"
proof (cases "txId \<in> inProcessOfSigning s")
  case True
  then show ?thesis by (simp add: approveTransaction_def)
next
  case False
  define s0 where "s0 = s\<lparr>inProcessOfSigning := insert txId (inProcessOfSigning s)\<rparr>"
  obtain r1 s1 where acq: "approveAcquire e txId s0 = (r1, s1)"
    by (cases "approveAcquire e txId s0")
  have inv1: "statusIn A txId s1" if "statusIn A txId s" "APPROVED \<in> A" for A
    using statusIn_approveAcquire [of A txId s0 e] that acq by (simp add: s0_def)
  have fail: "\<exists>t'. getTransaction txId (finallyDelete txId (releaseLock l (failSwallowed e txId er s2)))
                 = Some t' \<and> status t' = FAILED \<and> err t' = Some er"
             "\<exists>t'. getTransaction txId (finallyDelete txId (failSwallowed e txId er s2))
                 = Some t' \<and> status t' = FAILED \<and> err t' = Some er"
    if "statusIn A txId s2" "\<forall>st\<in>A. statusChange e st FAILED = Apply" for A s2 er l
    using failSwallowed_failed [OF that, of er] by (simp_all add: finallyDelete_def)
  show ?thesis
  proof (cases r1)
    case Pending
    then show ?thesis using False acq
      by (simp add: approveTransaction_def s0_def [symmetric])
  next
    case (Thrown er)
    have locks: "nonceLocks s1 = nonceLocks s"
      using approveAcquire_locks [OF acq] Thrown by (simp add: s0_def)
    have res: "approveTransaction e txId s = (Thrown er, finallyDelete txId (failSwallowed e txId er s1))"
      using False acq Thrown by (simp add: approveTransaction_def s0_def [symmetric])
    have l2: "nonceLocks (finallyDelete txId (failSwallowed e txId er s1)) = nonceLocks s"
      using locks by (simp add: finallyDelete_def failSwallowed_def failTransaction_def
          setTxStatusFailed_def)
    show ?thesis unfolding res prod.case
    proof (intro conjI impI allI)
      show "nonceLocks (finallyDelete txId (failSwallowed e txId er s1)) = nonceLocks s"
        by (rule l2)
    next
      fix t :: txMeta and er'
      let ?A = "{status t, APPROVED, SIGNED, SUBMITTED}"
      assume h: "Thrown er = Thrown er' \<and> getTransaction txId s = Some t
          \<and> (\<forall>st\<in>?A. statusChange e st FAILED = Apply)"
      have "statusIn ?A txId s" using h by (simp add: statusIn_def)
      then have "statusIn ?A txId s1" by (rule inv1) simp
      moreover have "\<forall>st\<in>?A. statusChange e st FAILED = Apply" using h by simp
      ultimately have "\<exists>t'. getTransaction txId (finallyDelete txId (failSwallowed e txId er s1))
                 = Some t' \<and> status t' = FAILED \<and> err t' = Some er"
        by (rule fail(2))
      then show "\<exists>t'. getTransaction txId (finallyDelete txId (failSwallowed e txId er s1))
                 = Some t' \<and> status t' = FAILED \<and> err t' = Some er'"
        using h by simp
    qed
  next
    case (Fulfilled cl)
    obtain c l where cl: "cl = (c, l)" by (cases cl)
    have locks1: "lockAddress l \<notin> set (nonceLocks s)" "nonceLocks s1 = lockAddress l # nonceLocks s"
      using approveAcquire_locks [OF acq] Fulfilled cl by (simp_all add: s0_def)
    obtain r2 s2 where lk: "approveLocked e txId c l s1 = (r2, s2)"
      by (cases "approveLocked e txId c l s1")
    have locks2: "nonceLocks s2 = (case r2 of Fulfilled u \<Rightarrow> removeAll (lockAddress l) (nonceLocks s1)
                          | _ \<Rightarrow> nonceLocks s1)"
      by (rule approveLocked_locks [OF lk])
    have inv2: "statusIn A txId s2" if "statusIn A txId s" "{APPROVED, SIGNED, SUBMITTED} \<subseteq> A" for A
      using statusIn_approveLocked [of A txId s1 e c l] inv1 [of A] that lk by simp
    show ?thesis
    proof (cases r2)
      case Pending
      then show ?thesis using False acq Fulfilled cl lk
        by (simp add: approveTransaction_def s0_def [symmetric])
    next
      case (Fulfilled u)
      then show ?thesis using False acq \<open>r1 = Fulfilled cl\<close> cl lk locks1 locks2
        by (simp add: approveTransaction_def s0_def [symmetric] finallyDelete_def)
    next
      case (Thrown er)
      have res: "approveTransaction e txId s =
          (Thrown er, finallyDelete txId (releaseLock l (failSwallowed e txId er s2)))"
        using False acq \<open>r1 = Fulfilled cl\<close> cl lk Thrown
        by (simp add: approveTransaction_def s0_def [symmetric])
      have l2: "nonceLocks (finallyDelete txId (releaseLock l (failSwallowed e txId er s2))) = nonceLocks s"
        using locks1 locks2 Thrown
        by (simp add: finallyDelete_def releaseLock_def failSwallowed_def failTransaction_def
            setTxStatusFailed_def)
      show ?thesis unfolding res prod.case
      proof (intro conjI impI allI)
        show "nonceLocks (finallyDelete txId (releaseLock l (failSwallowed e txId er s2))) =
              nonceLocks s"
          by (rule l2)
      next
        fix t :: txMeta and er'
        let ?A = "{status t, APPROVED, SIGNED, SUBMITTED}"
        assume h: "Thrown er = Thrown er' \<and> getTransaction txId s = Some t
            \<and> (\<forall>st\<in>?A. statusChange e st FAILED = Apply)"
        have "statusIn ?A txId s" using h by (simp add: statusIn_def)
        then have "statusIn ?A txId s2" by (rule inv2) simp
        moreover have "\<forall>st\<in>?A. statusChange e st FAILED = Apply" using h by simp
        ultimately have "\<exists>t'. getTransaction txId
               (finallyDelete txId (releaseLock l (failSwallowed e txId er s2)))
                 = Some t' \<and> status t' = FAILED \<and> err t' = Some er"
          by (rule fail(1))
        then show "\<exists>t'. getTransaction txId
               (finallyDelete txId (releaseLock l (failSwallowed e txId er s2)))
                 = Some t' \<and> status t' = FAILED \<and> err t' = Some er'"
          using h by simp
      qed
    qed
  qed
qed

subsection \<open>A throwing step\<close>

lemma specStatusChange_fail:
  "\<not> terminal st \<Longrightarrow> specStatusChange st FAILED = Apply"
  by (cases st) (simp_all add: specStatusChange_def terminal_def)

lemma specStatusChange_terminal:
  "terminal st \<Longrightarrow> specStatusChange st APPROVED = Reject"
  "terminal st \<Longrightarrow> specStatusChange st FAILED = Skip"
  by (simp_all add: specStatusChange_def)

lemma approveTransaction_terminal:
  assumes guard: "txId \<notin> inProcessOfSigning s"
      and stored: "getTransaction txId s = Some t"
      and store: "statusChange e = specStatusChange"
      and tm: "terminal (status t)"
  shows "approveTransaction e txId s = (Thrown InvalidTransitionError, s)"
  using assms
  by (simp add: approveTransaction_def approveAcquire_def setTxStatusApproved_def
      setTransactionStatus_def andThen_simps specStatusChange_terminal failSwallowed_def
      failTransaction_def setTxStatusFailed_def finallyDelete_def Let_def)

lemma approveLocked_start:
  assumes "getTransaction txId s2 = Some t1"
      and "chooseNonce t1 c l = Some v"
  shows "approveLocked e txId c l s2 =
           andThen (signTransaction e txId
                      (modifyTx txId (\<lambda>t. t\<lparr>txParams := (txParams t)
                           \<lparr>nonce := Some (addHexPrefix (nonceToString16 v))\<rparr>\<rparr>) s2))
             (\<lambda>raw s3. andThen (publishTransaction e txId raw s3) (\<lambda>_ s4.
                     (Fulfilled (), releaseLock l s4)))"
  using assms
  by (simp add: approveLocked_def Let_def updateTransaction_def getTransaction_modifyTx
      andThen_simps)

lemma approveAcquire_start:
  assumes "setTxStatusApproved e txId s0 = (Fulfilled (), s1)"
      and "getTransaction txId s1 = Some t1"
  shows "approveAcquire e txId s0 =
           andThen (getNonceLock e (fromAddr (txParams t1)) s1) (\<lambda>l s2.
             (Fulfilled (customNonceValue t1, l), s2))"
  using assms by (simp add: approveAcquire_def andThen_simps)

lemma getNonceLock_keeps:
  "getNonceLock e a s = (r, s') \<Longrightarrow> getTransaction i s' = getTransaction i s"
  by (auto simp: getNonceLock_def Let_def split: outcome.splits if_splits)

text \<open>
  C1, as amended. Past the guard on \<^verbatim>\<open>inProcessOfSigning\<close>, for a stored record and the
  store of sections 3 and 4.1: when a step of \<^verbatim>\<open>approveTransaction(txId)\<close> throws \<open>er\<close>,
  the call throws \<open>er\<close>. The steps are the status update to approved, the acquisition of the
  nonce lock, signing and broadcast, each run in the state its predecessors left. When the
  call throws \<open>er\<close>, a record that was not in a terminal status ends with status
  \<^verbatim>\<open>failed\<close> and \<open>er\<close> attached; a record that was in a terminal status is left as it
  was, and \<open>er\<close> is the refusal of the status update. When the call has returned or thrown,
  the held nonce locks are those held before it.
\<close>

theorem approveTransaction_rethrows_fails_and_releases:
  assumes guard: "txId \<notin> inProcessOfSigning s"
      and stored: "getTransaction txId s = Some t"
      and store: "statusChange e = specStatusChange"
      and s0: "s0 = s\<lparr>inProcessOfSigning := insert txId (inProcessOfSigning s)\<rparr>"
      and R: "R = approveTransaction e txId s"
  shows "(\<forall>er s1. setTxStatusApproved e txId s0 = (Thrown er, s1) \<longrightarrow> fst R = Thrown er)
       \<and> (\<forall>s1 t1 er s2.
             setTxStatusApproved e txId s0 = (Fulfilled (), s1)
             \<and> getTransaction txId s1 = Some t1
             \<and> getNonceLock e (fromAddr (txParams t1)) s1 = (Thrown er, s2)
            \<longrightarrow> fst R = Thrown er)
       \<and> (\<forall>s1 t1 l s2 v er s4.
             setTxStatusApproved e txId s0 = (Fulfilled (), s1)
             \<and> getTransaction txId s1 = Some t1
             \<and> getNonceLock e (fromAddr (txParams t1)) s1 = (Fulfilled l, s2)
             \<and> chooseNonce t1 (customNonceValue t1) l = Some v
             \<and> signTransaction e txId
                 (modifyTx txId (\<lambda>t. t\<lparr>txParams := (txParams t)
                      \<lparr>nonce := Some (addHexPrefix (nonceToString16 v))\<rparr>\<rparr>) s2) = (Thrown er, s4)
            \<longrightarrow> fst R = Thrown er)
       \<and> (\<forall>s1 t1 l s2 v raw s4 er s5.
             setTxStatusApproved e txId s0 = (Fulfilled (), s1)
             \<and> getTransaction txId s1 = Some t1
             \<and> getNonceLock e (fromAddr (txParams t1)) s1 = (Fulfilled l, s2)
             \<and> chooseNonce t1 (customNonceValue t1) l = Some v
             \<and> signTransaction e txId
                 (modifyTx txId (\<lambda>t. t\<lparr>txParams := (txParams t)
                      \<lparr>nonce := Some (addHexPrefix (nonceToString16 v))\<rparr>\<rparr>) s2) = (Fulfilled raw, s4)
             \<and> publishTransaction e txId raw s4 = (Thrown er, s5)
            \<longrightarrow> fst R = Thrown er)
       \<and> (\<forall>er. fst R = Thrown er \<longrightarrow>
             (if terminal (status t)
              then er = InvalidTransitionError \<and> getTransaction txId (snd R) = Some t
              else (\<exists>t'. getTransaction txId (snd R) = Some t' \<and> status t' = FAILED
                      \<and> err t' = Some er)))
       \<and> (fst R \<noteq> Pending \<longrightarrow> nonceLocks (snd R) = nonceLocks s)"
proof (intro conjI allI impI)
  fix er s1
  assume "setTxStatusApproved e txId s0 = (Thrown er, s1)"
  then show "fst R = Thrown er"
    using guard by (simp add: R approveTransaction_def s0 [symmetric] approveAcquire_def
        andThen_simps)
next
  fix s1 t1 er s2
  assume h: "setTxStatusApproved e txId s0 = (Fulfilled (), s1)
             \<and> getTransaction txId s1 = Some t1
             \<and> getNonceLock e (fromAddr (txParams t1)) s1 = (Thrown er, s2)"
  then have "approveAcquire e txId s0 = (Thrown er, s2)"
    by (simp add: approveAcquire_start [of e txId s0 s1 t1] andThen_simps)
  then show "fst R = Thrown er"
    using guard by (simp add: R approveTransaction_def s0 [symmetric])
next
  fix s1 t1 l s2 v er s4
  assume h: "setTxStatusApproved e txId s0 = (Fulfilled (), s1)
             \<and> getTransaction txId s1 = Some t1
             \<and> getNonceLock e (fromAddr (txParams t1)) s1 = (Fulfilled l, s2)
             \<and> chooseNonce t1 (customNonceValue t1) l = Some v
             \<and> signTransaction e txId
                 (modifyTx txId (\<lambda>t. t\<lparr>txParams := (txParams t)
                      \<lparr>nonce := Some (addHexPrefix (nonceToString16 v))\<rparr>\<rparr>) s2) = (Thrown er, s4)"
  then have acq: "approveAcquire e txId s0 = (Fulfilled (customNonceValue t1, l), s2)"
    by (simp add: approveAcquire_start [of e txId s0 s1 t1] andThen_simps)
  have t2: "getTransaction txId s2 = Some t1"
    using h getNonceLock_keeps [of e "fromAddr (txParams t1)" s1 "Fulfilled l" s2 txId] by simp
  have "approveLocked e txId (customNonceValue t1) l s2 = (Thrown er, s4)"
    using h by (simp add: approveLocked_start [OF t2, of "customNonceValue t1" l v] andThen_simps)
  then show "fst R = Thrown er"
    using guard acq by (simp add: R approveTransaction_def s0 [symmetric])
next
  fix s1 t1 l s2 v raw s4 er s5
  assume h: "setTxStatusApproved e txId s0 = (Fulfilled (), s1)
             \<and> getTransaction txId s1 = Some t1
             \<and> getNonceLock e (fromAddr (txParams t1)) s1 = (Fulfilled l, s2)
             \<and> chooseNonce t1 (customNonceValue t1) l = Some v
             \<and> signTransaction e txId
                 (modifyTx txId (\<lambda>t. t\<lparr>txParams := (txParams t)
                      \<lparr>nonce := Some (addHexPrefix (nonceToString16 v))\<rparr>\<rparr>) s2) = (Fulfilled raw, s4)
             \<and> publishTransaction e txId raw s4 = (Thrown er, s5)"
  then have acq: "approveAcquire e txId s0 = (Fulfilled (customNonceValue t1, l), s2)"
    by (simp add: approveAcquire_start [of e txId s0 s1 t1] andThen_simps)
  have t2: "getTransaction txId s2 = Some t1"
    using h getNonceLock_keeps [of e "fromAddr (txParams t1)" s1 "Fulfilled l" s2 txId] by simp
  have "approveLocked e txId (customNonceValue t1) l s2 = (Thrown er, s5)"
    using h by (simp add: approveLocked_start [OF t2, of "customNonceValue t1" l v] andThen_simps)
  then show "fst R = Thrown er"
    using guard acq by (simp add: R approveTransaction_def s0 [symmetric])
next
  fix er
  assume thrown: "fst R = Thrown er"
  show "if terminal (status t)
        then er = InvalidTransitionError \<and> getTransaction txId (snd R) = Some t
        else (\<exists>t'. getTransaction txId (snd R) = Some t' \<and> status t' = FAILED
                \<and> err t' = Some er)"
  proof (cases "terminal (status t)")
    case True
    then show ?thesis
      using thrown stored approveTransaction_terminal [OF guard stored store True]
      by (simp add: R)
  next
    case False
    have ap: "\<forall>st \<in> {status t, APPROVED, SIGNED, SUBMITTED}. statusChange e st FAILED = Apply"
      using False by (simp add: store specStatusChange_fail terminal_def)
    show ?thesis
      using approveTransaction_outcome [where e = e and txId = txId and s = s] thrown stored ap False
      by (cases "approveTransaction e txId s") (simp add: R)
  qed
next
  assume "fst R \<noteq> Pending"
  then show "nonceLocks (snd R) = nonceLocks s"
    using approveTransaction_outcome [where e = e and txId = txId and s = s]
    by (cases "approveTransaction e txId s") (simp add: R)
qed


theorem approveTransaction_rethrows_fails_and_releases_witness:
  "1 \<notin> inProcessOfSigning sampleStore
   \<and> getTransaction 1 sampleStore = Some sampleTx
   \<and> \<not> terminal (status sampleTx)
   \<and> fst (signTransaction (sampleEnv\<lparr>signEthTx := (\<lambda>p a. Thrown (External ''User denied''))\<rparr>) 1
          (modifyTx 1 (\<lambda>t. t\<lparr>txParams := (txParams t)\<lparr>nonce := Some ''0x5''\<rparr>\<rparr>)
            (snd (getNonceLock (sampleEnv\<lparr>signEthTx := (\<lambda>p a. Thrown (External ''User denied''))\<rparr>)
                   ''0xa1''
                   (snd (setTxStatusApproved
                          (sampleEnv\<lparr>signEthTx := (\<lambda>p a. Thrown (External ''User denied''))\<rparr>) 1
                          (sampleStore\<lparr>inProcessOfSigning := {1}\<rparr>))))))) =
       Thrown (External ''User denied'')
   \<and> fst (approveTransaction (sampleEnv\<lparr>signEthTx := (\<lambda>p a. Thrown (External ''User denied''))\<rparr>)
             1 sampleStore) = Thrown (External ''User denied'')
   \<and> fieldOf status 1
        (snd (approveTransaction (sampleEnv\<lparr>signEthTx := (\<lambda>p a. Thrown (External ''User denied''))\<rparr>)
               1 sampleStore)) = Some FAILED
   \<and> fieldOf err 1
        (snd (approveTransaction (sampleEnv\<lparr>signEthTx := (\<lambda>p a. Thrown (External ''User denied''))\<rparr>)
               1 sampleStore)) = Some (Some (External ''User denied''))
   \<and> nonceLocks
        (snd (approveTransaction (sampleEnv\<lparr>signEthTx := (\<lambda>p a. Thrown (External ''User denied''))\<rparr>)
               1 sampleStore)) = nonceLocks sampleStore"
proof -
  define e where "e = sampleEnv\<lparr>signEthTx := (\<lambda>p a. Thrown (External ''User denied''))\<rparr>"
  define s0 where "s0 = sampleStore\<lparr>inProcessOfSigning := insert 1 (inProcessOfSigning sampleStore)\<rparr>"
  define s1 where "s1 = snd (setTxStatusApproved e 1 s0)"
  define t1 where "t1 = sampleTx\<lparr>status := APPROVED\<rparr>"
  define l where "l = \<lparr>nextNonce = 5, lockAddress = ''0xa1''\<rparr>"
  define s2 where "s2 = snd (getNonceLock e ''0xa1'' s1)"
  define s3 where "s3 = modifyTx 1 (\<lambda>t. t\<lparr>txParams := (txParams t)
                      \<lparr>nonce := Some (addHexPrefix (nonceToString16 (NumV 5)))\<rparr>\<rparr>) s2"
  define R where "R = approveTransaction e 1 sampleStore"
  have guard: "1 \<notin> inProcessOfSigning sampleStore"
    and stored: "getTransaction 1 sampleStore = Some sampleTx"
    and store: "statusChange e = specStatusChange"
    and nt: "\<not> terminal (status sampleTx)"
    by (simp_all add: e_def sample_defs getTransaction_def terminal_def)
  have s0': "s0 = sampleStore\<lparr>inProcessOfSigning := {1}\<rparr>"
    by (simp add: s0_def sampleStore_def)
  have a1: "fst (setTxStatusApproved e 1 s0) = Fulfilled ()"
    by (simp add: e_def s0_def sample_defs eval_defs)
  have a2: "getTransaction 1 s1 = Some t1"
    by (simp add: e_def s0_def s1_def t1_def sample_defs eval_defs)
  have fa: "fromAddr (txParams t1) = ''0xa1''" "customNonceValue t1 = None"
    by (simp_all add: t1_def sample_defs)
  have a3: "fst (getNonceLock e ''0xa1'' s1) = Fulfilled l"
    by (simp add: e_def s0_def s1_def l_def sample_defs eval_defs)
  have a4: "chooseNonce t1 None l = Some (NumV 5)"
    by (simp add: t1_def l_def sample_defs chooseNonce_def)
  have n5: "addHexPrefix (nonceToString16 (NumV 5)) = ''0x5''"
    by (simp add: addHexPrefix_def toString16.simps hexDigits_def)
  have a5: "fst (signTransaction e 1 s3) = Thrown (External ''User denied'')"
    by (simp add: e_def s0_def s1_def s2_def s3_def n5 sample_defs eval_defs
        cong: andThen_weak_cong)
  have hyp: "setTxStatusApproved e 1 s0 = (Fulfilled (), s1)
             \<and> getTransaction 1 s1 = Some t1
             \<and> getNonceLock e (fromAddr (txParams t1)) s1 = (Fulfilled l, s2)
             \<and> chooseNonce t1 (customNonceValue t1) l = Some (NumV 5)
             \<and> signTransaction e 1
                 (modifyTx 1 (\<lambda>t. t\<lparr>txParams := (txParams t)
                      \<lparr>nonce := Some (addHexPrefix (nonceToString16 (NumV 5)))\<rparr>\<rparr>) s2) =
                 (Thrown (External ''User denied''), snd (signTransaction e 1 s3))"
    unfolding fa s3_def [symmetric]
    using a1 a2 a3 a4 a5
    by (metis prod.collapse s1_def s2_def)
  note th = approveTransaction_rethrows_fails_and_releases [OF guard stored store s0_def R_def]
  have thrown: "fst R = Thrown (External ''User denied'')"
    using th [THEN conjunct2, THEN conjunct2, THEN conjunct1, rule_format, OF hyp] .
  have rec: "\<exists>t'. getTransaction 1 (snd R) = Some t' \<and> status t' = FAILED
                \<and> err t' = Some (External ''User denied'')"
    using th [THEN conjunct2, THEN conjunct2, THEN conjunct2, THEN conjunct2, THEN conjunct1,
        rule_format, OF thrown] nt by simp
  have locks: "nonceLocks (snd R) = nonceLocks sampleStore"
    using th [THEN conjunct2, THEN conjunct2, THEN conjunct2, THEN conjunct2, THEN conjunct2]
      thrown by simp
  show ?thesis
    using guard stored nt a5 thrown rec locks
    unfolding s3_def s2_def s1_def s0' n5 R_def e_def
    by (auto simp: fieldOf_def)
qed

text \<open>
  C1, as stated, fails on a record in a terminal status: for the mined sample transfer the
  status update to approved throws, the call re-throws, and the record is still
  \<^verbatim>\<open>confirmed\<close> and carries no error.
\<close>

theorem approveTransaction_terminal_record_counterexample:
  "getTransaction 1 confirmedStore = Some confirmedTx
   \<and> 1 \<notin> inProcessOfSigning confirmedStore
   \<and> fst (setTxStatusApproved sampleEnv 1 (confirmedStore\<lparr>inProcessOfSigning := {1}\<rparr>)) =
       Thrown InvalidTransitionError
   \<and> fst (approveTransaction sampleEnv 1 confirmedStore) = Thrown InvalidTransitionError
   \<and> fieldOf status 1 (snd (approveTransaction sampleEnv 1 confirmedStore)) = Some CONFIRMED
   \<and> fieldOf err 1 (snd (approveTransaction sampleEnv 1 confirmedStore)) = Some None"
  by (simp add: eval_defs sample_defs confirmedStore_def confirmedTx_def
      cong: andThen_weak_cong let_weak_cong)

section \<open>The nonce written by an approval\<close>

lemma fieldOf_frame [simp]:
  "fieldOf h i (s\<lparr>inProcessOfSigning := a\<rparr>) = fieldOf h i s"
  "fieldOf h i (s\<lparr>nonceLocks := b\<rparr>) = fieldOf h i s"
  "fieldOf h i (s\<lparr>calls := c\<rparr>) = fieldOf h i s"
  "fieldOf h i (s\<lparr>nextId := d\<rparr>) = fieldOf h i s"
  by (simp_all add: fieldOf_def)

lemma fieldOf_modifyTx:
  assumes "\<And>t. tx_id (f t) = tx_id t" and "\<And>t. h (f t) = h t"
  shows "fieldOf h i (modifyTx j f s) = fieldOf h i s"
  using assms by (simp add: fieldOf_def getTransaction_modifyTx option.map_comp comp_def)

lemma fieldOf_modifyTx_other:
  assumes "\<And>t. tx_id (f t) = tx_id t" and "i \<noteq> j"
  shows "fieldOf h i (modifyTx j f s) = fieldOf h i s"
  using assms by (simp add: fieldOf_def getTransaction_modifyTx)

lemma fieldOf_setTransactionStatus:
  assumes "approvalFrame h" and "\<And>t. tx_id (f t) = tx_id t" and "\<And>t. h (f t) = h t"
  shows "fieldOf h i (snd (setTransactionStatus e j st f s)) = fieldOf h i s"
  using assms
  by (auto simp: setTransactionStatus_def approvalFrame_def fieldOf_modifyTx
      split: option.splits verdict.splits)

lemma fieldOf_getNonceLock [simp]:
  "fieldOf h i (snd (getNonceLock e a s)) = fieldOf h i s"
  by (simp add: getNonceLock_def Let_def split: outcome.splits)

lemma fieldOf_approveAcquire:
  assumes "approvalFrame h"
  shows "fieldOf h i (snd (approveAcquire e j s)) = fieldOf h i s"
  unfolding approveAcquire_def setTxStatusApproved_def
  by (simp add: andThen_keeps fieldOf_setTransactionStatus [OF assms] split: option.splits)

lemma fieldOf_signTransaction:
  assumes "approvalFrame h"
  shows "fieldOf h i (snd (signTransaction e j s)) = fieldOf h i s"
  unfolding signTransaction_def setTxStatusSigned_def getCommonConfiguration_def
  using assms
  by (simp add: andThen_keeps fieldOf_setTransactionStatus [OF assms] fieldOf_modifyTx
      approvalFrame_def Let_def split: option.splits)

lemma fieldOf_broadcast [simp]:
  "fieldOf h i (snd (broadcast e raw s)) = fieldOf h i s"
  by (simp add: broadcast_def Let_def split: outcome.splits)

lemma fieldOf_setTxHash:
  assumes "approvalFrame h"
  shows "fieldOf h i (snd (setTxHash j x s)) = fieldOf h i s"
  using assms by (simp add: setTxHash_def fieldOf_modifyTx approvalFrame_def split: option.splits)

lemma fieldOf_publishTransaction:
  assumes "approvalFrame h"
  shows "fieldOf h i (snd (publishTransaction e j raw s)) = fieldOf h i s"
  unfolding publishTransaction_def setTxStatusSubmitted_def
  using assms
  by (simp add: andThen_keeps fieldOf_setTransactionStatus [OF assms] fieldOf_modifyTx
      fieldOf_setTxHash [OF assms] approvalFrame_def Let_def split: option.splits)

lemma fieldOf_failSwallowed:
  assumes "approvalFrame h"
  shows "fieldOf h i (failSwallowed e j er s) = fieldOf h i s"
  using assms
  by (simp add: failSwallowed_def failTransaction_def setTxStatusFailed_def
      fieldOf_setTransactionStatus approvalFrame_def)

lemma fieldOf_releaseLock [simp]: "fieldOf h i (releaseLock l s) = fieldOf h i s"
  by (simp add: releaseLock_def)

lemma fieldOf_finallyDelete [simp]: "fieldOf h i (finallyDelete j s) = fieldOf h i s"
  by (simp add: finallyDelete_def)

lemma approvalFrame_nonce: "approvalFrame (\<lambda>t. nonce (txParams t))"
  by (simp add: approvalFrame_def)

lemma fieldOf_approveLocked_other:
  assumes "approvalFrame h" and "i \<noteq> j"
  shows "fieldOf h i (snd (approveLocked e j c l s)) = fieldOf h i s"
  unfolding approveLocked_def
  using assms
  by (simp add: andThen_keeps fieldOf_signTransaction fieldOf_publishTransaction
      fieldOf_modifyTx_other Let_def split: option.splits)

lemma approveLocked_nonce:
  assumes "getTransaction i s = Some t"
  shows "fieldOf (\<lambda>t. nonce (txParams t)) i (snd (approveLocked e i c l s)) =
         Some (case chooseNonce t c l of
                 None \<Rightarrow> nonce (txParams t)
               | Some v \<Rightarrow> Some (addHexPrefix (nonceToString16 v)))"
  unfolding approveLocked_def
  using assms
  apply (simp add: andThen_keeps fieldOf_signTransaction fieldOf_publishTransaction
      approvalFrame_nonce Let_def split: option.splits)
  apply (simp add: fieldOf_def getTransaction_modifyTx)
  done


lemma hexDigits_nth: "k < 16 \<Longrightarrow> hexDigits ! k \<in> set hexDigits"
  by (rule nth_mem) (simp add: hexDigits_def)

lemma toString16_chars: "set (toString16 n) \<subseteq> set hexDigits"
proof (induction n rule: toString16.induct)
  case (1 n)
  show ?case
  proof (cases "n < 16")
    case True
    then show ?thesis using hexDigits_nth [of n] by (subst toString16.simps) simp
  next
    case False
    then show ?thesis using 1 hexDigits_nth [of "n mod 16"] by (subst toString16.simps) simp
  qed
qed

lemma addHexPrefix_toString16: "addHexPrefix (toString16 n) = ''0x'' @ toString16 n"
proof -
  have "CHR ''x'' \<notin> set (toString16 n)"
    using toString16_chars [of n] by (auto simp: hexDigits_def)
  then have "take 2 (toString16 n) \<noteq> ''0x''"
    by (metis in_set_takeD list.set_intros(1) list.set_intros(2))
  then show ?thesis by (simp add: addHexPrefix_def)
qed

lemma chooseNonce_custom: "chooseNonce t (Some n) l = Some (NumV n)"
  by (cases "n = 0") (simp_all add: chooseNonce_def Let_def)

lemma approveAcquire_result:
  assumes "getTransaction i s = Some t"
      and "statusChange e (status t) APPROVED \<noteq> Reject"
      and "fromAddr (txParams t) \<notin> set (nonceLocks s)"
      and "nonceLockFor e (fromAddr (txParams t)) = Fulfilled k"
  shows "fst (approveAcquire e i s) =
           Fulfilled (customNonceValue t, \<lparr>nextNonce = k, lockAddress = fromAddr (txParams t)\<rparr>)"
  using assms
  by (cases "statusChange e (status t) APPROVED")
     (simp_all add: approveAcquire_def setTxStatusApproved_def setTransactionStatus_def
        andThen_def getTransaction_modifyTx getNonceLock_def Let_def)


lemma approveTransaction_nonce_written:
  assumes notin: "txId \<notin> inProcessOfSigning s"
      and "getTransaction txId s = Some t"
      and "statusChange e (status t) APPROVED \<noteq> Reject"
      and "fromAddr (txParams t) \<notin> set (nonceLocks s)"
      and "nonceLockFor e (fromAddr (txParams t)) = Fulfilled k"
      and ch: "\<And>t1. previousGasParams t1 = previousGasParams t \<Longrightarrow> txParams t1 = txParams t
             \<Longrightarrow> chooseNonce t1 (customNonceValue t)
                    \<lparr>nextNonce = k, lockAddress = fromAddr (txParams t)\<rparr> = Some v"
  shows "fieldOf (\<lambda>t. nonce (txParams t)) txId (snd (approveTransaction e txId s)) =
           Some (Some (addHexPrefix (nonceToString16 v)))"
proof -
  define s0 where "s0 = s\<lparr>inProcessOfSigning := insert txId (inProcessOfSigning s)\<rparr>"
  define l where "l = \<lparr>nextNonce = k, lockAddress = fromAddr (txParams t)\<rparr>"
  let ?N = "\<lambda>t. nonce (txParams t)"
  obtain r1 s1 where acq: "approveAcquire e txId s0 = (r1, s1)"
    by (cases "approveAcquire e txId s0")
  have r1: "r1 = Fulfilled (customNonceValue t, l)"
    using approveAcquire_result [of txId s0 t e k] assms(2-5) acq by (simp add: s0_def l_def)
  have "approvalFrame (\<lambda>t. (previousGasParams t, txParams t))"
    by (simp add: approvalFrame_def)
  from fieldOf_approveAcquire [OF this, of txId e txId s0] acq assms(2)
  obtain t1 where t1: "getTransaction txId s1 = Some t1"
    "previousGasParams t1 = previousGasParams t" "txParams t1 = txParams t"
    by (auto simp: fieldOf_def s0_def)
  have v: "chooseNonce t1 (customNonceValue t) l = Some v"
    using ch [OF t1(2,3)] by (simp add: l_def)
  obtain r2 s2 where lk: "approveLocked e txId (customNonceValue t) l s1 = (r2, s2)"
    by (cases "approveLocked e txId (customNonceValue t) l s1")
  have n2: "fieldOf ?N txId s2 = Some (Some (addHexPrefix (nonceToString16 v)))"
    using approveLocked_nonce [OF t1(1), of e "customNonceValue t" l] lk v by simp
  show ?thesis
    using notin acq r1 lk n2
    by (cases r2)
       (simp_all add: approveTransaction_def s0_def [symmetric]
          fieldOf_failSwallowed [OF approvalFrame_nonce])
qed

text \<open>
  C10. When \<^verbatim>\<open>Number(customNonceValue)\<close> is a number \<open>n\<close>, zero included, it is the
  value \<^verbatim>\<open>approveTransaction\<close> chooses, whatever \<^verbatim>\<open>previousGasParams\<close> and the lock's
  \<^verbatim>\<open>nextNonce\<close> are, and the nonce written to \<^verbatim>\<open>txParams\<close> is \<^verbatim>\<open>0x\<close> followed by the
  hexadecimal digits of \<open>n\<close>. The nonce is written once the status update to approved has
  not been refused and the nonce lock has been granted.
\<close>

theorem approveTransaction_custom_nonce:
  assumes "txId \<notin> inProcessOfSigning s"
      and "getTransaction txId s = Some t"
      and "customNonceValue t = Some n"
      and "statusChange e (status t) APPROVED \<noteq> Reject"
      and "fromAddr (txParams t) \<notin> set (nonceLocks s)"
      and "nonceLockFor e (fromAddr (txParams t)) = Fulfilled k"
  shows "chooseNonce t (customNonceValue t) \<lparr>nextNonce = k, lockAddress = fromAddr (txParams t)\<rparr>
           = Some (NumV n)
         \<and> fieldOf (\<lambda>t. nonce (txParams t)) txId (snd (approveTransaction e txId s)) =
             Some (Some (''0x'' @ toString16 n))"
proof -
  have "fieldOf (\<lambda>t. nonce (txParams t)) txId (snd (approveTransaction e txId s)) =
           Some (Some (addHexPrefix (nonceToString16 (NumV n))))"
    using assms by (intro approveTransaction_nonce_written [where t = t and k = k])
      (simp_all add: chooseNonce_custom)
  then show ?thesis using assms(3) by (simp add: chooseNonce_custom addHexPrefix_toString16)
qed

theorem approveTransaction_custom_nonce_witness:
  "1 \<notin> inProcessOfSigning customNonceStore
   \<and> getTransaction 1 customNonceStore = Some customNonceTx
   \<and> customNonceValue customNonceTx = Some 0
   \<and> previousGasParams customNonceTx \<noteq> None
   \<and> nonce (txParams customNonceTx) = Some ''0x7''
   \<and> statusChange sampleEnv (status customNonceTx) APPROVED \<noteq> Reject
   \<and> fromAddr (txParams customNonceTx) \<notin> set (nonceLocks customNonceStore)
   \<and> nonceLockFor sampleEnv (fromAddr (txParams customNonceTx)) = Fulfilled 5
   \<and> fieldOf (\<lambda>t. nonce (txParams t)) 1 (snd (approveTransaction sampleEnv 1 customNonceStore)) =
         Some (Some ''0x0'')"
  using approveTransaction_custom_nonce
      [where e = sampleEnv and txId = 1 and s = customNonceStore and t = customNonceTx
         and n = 0 and k = 5]
  by (simp add: customNonceStore_def customNonceTx_def sample_defs emptyGasSettings_def
      getTransaction_def specStatusChange_def terminal_def toString16.simps hexDigits_def)

section \<open>Broadcast of a transaction the node already knows\<close>

text \<open>
  C9. When \<^verbatim>\<open>sendRawTransaction\<close> throws an error whose message contains
  \<^verbatim>\<open>known transaction\<close> in any letter case, \<^verbatim>\<open>publishTransaction\<close> does not throw: the
  hash it records is the keccak hash of the raw transaction, with \<^verbatim>\<open>0x\<close> in front, the
  record becomes \<^verbatim>\<open>submitted\<close> (the store performing that update) and no error is attached
  to it. Any other error of the broadcast is thrown to the caller.
\<close>

theorem publishTransaction_known_transaction:
  assumes "getTransaction txId s = Some t"
      and "tx_type t \<noteq> Some SWAP \<or> (\<exists>b. getBalance e (fromAddr (txParams t)) = Fulfilled b)"
      and "sendRawTransaction e raw = Thrown er"
  shows "if includesStr (toLowerCase (message er)) ''known transaction''
         then (statusChange e (status t) SUBMITTED = Apply \<longrightarrow>
                 fst (publishTransaction e txId raw s) = Fulfilled ()
                 \<and> fieldOf hash txId (snd (publishTransaction e txId raw s)) =
                     Some (Some (addHexPrefix (keccak e (addHexPrefix raw))))
                 \<and> fieldOf status txId (snd (publishTransaction e txId raw s)) = Some SUBMITTED
                 \<and> fieldOf err txId (snd (publishTransaction e txId raw s)) = Some (err t))
         else fst (publishTransaction e txId raw s) = Thrown er"
  using assms
  by (auto simp: publishTransaction_def andThen_def broadcast_def setTxHash_def Let_def
      updateTransaction_def getTransaction_modifyTx setTxStatusSubmitted_def
      setTransactionStatus_def fieldOf_def)

theorem publishTransaction_known_transaction_witness:
  "getTransaction 1 sampleStore = Some sampleTx
   \<and> tx_type sampleTx \<noteq> Some SWAP
   \<and> includesStr (toLowerCase (message (External ''Known Transaction: 9f3c''))) ''known transaction''
   \<and> statusChange sampleEnv (status sampleTx) SUBMITTED = Apply
   \<and> fst (publishTransaction
            (sampleEnv\<lparr>sendRawTransaction := (\<lambda>raw. Thrown (External ''Known Transaction: 9f3c''))\<rparr>)
            1 ''0xf86c'' sampleStore) = Fulfilled ()
   \<and> fieldOf hash 1 (snd (publishTransaction
            (sampleEnv\<lparr>sendRawTransaction := (\<lambda>raw. Thrown (External ''Known Transaction: 9f3c''))\<rparr>)
            1 ''0xf86c'' sampleStore)) = Some (Some ''0x9f3c'')
   \<and> \<not> includesStr (toLowerCase (message (External ''insufficient funds''))) ''known transaction''
   \<and> fst (publishTransaction
            (sampleEnv\<lparr>sendRawTransaction := (\<lambda>raw. Thrown (External ''insufficient funds''))\<rparr>)
            1 ''0xf86c'' sampleStore) = Thrown (External ''insufficient funds'')"
  using publishTransaction_known_transaction
      [where e = "sampleEnv\<lparr>sendRawTransaction := (\<lambda>raw. Thrown (External ''Known Transaction: 9f3c''))\<rparr>"
         and txId = 1 and s = sampleStore and t = sampleTx and raw = "''0xf86c''"
         and er = "External ''Known Transaction: 9f3c''"]
    publishTransaction_known_transaction
      [where e = "sampleEnv\<lparr>sendRawTransaction := (\<lambda>raw. Thrown (External ''insufficient funds''))\<rparr>"
         and txId = 1 and s = sampleStore and t = sampleTx and raw = "''0xf86c''"
         and er = "External ''insufficient funds''"]
  by (simp add: sample_defs getTransaction_def specStatusChange_def terminal_def
      toLowerCase_def toLowerChar_def addHexPrefix_def)

section \<open>Cancel and speed-up keep the nonce\<close>

lemma getNonceLock_getTransaction [simp]:
  "getTransaction i (snd (getNonceLock e a s)) = getTransaction i s"
  by (simp add: getNonceLock_def Let_def split: outcome.splits)

lemma getNonceLock_getTransactionD:
  "getNonceLock e a s = (r, s') \<Longrightarrow> getTransaction i s' = getTransaction i s"
  using getNonceLock_getTransaction [of i e a s] by simp

lemma approveAcquire_custom:
  assumes "approveAcquire e i s = (Fulfilled (c, l), s1)"
  shows "fieldOf customNonceValue i s1 = Some c"
  using assms unfolding approveAcquire_def
  by (auto simp: andThen_def fieldOf_def split: prod.splits outcome.splits option.splits
      dest: getNonceLock_getTransactionD [where i = i])

lemma fieldOf_approveLocked:
  assumes "approvalFrame h" and "\<And>t p. h (t\<lparr>txParams := p\<rparr>) = h t"
  shows "fieldOf h i (snd (approveLocked e j c l s)) = fieldOf h i s"
  unfolding approveLocked_def
  using assms
  by (simp add: andThen_keeps fieldOf_signTransaction fieldOf_publishTransaction
      fieldOf_modifyTx Let_def split: option.splits)

lemma addHexPrefix_prefixed: "take 2 n = ''0x'' \<Longrightarrow> addHexPrefix n = n"
  by (simp add: addHexPrefix_def)

lemma chooseNonce_replacement:
  "previousGasParams t \<noteq> None \<Longrightarrow> chooseNonce t None l = map_option StrV (nonce (txParams t))"
  by (simp add: chooseNonce_def)

lemma approveTransaction_keeps_replacement:
  assumes t: "getTransaction i s = Some t"
      and prev: "previousGasParams t \<noteq> None"
      and cust: "customNonceValue t = None"
      and pre: "\<forall>n. nonce (txParams t) = Some n \<longrightarrow> take 2 n = ''0x''"
  shows "\<exists>t'. getTransaction i (snd (approveTransaction e i s)) = Some t'
           \<and> nonce (txParams t') = nonce (txParams t)
           \<and> previousGasParams t' = previousGasParams t
           \<and> customNonceValue t' = None"
proof -
  let ?h = "\<lambda>t. (nonce (txParams t), previousGasParams t, customNonceValue t)"
  have fr: "approvalFrame ?h" by (simp add: approvalFrame_def)
  have goal: "fieldOf ?h i (snd (approveTransaction e i s)) = fieldOf ?h i s"
  proof (cases "i \<in> inProcessOfSigning s")
    case True
    then show ?thesis by (simp add: approveTransaction_def)
  next
    case False
    define s0 where "s0 = s\<lparr>inProcessOfSigning := insert i (inProcessOfSigning s)\<rparr>"
    obtain r1 s1 where acq: "approveAcquire e i s0 = (r1, s1)"
      by (cases "approveAcquire e i s0")
    have f1: "fieldOf ?h i s1 = fieldOf ?h i s"
      using fieldOf_approveAcquire [OF fr, of i e i s0] acq by (simp add: s0_def)
    show ?thesis
    proof (cases r1)
      case Pending
      then show ?thesis using False acq f1 by (simp add: approveTransaction_def s0_def [symmetric])
    next
      case (Thrown er)
      then show ?thesis using False acq f1
        by (simp add: approveTransaction_def s0_def [symmetric] fieldOf_failSwallowed [OF fr])
    next
      case (Fulfilled cl)
      obtain c l where cl: "cl = (c, l)" by (cases cl)
      from f1 t obtain t1 where t1: "getTransaction i s1 = Some t1" "?h t1 = ?h t"
        by (auto simp: fieldOf_def)
      have c: "c = None"
        using approveAcquire_custom [of e i s0 c l s1] acq Fulfilled cl t1 cust
        by (simp add: fieldOf_def)
      obtain r2 s2 where lk: "approveLocked e i c l s1 = (r2, s2)"
        by (cases "approveLocked e i c l s1")
      have ch: "chooseNonce t1 c l = map_option StrV (nonce (txParams t))"
        using chooseNonce_replacement [of t1 l] t1(2) prev c by simp
      have n2: "fieldOf (\<lambda>t. nonce (txParams t)) i s2 = Some (nonce (txParams t))"
        using approveLocked_nonce [OF t1(1), of e c l] lk ch t1(2) pre
        by (cases "nonce (txParams t)") (simp_all add: addHexPrefix_prefixed)
      have "approvalFrame (\<lambda>t. (previousGasParams t, customNonceValue t))"
        by (simp add: approvalFrame_def)
      from fieldOf_approveLocked [OF this, of i e i c l s1] lk t1
      have p2: "fieldOf (\<lambda>t. (previousGasParams t, customNonceValue t)) i s2 =
                  Some (previousGasParams t, customNonceValue t)"
        by (simp add: fieldOf_def)
      have f2: "fieldOf ?h i s2 = fieldOf ?h i s"
        using n2 p2 t by (auto simp: fieldOf_def)
      show ?thesis using False acq Fulfilled cl lk f2
        by (cases r2)
           (simp_all add: approveTransaction_def s0_def [symmetric]
              fieldOf_failSwallowed [OF fr])
    qed
  qed
  then show ?thesis using t cust by (auto simp: fieldOf_def)
qed


lemma getTransaction_fresh:
  assumes "\<forall>t \<in> set (transactions s). tx_id t < nextId s"
  shows "getTransaction (nextId s) s = None"
  using assms by (auto simp: getTransaction_def find_None_iff)

lemma find_append_fresh: "find P xs = None \<Longrightarrow> P x \<Longrightarrow> find P (xs @ [x]) = Some x"
  by (induction xs) (auto split: if_splits)

lemma getTransaction_append_fresh:
  assumes "getTransaction (tx_id t) s = None"
  shows "getTransaction (tx_id t) (s\<lparr>transactions := transactions s @ [t]\<rparr>) = Some t"
  using assms by (simp add: getTransaction_def find_append_fresh)

lemma spreadGasParams_nonce [simp]: "nonce (spreadGasParams p g) = nonce p"
  by (simp add: spreadGasParams_def)

lemma withEstimatedBaseFee_fields [simp]:
  "tx_id (withEstimatedBaseFee b t) = tx_id t"
  "txParams (withEstimatedBaseFee b t) = txParams t"
  "previousGasParams (withEstimatedBaseFee b t) = previousGasParams t"
  "customNonceValue (withEstimatedBaseFee b t) = customNonceValue t"
  by (simp_all add: withEstimatedBaseFee_def)

lemma replacement_tail:
  assumes fresh: "\<forall>t \<in> set (transactions s). tx_id t < nextId s"
      and id: "tx_id newTx = nextId s"
      and prev: "previousGasParams newTx \<noteq> None"
      and cust: "customNonceValue newTx = None"
      and pre: "\<forall>n. nonce (txParams newTx) = Some n \<longrightarrow> take 2 n = ''0x''"
  shows "\<exists>t'. getTransaction (nextId s)
            (snd (andThen (addTransaction newTx (s\<lparr>nextId := Suc (nextId s)\<rparr>)) (\<lambda>_ s2.
                  andThen (approveTransaction e (tx_id newTx) s2) (\<lambda>_ s3.
                    (Fulfilled (tx_id newTx), s3))))) = Some t'
           \<and> nonce (txParams t') = nonce (txParams newTx)
           \<and> previousGasParams t' = previousGasParams newTx
           \<and> customNonceValue t' = None"
proof -
  let ?s1 = "s\<lparr>nextId := Suc (nextId s)\<rparr>"
  let ?s2 = "?s1\<lparr>transactions := transactions ?s1 @ [newTx]\<rparr>"
  have none: "getTransaction (tx_id newTx) ?s1 = None"
    using getTransaction_fresh [OF fresh] id by simp
  then have add: "addTransaction newTx ?s1 = (Fulfilled (), ?s2)"
    by (simp add: addTransaction_def storeAddTransaction_def)
  have got: "getTransaction (tx_id newTx) ?s2 = Some newTx"
    by (rule getTransaction_append_fresh [OF none])
  have "snd (andThen (addTransaction newTx ?s1) (\<lambda>_ s2.
                  andThen (approveTransaction e (tx_id newTx) s2) (\<lambda>_ s3.
                    (Fulfilled (tx_id newTx), s3)))) =
        snd (approveTransaction e (tx_id newTx) ?s2)"
    by (cases "approveTransaction e (tx_id newTx) ?s2"; cases "fst (approveTransaction e (tx_id newTx) ?s2)")
       (simp_all add: add andThen_def)
  then show ?thesis
    using approveTransaction_keeps_replacement [OF got prev cust pre, of e] id by simp
qed

text \<open>
  C2. The record that \<^verbatim>\<open>createCancelTransaction\<close> or \<^verbatim>\<open>createSpeedUpTransaction\<close> adds
  to the store (its id is the next free id) carries the nonce of the original record, also
  after the approval that both run on it; it carries \<^verbatim>\<open>previousGasParams\<close>, so that
  \<^verbatim>\<open>approveTransaction\<close> chooses the string in \<^verbatim>\<open>txParams.nonce\<close>, the original nonce,
  whatever \<^verbatim>\<open>nextNonce\<close> the lock reports. Nonces in the store are hex strings with the
  \<^verbatim>\<open>0x\<close> prefix, and ids are assigned in increasing order.
\<close>

theorem replacement_reuses_nonce:
  assumes orig: "getTransaction originalTxId s = Some orig"
      and pre: "\<forall>n. nonce (txParams orig) = Some n \<longrightarrow> take 2 n = ''0x''"
      and fresh: "\<forall>t \<in> set (transactions s). tx_id t < nextId s"
      and r: "r = createCancelTransaction e originalTxId cgs ebf s
              \<or> r = createSpeedUpTransaction e originalTxId cgs ebf s"
  shows "\<forall>new. getTransaction (nextId s) (snd r) = Some new \<longrightarrow>
           nonce (txParams new) = nonce (txParams orig)
           \<and> previousGasParams new \<noteq> None
           \<and> (\<forall>l. chooseNonce new (customNonceValue new) l =
                    map_option StrV (nonce (txParams orig)))"
proof -
  have none: "getTransaction (nextId s) s = None"
    by (rule getTransaction_fresh [OF fresh])
  have tail: "\<forall>new. getTransaction (nextId s)
            (snd (andThen (addTransaction newTx (s\<lparr>nextId := Suc (nextId s)\<rparr>)) (\<lambda>_ s2.
                  andThen (approveTransaction e (tx_id newTx) s2) (\<lambda>_ s3.
                    (Fulfilled (tx_id newTx), s3))))) = Some new \<longrightarrow>
           nonce (txParams new) = nonce (txParams orig)
           \<and> previousGasParams new \<noteq> None
           \<and> (\<forall>l. chooseNonce new (customNonceValue new) l =
                    map_option StrV (nonce (txParams orig)))"
    if "tx_id newTx = nextId s" "previousGasParams newTx \<noteq> None" "customNonceValue newTx = None"
       "nonce (txParams newTx) = nonce (txParams orig)" for newTx
    using replacement_tail [OF fresh that(1-3), of e] that pre
    by (auto simp: chooseNonce_replacement)
  from r show ?thesis
  proof
    assume rc: "r = createCancelTransaction e originalTxId cgs ebf s"
    show ?thesis
    proof (cases cgs)
      case None
      then show ?thesis using rc orig none by (simp add: createCancelTransaction_def)
    next
      case (Some c)
      show ?thesis
      proof (cases "generateNewGasParams orig
                (c\<lparr>cg_gasLimit := Some (orElse (cg_gasLimit c) GAS_LIMITS_SIMPLE)\<rparr>) 11")
        case (Inl er)
        then show ?thesis using rc orig none Some by (simp add: createCancelTransaction_def)
      next
        case (Inr pg)
        obtain previousGas newGas where pg: "pg = (previousGas, newGas)" by (cases pg)
        define newTx where "newTx = withEstimatedBaseFee ebf
           ((fst (generateTxMeta
              (spreadGasParams
                 \<lparr>fromAddr = fromAddr (txParams orig), toAddr = Some (fromAddr (txParams orig)),
                  nonce = nonce (txParams orig), txValue = Some ''0x0'', txData = None,
                  gas = None, gasPrice = None, maxFeePerGas = None,
                  maxPriorityFeePerGas = None\<rparr> newGas) s))
            \<lparr>previousGasParams := Some previousGas, loadingDefaults := False,
              status := APPROVED, tx_type := Some CANCEL\<rparr>)"
        have "r = andThen (addTransaction newTx (s\<lparr>nextId := Suc (nextId s)\<rparr>)) (\<lambda>_ s2.
                  andThen (approveTransaction e (tx_id newTx) s2) (\<lambda>_ s3.
                    (Fulfilled (tx_id newTx), s3)))"
          using rc orig Some Inr pg
          by (simp add: createCancelTransaction_def generateTxMeta_def Let_def newTx_def)
        moreover have "tx_id newTx = nextId s" "previousGasParams newTx \<noteq> None"
            "customNonceValue newTx = None" "nonce (txParams newTx) = nonce (txParams orig)"
          by (simp_all add: newTx_def generateTxMeta_def)
        ultimately show ?thesis
          using tail [of newTx] by blast
      qed
    qed
  next
    assume rs: "r = createSpeedUpTransaction e originalTxId cgs ebf s"
    show ?thesis
    proof (cases "generateNewGasParams orig
                (case cgs of None \<Rightarrow> emptyGasSettings | Some c \<Rightarrow> c) 11")
      case (Inl er)
      then show ?thesis using rs orig none by (simp add: createSpeedUpTransaction_def)
    next
      case (Inr pg)
      obtain previousGas newGas where pg: "pg = (previousGas, newGas)" by (cases pg)
      define newTx where "newTx = withEstimatedBaseFee ebf
           ((fst (generateTxMeta (spreadGasParams (txParams orig) newGas) s))
            \<lparr>previousGasParams := Some previousGas, loadingDefaults := False,
              status := APPROVED, tx_type := Some RETRY\<rparr>)"
      have "r = andThen (addTransaction newTx (s\<lparr>nextId := Suc (nextId s)\<rparr>)) (\<lambda>_ s2.
                  andThen (approveTransaction e (tx_id newTx) s2) (\<lambda>_ s3.
                    (Fulfilled (tx_id newTx), s3)))"
        using rs orig Inr pg
        by (simp add: createSpeedUpTransaction_def generateTxMeta_def Let_def newTx_def)
      moreover have "tx_id newTx = nextId s" "previousGasParams newTx \<noteq> None"
          "customNonceValue newTx = None" "nonce (txParams newTx) = nonce (txParams orig)"
        by (simp_all add: newTx_def generateTxMeta_def)
      ultimately show ?thesis
        using tail [of newTx] by blast
    qed
  qed
qed

theorem replacement_reuses_nonce_witness:
  "getTransaction 1 submittedStore = Some submittedTx
   \<and> map_option (take 2) (nonce (txParams submittedTx)) = Some ''0x''
   \<and> map tx_id (transactions submittedStore) = [1] \<and> nextId submittedStore = 2
   \<and> nonceLockFor sampleEnv (fromAddr (txParams submittedTx)) = Fulfilled 5
   \<and> fieldOf (\<lambda>t. nonce (txParams t)) 2
        (snd (createSpeedUpTransaction sampleEnv 1 None None submittedStore)) = Some (Some ''0x3'')
   \<and> fieldOf (\<lambda>t. nonce (txParams t)) 2
        (snd (createCancelTransaction sampleEnv 1 (Some emptyGasSettings) None submittedStore)) =
          Some (Some ''0x3'')"
proof -
  have h1: "getTransaction 1 submittedStore = Some submittedTx"
    by (simp add: eval_defs sample_defs)
  have h2: "\<forall>n. nonce (txParams submittedTx) = Some n \<longrightarrow> take 2 n = ''0x''"
    by (simp add: eval_defs sample_defs)
  have h3: "\<forall>t \<in> set (transactions submittedStore). tx_id t < nextId submittedStore"
    by (simp add: eval_defs sample_defs)
  have h4: "nonceLockFor sampleEnv (fromAddr (txParams submittedTx)) = Fulfilled 5"
    by (simp add: eval_defs sample_defs)
  have n: "nonce (txParams submittedTx) = Some ''0x3''" "nextId submittedStore = 2"
    by (simp_all add: eval_defs sample_defs)
  have ex: "getTransaction 2 (snd (createSpeedUpTransaction sampleEnv 1 None None submittedStore)) \<noteq> None"
    "getTransaction 2 (snd (createCancelTransaction sampleEnv 1 (Some emptyGasSettings) None
        submittedStore)) \<noteq> None"
    by (simp_all add: eval_defs sample_defs cong: andThen_weak_cong let_weak_cong)
  have "fieldOf (\<lambda>t. nonce (txParams t)) 2
        (snd (createSpeedUpTransaction sampleEnv 1 None None submittedStore)) = Some (Some ''0x3'')"
    using replacement_reuses_nonce [OF h1 h2 h3 disjI2 [OF refl], of sampleEnv None None] ex(1) n
    by (auto simp: fieldOf_def)
  moreover have "fieldOf (\<lambda>t. nonce (txParams t)) 2
        (snd (createCancelTransaction sampleEnv 1 (Some emptyGasSettings) None submittedStore)) =
          Some (Some ''0x3'')"
    using replacement_reuses_nonce [OF h1 h2 h3 disjI1 [OF refl], of sampleEnv "Some emptyGasSettings" None]
      ex(2) n
    by (auto simp: fieldOf_def)
  moreover have "map_option (take 2) (nonce (txParams submittedTx)) = Some ''0x''"
    "map tx_id (transactions submittedStore) = [1]"
    by (simp_all add: eval_defs sample_defs)
  ultimately show ?thesis using h1 h4 n by blast
qed

section \<open>The fees of a replacement\<close>

lemma hexValue_digit: "k < 16 \<Longrightarrow> hexValue (hexDigits ! k) = k"
proof -
  assume "k < 16"
  then have "k = 0 \<or> k = 1 \<or> k = 2 \<or> k = 3 \<or> k = 4 \<or> k = 5 \<or> k = 6 \<or> k = 7
      \<or> k = 8 \<or> k = 9 \<or> k = 10 \<or> k = 11 \<or> k = 12 \<or> k = 13 \<or> k = 14 \<or> k = 15"
    by arith
  then show ?thesis
    by (elim disjE) (simp_all add: hexValue_def hexDigits_def)
qed

lemma hexFold_toString16:
  "foldl (\<lambda>acc c. 16 * acc + hexValue c) 0 (toString16 n) = n"
proof (induction n rule: toString16.induct)
  case (1 n)
  show ?case
  proof (cases "n < 16")
    case True
    then show ?thesis by (subst toString16.simps) (simp add: hexValue_digit)
  next
    case False
    then show ?thesis using 1 by (subst toString16.simps) (simp add: hexValue_digit)
  qed
qed

lemma hexToBn_bnToHex: "hexToBn (bnToHex n) = n"
  by (simp add: hexToBn_def bnToHex_def addHexPrefix_toString16 stripHexPrefix_def
      hexFold_toString16)

lemma getHighestIncrementedFee_max:
  "bigNumber (getHighestIncrementedFee m d bigNumber originalFee currentEstimate) =
     max (bigNumber (addTenPercent m originalFee)) (bigNumber (d currentEstimate))"
  by (auto simp: getHighestIncrementedFee_def Let_def max_def)

lemma fieldOf_approveLocked_fees:
  assumes "approvalFrame h" and "\<And>t x. h (t\<lparr>txParams := (txParams t)\<lparr>nonce := x\<rparr>\<rparr>) = h t"
  shows "fieldOf h i (snd (approveLocked e j c l s)) = fieldOf h i s"
  unfolding approveLocked_def
  using assms
  by (simp add: andThen_keeps fieldOf_signTransaction fieldOf_publishTransaction
      fieldOf_modifyTx Let_def split: option.splits)

lemma fieldOf_approveTransaction:
  assumes fr: "approvalFrame h"
      and nn: "\<And>t x. h (t\<lparr>txParams := (txParams t)\<lparr>nonce := x\<rparr>\<rparr>) = h t"
  shows "fieldOf h i (snd (approveTransaction e j s)) = fieldOf h i s"
proof (cases "j \<in> inProcessOfSigning s")
  case True
  then show ?thesis by (simp add: approveTransaction_def)
next
  case False
  define s0 where "s0 = s\<lparr>inProcessOfSigning := insert j (inProcessOfSigning s)\<rparr>"
  obtain r1 s1 where acq: "approveAcquire e j s0 = (r1, s1)"
    by (cases "approveAcquire e j s0")
  have f1: "fieldOf h i s1 = fieldOf h i s"
    using fieldOf_approveAcquire [OF fr, of i e j s0] acq by (simp add: s0_def)
  show ?thesis
  proof (cases r1)
    case Pending
    then show ?thesis using False acq f1 by (simp add: approveTransaction_def s0_def [symmetric])
  next
    case (Thrown er)
    then show ?thesis using False acq f1
      by (simp add: approveTransaction_def s0_def [symmetric] fieldOf_failSwallowed [OF fr])
  next
    case (Fulfilled cl)
    obtain c l where cl: "cl = (c, l)" by (cases cl)
    obtain r2 s2 where lk: "approveLocked e j c l s1 = (r2, s2)"
      by (cases "approveLocked e j c l s1")
    have f2: "fieldOf h i s2 = fieldOf h i s"
      using fieldOf_approveLocked_fees [OF fr nn, of i e j c l s1] lk f1 by simp
    show ?thesis using False acq Fulfilled cl lk f2
      by (cases r2)
         (simp_all add: approveTransaction_def s0_def [symmetric] fieldOf_failSwallowed [OF fr])
  qed
qed

lemma replacement_field:
  assumes fresh: "\<forall>t \<in> set (transactions s). tx_id t < nextId s"
      and id: "tx_id newTx = nextId s"
      and fr: "approvalFrame h"
      and nn: "\<And>t x. h (t\<lparr>txParams := (txParams t)\<lparr>nonce := x\<rparr>\<rparr>) = h t"
  shows "fieldOf h (nextId s)
            (snd (andThen (addTransaction newTx (s\<lparr>nextId := Suc (nextId s)\<rparr>)) (\<lambda>_ s2.
                  andThen (approveTransaction e (tx_id newTx) s2) (\<lambda>_ s3.
                    (Fulfilled (tx_id newTx), s3))))) = Some (h newTx)"
proof -
  let ?s1 = "s\<lparr>nextId := Suc (nextId s)\<rparr>"
  let ?s2 = "?s1\<lparr>transactions := transactions ?s1 @ [newTx]\<rparr>"
  have none: "getTransaction (tx_id newTx) ?s1 = None"
    using getTransaction_fresh [OF fresh] id by simp
  then have add: "addTransaction newTx ?s1 = (Fulfilled (), ?s2)"
    by (simp add: addTransaction_def storeAddTransaction_def)
  have got: "getTransaction (tx_id newTx) ?s2 = Some newTx"
    by (rule getTransaction_append_fresh [OF none])
  have "snd (andThen (addTransaction newTx ?s1) (\<lambda>_ s2.
                  andThen (approveTransaction e (tx_id newTx) s2) (\<lambda>_ s3.
                    (Fulfilled (tx_id newTx), s3)))) =
        snd (approveTransaction e (tx_id newTx) ?s2)"
    by (cases "approveTransaction e (tx_id newTx) ?s2"; cases "fst (approveTransaction e (tx_id newTx) ?s2)")
       (simp_all add: add andThen_def)
  then show ?thesis
    using fieldOf_approveTransaction [OF fr nn, of "nextId s" e "tx_id newTx" ?s2] got id
    by (simp add: fieldOf_def)
qed

lemma bumpedFee_fraction:
  "\<not> truthy custom \<Longrightarrow>
     bumpedFee custom (Some f) k = Inr (bnToHex (BnMultiplyByFraction (hexToBn f) k 10))"
  by (simp add: bumpedFee_def)

lemma truthy_orElse [simp]: "truthy (Some (orElse v GAS_LIMITS_SIMPLE))"
  by (simp add: truthy_def orElse_def GAS_LIMITS_SIMPLE_def split: option.splits)

lemma createCancelTransaction_field:
  assumes orig: "getTransaction originalTxId s = Some orig"
      and fresh: "\<forall>t \<in> set (transactions s). tx_id t < nextId s"
      and gen: "generateNewGasParams orig
          (c\<lparr>cg_gasLimit := Some (orElse (cg_gasLimit c) GAS_LIMITS_SIMPLE)\<rparr>) 11 = Inr (prev, new)"
      and nn: "\<And>p x. h (p\<lparr>nonce := x\<rparr>) = h p"
  shows "fieldOf (\<lambda>t. h (txParams t)) (nextId s)
            (snd (createCancelTransaction e originalTxId (Some c) ebf s)) =
          Some (h (spreadGasParams
                 \<lparr>fromAddr = fromAddr (txParams orig), toAddr = Some (fromAddr (txParams orig)),
                  nonce = nonce (txParams orig), txValue = Some ''0x0'', txData = None,
                  gas = None, gasPrice = None, maxFeePerGas = None,
                  maxPriorityFeePerGas = None\<rparr> new))"
proof -
  define newTx where "newTx = withEstimatedBaseFee ebf
         ((fst (generateTxMeta
            (spreadGasParams
               \<lparr>fromAddr = fromAddr (txParams orig), toAddr = Some (fromAddr (txParams orig)),
                nonce = nonce (txParams orig), txValue = Some ''0x0'', txData = None,
                gas = None, gasPrice = None, maxFeePerGas = None,
                maxPriorityFeePerGas = None\<rparr> new) s))
          \<lparr>previousGasParams := Some prev, loadingDefaults := False,
            status := APPROVED, tx_type := Some CANCEL\<rparr>)"
  have eq: "createCancelTransaction e originalTxId (Some c) ebf s =
          andThen (addTransaction newTx (s\<lparr>nextId := Suc (nextId s)\<rparr>)) (\<lambda>_ s2.
                andThen (approveTransaction e (tx_id newTx) s2) (\<lambda>_ s3.
                  (Fulfilled (tx_id newTx), s3)))"
    using orig gen
    by (simp add: createCancelTransaction_def generateTxMeta_def Let_def newTx_def)
  have id: "tx_id newTx = nextId s"
    by (simp add: newTx_def generateTxMeta_def)
  have fr: "approvalFrame (\<lambda>t. h (txParams t))"
    by (simp add: approvalFrame_def)
  have nn': "h (txParams (t\<lparr>txParams := (txParams t)\<lparr>nonce := x\<rparr>\<rparr>)) = h (txParams t)" for t x
    by (simp add: nn)
  have tp: "txParams newTx = spreadGasParams
                 \<lparr>fromAddr = fromAddr (txParams orig), toAddr = Some (fromAddr (txParams orig)),
                  nonce = nonce (txParams orig), txValue = Some ''0x0'', txData = None,
                  gas = None, gasPrice = None, maxFeePerGas = None,
                  maxPriorityFeePerGas = None\<rparr> new"
    by (simp add: newTx_def generateTxMeta_def)
  show ?thesis
    unfolding eq
    using replacement_field [OF fresh id fr nn', of e] by (simp only: tp)
qed

lemma createSpeedUpTransaction_field:
  assumes orig: "getTransaction originalTxId s = Some orig"
      and fresh: "\<forall>t \<in> set (transactions s). tx_id t < nextId s"
      and gen: "generateNewGasParams orig (case g of None \<Rightarrow> emptyGasSettings | Some x \<Rightarrow> x) 11 =
          Inr (prev, new)"
      and nn: "\<And>p x. h (p\<lparr>nonce := x\<rparr>) = h p"
  shows "fieldOf (\<lambda>t. h (txParams t)) (nextId s)
            (snd (createSpeedUpTransaction e originalTxId g ebf s)) =
          Some (h (spreadGasParams (txParams orig) new))"
proof -
  define newTx where "newTx = withEstimatedBaseFee ebf
         ((fst (generateTxMeta (spreadGasParams (txParams orig) new) s))
          \<lparr>previousGasParams := Some prev, loadingDefaults := False,
            status := APPROVED, tx_type := Some RETRY\<rparr>)"
  have eq: "createSpeedUpTransaction e originalTxId g ebf s =
          andThen (addTransaction newTx (s\<lparr>nextId := Suc (nextId s)\<rparr>)) (\<lambda>_ s2.
                andThen (approveTransaction e (tx_id newTx) s2) (\<lambda>_ s3.
                  (Fulfilled (tx_id newTx), s3)))"
    using orig gen
    by (simp add: createSpeedUpTransaction_def generateTxMeta_def Let_def newTx_def)
  have id: "tx_id newTx = nextId s"
    by (simp add: newTx_def generateTxMeta_def)
  have fr: "approvalFrame (\<lambda>t. h (txParams t))"
    by (simp add: approvalFrame_def)
  have nn': "h (txParams (t\<lparr>txParams := (txParams t)\<lparr>nonce := x\<rparr>\<rparr>)) = h (txParams t)" for t x
    by (simp add: nn)
  have tp: "txParams newTx = spreadGasParams (txParams orig) new"
    by (simp add: newTx_def generateTxMeta_def)
  show ?thesis
    unfolding eq
    using replacement_field [OF fresh id fr nn', of e] by (simp only: tp)
qed

lemma generateNewGasParams_default:
  assumes "\<not> truthy (cg_gasPrice g)" "\<not> truthy (cg_maxFeePerGas g)"
       "\<not> truthy (cg_maxPriorityFeePerGas g)"
  shows "(\<forall>f. \<not> isEIP1559Transaction orig \<and> gasPrice (txParams orig) = Some f \<longrightarrow>
               (\<exists>prev new. generateNewGasParams orig g 11 = Inr (prev, new)
                  \<and> cg_gasPrice new = Some (bnToHex (BnMultiplyByFraction (hexToBn f) 11 10))))
           \<and> (\<forall>f1 f2. maxFeePerGas (txParams orig) = Some f1
                  \<and> maxPriorityFeePerGas (txParams orig) = Some f2 \<longrightarrow>
               (\<exists>prev new. generateNewGasParams orig g 11 = Inr (prev, new)
                  \<and> cg_maxFeePerGas new = Some (bnToHex (BnMultiplyByFraction (hexToBn f1) 11 10))
                  \<and> cg_maxPriorityFeePerGas new =
                       Some (bnToHex (BnMultiplyByFraction (hexToBn f2) 11 10))))"
  using assms
  by (auto simp: generateNewGasParams_def bumpedFee_fraction isEIP1559Transaction_def
      emptyGasSettings_def Let_def)

text \<open>
  C4, as amended. A cancel or a speed-up made with no explicit fee override adds a record
  that carries, in each fee field of its shape (\<^verbatim>\<open>gasPrice\<close> for a legacy original,
  \<^verbatim>\<open>maxFeePerGas\<close> and \<^verbatim>\<open>maxPriorityFeePerGas\<close> for a fee-market original),
  \<^verbatim>\<open>bnToHex(BnMultiplyByFraction(hexToBn(fee), 11, 10))\<close> of the original fee: the fee
  times 11/10 in the arbitrary-precision integer arithmetic of the library. This holds in
  every environment, so whatever the estimator reports, and also after the approval that
  both constructors run. An original fee \<^verbatim>\<open>0xa\<close> gives \<^verbatim>\<open>0xb\<close>.
\<close>

theorem replacement_fee_ten_percent:
  assumes orig: "getTransaction originalTxId s = Some orig"
      and fresh: "\<forall>t \<in> set (transactions s). tx_id t < nextId s"
      and noOverride: "\<not> truthy (cg_gasPrice c)" "\<not> truthy (cg_maxFeePerGas c)"
        "\<not> truthy (cg_maxPriorityFeePerGas c)"
      and r: "r = createCancelTransaction e originalTxId (Some c) ebf s
              \<or> r = createSpeedUpTransaction e originalTxId (Some c) ebf s
              \<or> r = createSpeedUpTransaction e originalTxId None ebf s"
  shows "(\<forall>f. \<not> isEIP1559Transaction orig \<and> gasPrice (txParams orig) = Some f \<longrightarrow>
            fieldOf (\<lambda>t. gasPrice (txParams t)) (nextId s) (snd r) =
              Some (Some (bnToHex (BnMultiplyByFraction (hexToBn f) 11 10))))
       \<and> (\<forall>f1 f2. maxFeePerGas (txParams orig) = Some f1
              \<and> maxPriorityFeePerGas (txParams orig) = Some f2 \<longrightarrow>
            fieldOf (\<lambda>t. (maxFeePerGas (txParams t), maxPriorityFeePerGas (txParams t)))
                (nextId s) (snd r) =
              Some (Some (bnToHex (BnMultiplyByFraction (hexToBn f1) 11 10)),
                    Some (bnToHex (BnMultiplyByFraction (hexToBn f2) 11 10))))
       \<and> bnToHex (BnMultiplyByFraction (hexToBn ''0xa'') 11 10) = ''0xb''"
proof -
  have ex: "bnToHex (BnMultiplyByFraction (hexToBn ''0xa'') 11 10) = ''0xb''"
    by (simp add: hexToBn_def stripHexPrefix_def hexValue_def bnToHex_def toString16.simps
        hexDigits_def addHexPrefix_def BnMultiplyByFraction_def)
  have e0: "\<not> truthy (cg_gasPrice emptyGasSettings)" "\<not> truthy (cg_maxFeePerGas emptyGasSettings)"
    "\<not> truthy (cg_maxPriorityFeePerGas emptyGasSettings)"
    by (simp_all add: emptyGasSettings_def truthy_def)
  let ?cc = "c\<lparr>cg_gasLimit := Some (orElse (cg_gasLimit c) GAS_LIMITS_SIMPLE)\<rparr>"
  have ncc: "\<not> truthy (cg_gasPrice ?cc)" "\<not> truthy (cg_maxFeePerGas ?cc)"
       "\<not> truthy (cg_maxPriorityFeePerGas ?cc)"
    using noOverride by simp_all
  note cG = createCancelTransaction_field [OF orig fresh, where h = gasPrice and c = c]
  note cM = createCancelTransaction_field [OF orig fresh,
      where h = "\<lambda>p. (maxFeePerGas p, maxPriorityFeePerGas p)" and c = c]
  note sG = createSpeedUpTransaction_field [OF orig fresh, where h = gasPrice]
  note sM = createSpeedUpTransaction_field [OF orig fresh,
      where h = "\<lambda>p. (maxFeePerGas p, maxPriorityFeePerGas p)"]
  from r show ?thesis
  proof (elim disjE)
    assume rc: "r = createCancelTransaction e originalTxId (Some c) ebf s"
    show ?thesis
      unfolding rc
      using generateNewGasParams_default [OF ncc, of orig]
      by (auto simp: ex spreadGasParams_def cG cM)
  next
    assume rs: "r = createSpeedUpTransaction e originalTxId (Some c) ebf s"
    show ?thesis
      unfolding rs
      using generateNewGasParams_default [OF noOverride, of orig]
      by (auto simp: ex spreadGasParams_def sG [where g = "Some c", simplified]
            sM [where g = "Some c", simplified])
  next
    assume rs: "r = createSpeedUpTransaction e originalTxId None ebf s"
    show ?thesis
      unfolding rs
      using generateNewGasParams_default [OF e0, of orig]
      by (auto simp: ex spreadGasParams_def sG [where g = None, simplified]
            sM [where g = None, simplified])
  qed
qed


theorem replacement_fee_ten_percent_witness:
  "getTransaction 1 submittedStore = Some submittedTx
   \<and> map tx_id (transactions submittedStore) = [1] \<and> nextId submittedStore = 2
   \<and> \<not> truthy (cg_gasPrice emptyGasSettings) \<and> \<not> truthy (cg_maxFeePerGas emptyGasSettings)
   \<and> \<not> truthy (cg_maxPriorityFeePerGas emptyGasSettings)
   \<and> \<not> isEIP1559Transaction submittedTx \<and> gasPrice (txParams submittedTx) = Some ''0xa''
   \<and> gasFeeEstimates sampleEnv = Fulfilled (LegacyEstimates ''20'')
   \<and> fieldOf (\<lambda>t. gasPrice (txParams t)) 2
        (snd (createSpeedUpTransaction sampleEnv 1 None None submittedStore)) = Some (Some ''0xb'')
   \<and> fieldOf (\<lambda>t. gasPrice (txParams t)) 2
        (snd (createCancelTransaction sampleEnv 1 (Some emptyGasSettings) None submittedStore)) =
          Some (Some ''0xb'')"
proof -
  have h1: "getTransaction 1 submittedStore = Some submittedTx"
    by (simp add: eval_defs sample_defs)
  have h2: "\<forall>t \<in> set (transactions submittedStore). tx_id t < nextId submittedStore"
    and ids: "map tx_id (transactions submittedStore) = [1]" "nextId submittedStore = 2"
    by (simp_all add: eval_defs sample_defs)
  have h3: "\<not> truthy (cg_gasPrice emptyGasSettings)" "\<not> truthy (cg_maxFeePerGas emptyGasSettings)"
    "\<not> truthy (cg_maxPriorityFeePerGas emptyGasSettings)"
    by (simp_all add: emptyGasSettings_def truthy_def)
  have t: "\<not> isEIP1559Transaction submittedTx \<and> gasPrice (txParams submittedTx) = Some ''0xa''"
    by (simp add: isEIP1559Transaction_def submittedTx_def sample_defs)
  have est: "gasFeeEstimates sampleEnv = Fulfilled (LegacyEstimates ''20'')"
    by (simp add: sampleEnv_def)
  note speed = replacement_fee_ten_percent
      [OF h1 h2 h3 disjI2 [OF disjI2 [OF refl]], where e = sampleEnv and ebf = None]
  note cancel = replacement_fee_ten_percent
      [OF h1 h2 h3 disjI1 [OF refl], where e = sampleEnv and ebf = None]
  have b: "bnToHex (BnMultiplyByFraction (hexToBn ''0xa'') 11 10) = ''0xb''"
    by (rule speed [THEN conjunct2, THEN conjunct2])
  have "fieldOf (\<lambda>t. gasPrice (txParams t)) 2
        (snd (createSpeedUpTransaction sampleEnv 1 None None submittedStore)) = Some (Some ''0xb'')"
    using speed [THEN conjunct1, rule_format, OF t] by (simp only: b ids)
  moreover have "fieldOf (\<lambda>t. gasPrice (txParams t)) 2
        (snd (createCancelTransaction sampleEnv 1 (Some emptyGasSettings) None submittedStore)) =
          Some (Some ''0xb'')"
    using cancel [THEN conjunct1, rule_format, OF t] by (simp only: b ids)
  ultimately show ?thesis using h1 ids h3 t est by blast
qed

text \<open>
  C4 as stated fails: the estimator of the sample wallet reports a medium price of 20 gwei,
  the original gas price is \<^verbatim>\<open>0xa\<close>, and the speed-up made with no override carries
  \<^verbatim>\<open>0xb\<close>, not the greater of the two.
\<close>

theorem bumped_fee_ignores_estimate_counterexample:
  "gasFeeEstimates sampleEnv = Fulfilled (LegacyEstimates ''20'')
   \<and> hexToBn (decGWEIToHexWEI sampleEnv ''20'') = 20000000000
   \<and> fieldOf (\<lambda>t. gasPrice (txParams t)) 1 submittedStore = Some (Some ''0xa'')
   \<and> fieldOf (\<lambda>t. gasPrice (txParams t)) 2
        (snd (createSpeedUpTransaction sampleEnv 1 None None submittedStore)) = Some (Some ''0xb'')
   \<and> hexToBn ''0xb'' \<noteq>
        specBumpedFee (hexToBn ''0xa'') (hexToBn (decGWEIToHexWEI sampleEnv ''20''))"
  by (simp add: eval_defs sample_defs specBumpedFee_def cong: andThen_weak_cong let_weak_cong)

section \<open>Gas defaults\<close>

lemma getDefaultGasLimit_state: "snd (getDefaultGasLimit e t c s) = s"
  by (simp add: getDefaultGasLimit_def andThen_def split: outcome.splits prod.splits)

lemma getDefaultGasFees_state: "snd (getDefaultGasFees e t eip s) = s"
  by (simp add: getDefaultGasFees_def andThen_def Let_def
      split: outcome.splits feeEstimates.splits)

lemma truthy_simps [simp]:
  "truthy None = False"
  "truthy (Some x) = (x \<noteq> [])"
  by (simp_all add: truthy_def)

lemma truthy_map_option: "truthy x \<Longrightarrow> (\<And>y. f y \<noteq> []) \<Longrightarrow> truthy (map_option f x)"
  by (cases x) simp_all

lemma addHexPrefix_nonempty [simp]: "addHexPrefix x \<noteq> []"
  by (auto simp: addHexPrefix_def)

lemma fromNode_yields:
  assumes "andThen (queryGasPrice e, s) (\<lambda>price s1.
            (Fulfilled (emptyGasSettings
               \<lparr>cg_gasPrice := map_option (\<lambda>n. addHexPrefix (toString16 n)) price\<rparr>), s1))
           = (Fulfilled d, s1)"
      and "queryGasPrice e \<noteq> Fulfilled None"
  shows "truthy (cg_gasPrice d)"
  using assms
  by (cases "queryGasPrice e") (auto simp: andThen_def)


lemma getDefaultGasFees_yields:
  assumes r: "getDefaultGasFees e t eip s = (Fulfilled d, s1)"
      and dec: "\<And>x. decGWEIToHexWEI e x \<noteq> []"
      and node: "queryGasPrice e \<noteq> Fulfilled None"
  shows "(\<not> eip \<and> truthy (gasPrice (txParams t)))
         \<or> (eip \<and> truthy (maxFeePerGas (txParams t)) \<and> truthy (maxPriorityFeePerGas (txParams t)))
         \<or> truthy (cg_gasPrice d)
         \<or> (eip \<and> truthy (cg_maxFeePerGas d) \<and> truthy (cg_maxPriorityFeePerGas d))"
proof (cases "(\<not> eip \<and> truthy (gasPrice (txParams t)))
         \<or> (eip \<and> truthy (maxFeePerGas (txParams t)) \<and> truthy (maxPriorityFeePerGas (txParams t)))")
  case True
  then show ?thesis by blast
next
  case False
  let ?fromNode = "andThen (queryGasPrice e, s) (\<lambda>price s1.
            (Fulfilled (emptyGasSettings
               \<lparr>cg_gasPrice := map_option (\<lambda>n. addHexPrefix (toString16 n)) price\<rparr>), s1))"
  have node': "truthy (cg_gasPrice d)" if "?fromNode = (Fulfilled d, s1)"
    using fromNode_yields [OF that node] .
  show ?thesis
  proof (cases "gasFeeEstimates e")
    case Pending
    then show ?thesis using False r by (auto simp: getDefaultGasFees_def Let_def split: if_splits)
  next
    case (Thrown er)
    then have "?fromNode = (Fulfilled d, s1)"
      using False r by (auto simp: getDefaultGasFees_def Let_def split: if_splits)
    then show ?thesis using node' by simp
  next
    case (Fulfilled est)
    show ?thesis
    proof (cases est)
      case (FeeMarketEstimates sp sf)
      show ?thesis
      proof (cases "eip \<and> truthy sp \<and> truthy sf")
        case True
        then have "d = emptyGasSettings
                    \<lparr>cg_maxFeePerGas := map_option (decGWEIToHexWEI e) sf,
                     cg_maxPriorityFeePerGas := map_option (decGWEIToHexWEI e) sp\<rparr>"
          using Fulfilled FeeMarketEstimates False r
          by (auto simp: getDefaultGasFees_def Let_def split: if_splits)
        then show ?thesis using True dec by (simp add: truthy_map_option)
      next
        case nt: False
        then have "?fromNode = (Fulfilled d, s1)"
          using Fulfilled FeeMarketEstimates False r
          by (auto simp: getDefaultGasFees_def Let_def split: if_splits)
        then show ?thesis using node' by simp
      qed
    next
      case (LegacyEstimates m)
      then have "d = emptyGasSettings\<lparr>cg_gasPrice := Some (decGWEIToHexWEI e m)\<rparr>"
        using Fulfilled False r by (auto simp: getDefaultGasFees_def Let_def split: if_splits)
      then show ?thesis using dec by simp
    next
      case (EthGasPriceEstimates m)
      then have "d = emptyGasSettings\<lparr>cg_gasPrice := Some (decGWEIToHexWEI e m)\<rparr>"
        using Fulfilled False r by (auto simp: getDefaultGasFees_def Let_def split: if_splits)
      then show ?thesis using dec by simp
    next
      case NoEstimates
      then have "?fromNode = (Fulfilled d, s1)"
        using Fulfilled False r by (auto simp: getDefaultGasFees_def Let_def split: if_splits)
      then show ?thesis using node' by simp
    qed
  qed
qed


lemma feeMarketDefaults_truthy:
  assumes "truthy (maxFeePerGas p) \<or> truthy (cg_maxFeePerGas d) \<or> truthy (cg_gasPrice d)"
  shows "truthy (maxFeePerGas (feeMarketDefaults d p))
         \<and> truthy (maxPriorityFeePerGas (feeMarketDefaults d p))"
  using assms by (auto simp: feeMarketDefaults_def Let_def)

lemma applyGasDefaults_oneFeeShape:
  assumes "(\<not> eip \<and> truthy (gasPrice (txParams t)))
         \<or> (eip \<and> truthy (maxFeePerGas (txParams t)) \<and> truthy (maxPriorityFeePerGas (txParams t)))
         \<or> truthy (cg_gasPrice d)
         \<or> (eip \<and> truthy (cg_maxFeePerGas d) \<and> truthy (cg_maxPriorityFeePerGas d))"
  shows "oneFeeShape (txParams (applyGasDefaults eip d gl sf t))"
proof (cases eip)
  case True
  show ?thesis
  proof (cases "truthy (gasPrice (txParams t)) \<and> \<not> truthy (maxFeePerGas (txParams t))
                 \<and> \<not> truthy (maxPriorityFeePerGas (txParams t))")
    case True
    then show ?thesis using \<open>eip\<close>
      by (simp add: applyGasDefaults_def Let_def oneFeeShape_def)
  next
    case False
    have "truthy (maxFeePerGas (txParams t)) \<or> truthy (cg_maxFeePerGas d) \<or> truthy (cg_gasPrice d)"
      using assms \<open>eip\<close> by blast
    from feeMarketDefaults_truthy [OF this]
    show ?thesis using False \<open>eip\<close>
      by (simp add: applyGasDefaults_def Let_def oneFeeShape_def)
  qed
next
  case False
  then show ?thesis using assms
    by (auto simp: applyGasDefaults_def Let_def oneFeeShape_def)
qed

lemma applyGasDefaults_id [simp]: "tx_id (applyGasDefaults eip d gl sf t) = tx_id t"
  by (simp add: applyGasDefaults_def Let_def split: prod.splits)

text \<open>
  C5. When \<^verbatim>\<open>addTxGasDefaults\<close> completes on a stored record, with a fee source that
  yields a value (the conversion of an estimate is never the empty string, and the node
  reports a gas price when asked), the record's \<^verbatim>\<open>txParams\<close> carry exactly one fee shape:
  \<^verbatim>\<open>gasPrice\<close> with neither \<^verbatim>\<open>maxFeePerGas\<close> nor \<^verbatim>\<open>maxPriorityFeePerGas\<close>, or both of
  these with no \<^verbatim>\<open>gasPrice\<close>.
\<close>

theorem addTxGasDefaults_one_fee_shape:
  assumes stored: "getTransaction (tx_id txMeta) s = Some txMeta"
      and dec: "\<forall>x. decGWEIToHexWEI e x \<noteq> []"
      and node: "queryGasPrice e \<noteq> Fulfilled None"
      and fin: "addTxGasDefaults e txMeta getCodeResponse s = (Fulfilled u, s')"
  shows "\<exists>t'. getTransaction (tx_id txMeta) s' = Some t' \<and> oneFeeShape (txParams t')"
proof -
  from fin obtain eip s1 d s2 gl s3 where
        c1: "getEIP1559Compatibility e None s = (Fulfilled eip, s1)"
    and c2: "getDefaultGasFees e txMeta eip s1 = (Fulfilled d, s2)"
    and c3: "getDefaultGasLimit e txMeta getCodeResponse s2 = (Fulfilled gl, s3)"
    and r3: "(case gl of (defaultGasLimit, simFails) \<Rightarrow> \<lambda>s3.
       (case getTransaction (tx_id txMeta) s3 of
          None \<Rightarrow> (Thrown (TypeError ''txMeta is undefined''), s3)
        | Some stored \<Rightarrow>
            (Fulfilled (),
             modifyTx (tx_id txMeta)
               (applyGasDefaults eip d defaultGasLimit simFails) s3))) s3 = (Fulfilled u, s')"
    unfolding addTxGasDefaults_def by (elim andThen_cases) simp_all
  have s1: "s1 = s" using getEIP1559Compatibility_state [of e None s] c1 by simp
  have s2: "s2 = s" using getDefaultGasFees_state [of e txMeta eip s1] c2 s1 by simp
  have s3: "s3 = s" using getDefaultGasLimit_state [of e txMeta getCodeResponse s2] c3 s2 by simp
  obtain defaultGasLimit simFails where gl: "gl = (defaultGasLimit, simFails)" by (cases gl)
  have s': "s' = modifyTx (tx_id txMeta) (applyGasDefaults eip d defaultGasLimit simFails) s"
    using r3 gl s3 stored by simp
  have y: "(\<not> eip \<and> truthy (gasPrice (txParams txMeta)))
         \<or> (eip \<and> truthy (maxFeePerGas (txParams txMeta)) \<and> truthy (maxPriorityFeePerGas (txParams txMeta)))
         \<or> truthy (cg_gasPrice d)
         \<or> (eip \<and> truthy (cg_maxFeePerGas d) \<and> truthy (cg_maxPriorityFeePerGas d))"
    using getDefaultGasFees_yields [OF c2 _ node] dec by blast
  show ?thesis
    using stored applyGasDefaults_oneFeeShape [OF y, of defaultGasLimit simFails]
    by (simp add: s' getTransaction_modifyTx)
qed

lemmas intake_defs = addUnapprovedTransaction_def addTxGasDefaults_def getDefaultGasFees_def
  getDefaultGasLimit_def applyGasDefaults_def feeMarketDefaults_def oneFeeShape_def
  determineTransactionType_def authorizeOrigin_def authorized_def noContractCode_def
  callDraft_def callDraftWithGas_def plainDraft_def draftTx_def defaultsStore_def

theorem addTxGasDefaults_one_fee_shape_witness:
  "getTransaction (tx_id draftTx) defaultsStore = Some draftTx
   \<and> (\<forall>x. decGWEIToHexWEI sampleEnv x \<noteq> [])
   \<and> queryGasPrice sampleEnv \<noteq> Fulfilled None
   \<and> fst (addTxGasDefaults sampleEnv draftTx None defaultsStore) = Fulfilled ()
   \<and> fieldOf txParams 1 (snd (addTxGasDefaults sampleEnv draftTx None defaultsStore)) =
        Some (plainDraft\<lparr>gas := Some ''0x5208'', gasPrice := Some ''0x4a817c800''\<rparr>)
   \<and> oneFeeShape (plainDraft\<lparr>gas := Some ''0x5208'', gasPrice := Some ''0x4a817c800''\<rparr>)"
proof -
  have h1: "getTransaction (tx_id draftTx) defaultsStore = Some draftTx"
    by (simp add: eval_defs intake_defs sample_defs)
  have h2: "\<forall>x. decGWEIToHexWEI sampleEnv x \<noteq> []"
    by (simp add: sample_defs)
  have h3: "queryGasPrice sampleEnv \<noteq> Fulfilled None"
    by (simp add: sample_defs)
  have ev: "fst (addTxGasDefaults sampleEnv draftTx None defaultsStore) = Fulfilled ()"
    "fieldOf txParams 1 (snd (addTxGasDefaults sampleEnv draftTx None defaultsStore)) =
        Some (plainDraft\<lparr>gas := Some ''0x5208'', gasPrice := Some ''0x4a817c800''\<rparr>)"
    by (simp_all add: eval_defs intake_defs sample_defs cong: andThen_weak_cong let_weak_cong)
  have pair: "addTxGasDefaults sampleEnv draftTx None defaultsStore =
      (Fulfilled (), snd (addTxGasDefaults sampleEnv draftTx None defaultsStore))"
    by (metis ev(1) prod.collapse)
  have "oneFeeShape (plainDraft\<lparr>gas := Some ''0x5208'', gasPrice := Some ''0x4a817c800''\<rparr>)"
    using addTxGasDefaults_one_fee_shape [OF h1 h2 h3 pair] ev(2) h1
    by (auto simp: fieldOf_def draftTx_def sampleTx_def)
  then show ?thesis using h1 h2 h3 ev by simp
qed

section \<open>Intake of a draft\<close>

lemma getEIP1559Compatibility_result:
  assumes "networkEIP1559 e = Fulfilled a" and "accountEIP1559 e x = Fulfilled b"
  shows "getEIP1559Compatibility e x s = (Fulfilled (a \<and> b), s)"
  using assms by (simp add: getEIP1559Compatibility_def andThen_def)

lemma authorizeOrigin_refuses:
  assumes "\<not> authorized e originArg np"
      and "originArg \<noteq> Some ''metamask'' \<longrightarrow> (\<exists>l. permittedAccounts e originArg = Fulfilled l)"
  shows "authorizeOrigin e originArg np s =
           (Thrown (if originArg = Some ''metamask''
                    then InvalidAccount originArg (fromAddr np) (selectedAddress e)
                    else Unauthorized originArg), s)"
  using assms by (auto simp: authorizeOrigin_def authorized_def andThen_def)

lemma authorizeOrigin_accepts:
  assumes "authorized e originArg np"
  shows "authorizeOrigin e originArg np s = (Fulfilled (), s)"
  using assms
  by (auto simp: authorizeOrigin_def authorized_def andThen_def split: outcome.splits if_splits)

text \<open>
  C8. Intake refuses a draft whose sender the origin may not use, and stores nothing. With
  the wallet's own origin \<^verbatim>\<open>'metamask'\<close> the sender must be the selected account,
  otherwise the call throws the invalid-account error; with any other origin the sender
  must be among the accounts permitted to that origin, otherwise the call throws the
  unauthorized-origin error. In both failures the list of stored records is the one before
  the call. When the sender is authorized the check passes and leaves the state as it was.
  The compatibility queries and the permission lookup are taken to answer, and the draft to
  pass validation.
\<close>

theorem addUnapprovedTransaction_unauthorized:
  assumes "networkEIP1559 e = Fulfilled a" and "accountEIP1559 e None = Fulfilled b"
      and "validateTxParams e (normalizeTxParams e p) (a \<and> b) = None"
      and "originArg \<noteq> Some ''metamask'' \<longrightarrow> (\<exists>l. permittedAccounts e originArg = Fulfilled l)"
  shows "(\<not> authorized e originArg (normalizeTxParams e p) \<longrightarrow>
            fst (addUnapprovedTransaction e p originArg s) =
              Thrown (if originArg = Some ''metamask''
                      then InvalidAccount originArg (fromAddr (normalizeTxParams e p)) (selectedAddress e)
                      else Unauthorized originArg)
            \<and> transactions (snd (addUnapprovedTransaction e p originArg s)) = transactions s)
         \<and> (authorized e originArg (normalizeTxParams e p) \<longrightarrow>
              authorizeOrigin e originArg (normalizeTxParams e p) s = (Fulfilled (), s))"
proof (intro conjI impI)
  assume na: "\<not> authorized e originArg (normalizeTxParams e p)"
  have "addUnapprovedTransaction e p originArg s =
          (Thrown (if originArg = Some ''metamask''
                      then InvalidAccount originArg (fromAddr (normalizeTxParams e p)) (selectedAddress e)
                      else Unauthorized originArg), s\<lparr>nextId := Suc (nextId s)\<rparr>)"
    unfolding addUnapprovedTransaction_def
    by (simp add: getEIP1559Compatibility_result [OF assms(1,2)] andThen_simps assms(3)
        generateTxMeta_def Let_def authorizeOrigin_refuses [OF na assms(4)]
        cong: andThen_weak_cong)
  then show "fst (addUnapprovedTransaction e p originArg s) =
              Thrown (if originArg = Some ''metamask''
                      then InvalidAccount originArg (fromAddr (normalizeTxParams e p)) (selectedAddress e)
                      else Unauthorized originArg)"
    and "transactions (snd (addUnapprovedTransaction e p originArg s)) = transactions s"
    by simp_all
next
  assume "authorized e originArg (normalizeTxParams e p)"
  then show "authorizeOrigin e originArg (normalizeTxParams e p) s = (Fulfilled (), s)"
    by (rule authorizeOrigin_accepts)
qed

theorem addUnapprovedTransaction_unauthorized_witness:
  "fst (addUnapprovedTransaction (sampleEnv\<lparr>selectedAddress := Some ''0xc3''\<rparr>) sampleParams
          (Some ''metamask'') sampleStore) =
     Thrown (InvalidAccount (Some ''metamask'') ''0xa1'' (Some ''0xc3''))
   \<and> transactions (snd (addUnapprovedTransaction (sampleEnv\<lparr>selectedAddress := Some ''0xc3''\<rparr>)
          sampleParams (Some ''metamask'') sampleStore)) = [sampleTx]
   \<and> fst (addUnapprovedTransaction (sampleEnv\<lparr>permittedAccounts := (\<lambda>origin. Fulfilled [''0xc3''])\<rparr>)
          sampleParams (Some ''dapp.example'') sampleStore) =
     Thrown (Unauthorized (Some ''dapp.example''))
   \<and> transactions (snd (addUnapprovedTransaction
          (sampleEnv\<lparr>permittedAccounts := (\<lambda>origin. Fulfilled [''0xc3''])\<rparr>)
          sampleParams (Some ''dapp.example'') sampleStore)) = [sampleTx]
   \<and> authorized sampleEnv (Some ''dapp.example'') sampleParams
   \<and> authorizeOrigin sampleEnv (Some ''dapp.example'') sampleParams sampleStore =
       (Fulfilled (), sampleStore)"
proof -
  let ?e1 = "sampleEnv\<lparr>selectedAddress := Some ''0xc3''\<rparr>"
  let ?e2 = "sampleEnv\<lparr>permittedAccounts := (\<lambda>origin. Fulfilled [''0xc3''])\<rparr>"
  have c1: "networkEIP1559 ?e1 = Fulfilled False" "accountEIP1559 ?e1 None = Fulfilled True"
    and c2: "networkEIP1559 ?e2 = Fulfilled False" "accountEIP1559 ?e2 None = Fulfilled True"
    and c3: "networkEIP1559 sampleEnv = Fulfilled False" "accountEIP1559 sampleEnv None = Fulfilled True"
    by (simp_all add: sampleEnv_def)
  have v1: "validateTxParams ?e1 (normalizeTxParams ?e1 sampleParams) (False \<and> True) = None"
    and v2: "validateTxParams ?e2 (normalizeTxParams ?e2 sampleParams) (False \<and> True) = None"
    and v3: "validateTxParams sampleEnv (normalizeTxParams sampleEnv sampleParams) (False \<and> True) = None"
    by (simp_all add: sampleEnv_def)
  have p1: "Some ''metamask'' \<noteq> Some ''metamask'' \<longrightarrow>
              (\<exists>l. permittedAccounts ?e1 (Some ''metamask'') = Fulfilled l)"
    and p2: "Some ''dapp.example'' \<noteq> Some ''metamask'' \<longrightarrow>
              (\<exists>l. permittedAccounts ?e2 (Some ''dapp.example'') = Fulfilled l)"
    and p3: "Some ''dapp.example'' \<noteq> Some ''metamask'' \<longrightarrow>
              (\<exists>l. permittedAccounts sampleEnv (Some ''dapp.example'') = Fulfilled l)"
    by (simp_all add: sampleEnv_def)
  have n1: "\<not> authorized ?e1 (Some ''metamask'') (normalizeTxParams ?e1 sampleParams)"
    and n2: "\<not> authorized ?e2 (Some ''dapp.example'') (normalizeTxParams ?e2 sampleParams)"
    and a3: "authorized sampleEnv (Some ''dapp.example'') (normalizeTxParams sampleEnv sampleParams)"
    by (simp_all add: authorized_def sampleEnv_def sampleParams_def)
  have nm: "normalizeTxParams ?e1 sampleParams = sampleParams"
    "normalizeTxParams ?e2 sampleParams = sampleParams"
    "normalizeTxParams sampleEnv sampleParams = sampleParams"
    "selectedAddress ?e1 = Some ''0xc3''" "fromAddr sampleParams = ''0xa1''"
    "transactions sampleStore = [sampleTx]"
    by (simp_all add: sampleEnv_def sampleParams_def sampleStore_def)
  note t1 = addUnapprovedTransaction_unauthorized [OF c1 v1 p1, where s = sampleStore,
      THEN conjunct1, THEN mp, OF n1]
  note t2 = addUnapprovedTransaction_unauthorized [OF c2 v2 p2, where s = sampleStore,
      THEN conjunct1, THEN mp, OF n2]
  note t3 = addUnapprovedTransaction_unauthorized [OF c3 v3 p3, where s = sampleStore,
      THEN conjunct2, THEN mp, OF a3]
  show ?thesis
    using t1 t2 t3 a3 unfolding nm by simp
qed


subsection \<open>Gas defaults of a call to an address without code\<close>

lemma getDefaultGasFees_resolves:
  assumes "gasFeeEstimates e \<noteq> Pending" and "queryGasPrice e = Fulfilled g"
  shows "\<exists>d. getDefaultGasFees e t eip s = (Fulfilled d, s)"
  using assms
  by (auto simp: getDefaultGasFees_def Let_def andThen_simps
      split: outcome.splits feeEstimates.splits)

lemma addTxGasDefaults_non_contract:
  assumes "networkEIP1559 e = Fulfilled a" and "accountEIP1559 e None = Fulfilled b"
      and "gasFeeEstimates e \<noteq> Pending" and "queryGasPrice e = Fulfilled g"
      and "\<not> truthy (gas (txParams t))" and "truthy (toAddr (txParams t))"
      and "tx_type t = Some SENT_ETHER" and "chainTypeOf e \<noteq> Custom"
      and "truthy (txData (txParams t))"
  shows "addTxGasDefaults e t code s = (Thrown (NonContractCall code), s)"
proof -
  obtain d where d: "getDefaultGasFees e t (a \<and> b) s = (Fulfilled d, s)"
    using getDefaultGasFees_resolves [OF assms(3,4)] by blast
  have "getDefaultGasLimit e t code s = (Thrown (NonContractCall code), s)"
    using assms(5-9) by (simp add: getDefaultGasLimit_def)
  then show ?thesis
    unfolding addTxGasDefaults_def
    by (simp add: getEIP1559Compatibility_result [OF assms(1,2)] d andThen_simps
        cong: andThen_weak_cong)
qed

lemma determineTransactionType_sent_ether:
  assumes "truthy (txData p)" and "truthy (toAddr p)"
      and "tokenMethod e (orElse (txData p) []) = None"
      and "noContractCode (getCode e (toAddr p))"
  shows "determineTransactionType e p s =
           (Fulfilled (SENT_ETHER, case getCode e (toAddr p) of Fulfilled c \<Rightarrow> c | _ \<Rightarrow> None), s)"
  using assms
  by (auto simp: determineTransactionType_def noContractCode_def Let_def split: outcome.splits)

text \<open>
  C7, as amended. A valid draft of an authorized sender with data, sent to an address
  without contract code, is stored and then fails gas defaulting with the non-contract-call
  error, provided that the draft names no gas limit, its data is not a recognised token
  method, the chain is not a custom one, and the compatibility and fee queries that precede
  the gas limit answer. The call throws that error carrying the \<^verbatim>\<open>getCode\<close> response;
  the record with the fresh id is in the store, unapproved, typed as a plain transfer, with
  \<^verbatim>\<open>loadingDefaults\<close> cleared, and its gas limit and fee fields are those of the
  draft: no default was written.
\<close>

theorem addUnapprovedTransaction_non_contract_call:
  assumes compat: "networkEIP1559 e = Fulfilled a" "accountEIP1559 e None = Fulfilled b"
      and valid: "validateTxParams e (normalizeTxParams e p) (a \<and> b) = None"
      and auth: "authorized e originArg (normalizeTxParams e p)"
      and fresh: "\<forall>t \<in> set (transactions s). tx_id t < nextId s"
      and draft: "truthy (txData p)" "truthy (toAddr p)"
        "tokenMethod e (orElse (txData p) []) = None" "noContractCode (getCode e (toAddr p))"
      and norm: "truthy (txData (normalizeTxParams e p))" "truthy (toAddr (normalizeTxParams e p))"
        "\<not> truthy (gas (normalizeTxParams e p))"
      and chain: "chainTypeOf e \<noteq> Custom"
      and fees: "gasFeeEstimates e \<noteq> Pending" "queryGasPrice e = Fulfilled g"
  shows "fst (addUnapprovedTransaction e p originArg s) =
           Thrown (NonContractCall (case getCode e (toAddr p) of Fulfilled c \<Rightarrow> c | _ \<Rightarrow> None))
         \<and> (\<exists>t. getTransaction (nextId s) (snd (addUnapprovedTransaction e p originArg s)) = Some t
               \<and> status t = UNAPPROVED \<and> \<not> loadingDefaults t \<and> tx_type t = Some SENT_ETHER
               \<and> gas (txParams t) = gas (normalizeTxParams e p)
               \<and> gasPrice (txParams t) = gasPrice (normalizeTxParams e p)
               \<and> maxFeePerGas (txParams t) = maxFeePerGas (normalizeTxParams e p)
               \<and> maxPriorityFeePerGas (txParams t) = maxPriorityFeePerGas (normalizeTxParams e p))"
proof -
  define code where "code = (case getCode e (toAddr p) of Fulfilled c \<Rightarrow> c | _ \<Rightarrow> None)"
  define np where "np = normalizeTxParams e p"
  define txMeta where "txMeta = (fst (generateTxMeta np s))
      \<lparr>origin := originArg, tx_type := Some SENT_ETHER,
        txParams := np\<lparr>txValue := Some (if truthy (txValue np)
                                          then addHexPrefix (orElse (txValue np) []) else ''0x0'')\<rparr>\<rparr>"
  define s2 where "s2 = s\<lparr>nextId := Suc (nextId s)\<rparr>"
  define s5 where "s5 = s2\<lparr>transactions := transactions s2 @ [txMeta]\<rparr>"
  define s6 where "s6 = modifyTx (nextId s) (\<lambda>t. t\<lparr>loadingDefaults := False\<rparr>) s5"
  have id: "tx_id txMeta = nextId s" by (simp add: txMeta_def generateTxMeta_def)
  have none: "getTransaction (tx_id txMeta) s2 = None"
    using getTransaction_fresh [OF fresh] by (simp add: id s2_def)
  have add: "addTransaction txMeta s2 = (Fulfilled (), s5)"
    using none by (simp add: addTransaction_def storeAddTransaction_def s5_def)
  have got: "getTransaction (nextId s) s5 = Some txMeta"
    using getTransaction_append_fresh [OF none] by (simp add: s5_def id)
  have dflt: "addTxGasDefaults e txMeta code s5 = (Thrown (NonContractCall code), s5)"
    using norm chain
    by (intro addTxGasDefaults_non_contract [OF compat fees])
       (simp_all add: txMeta_def generateTxMeta_def np_def)
  have got6: "getTransaction (nextId s) s6 = Some (txMeta\<lparr>loadingDefaults := False\<rparr>)"
    using got by (simp add: s6_def getTransaction_modifyTx)
  then have upd: "updateTransaction (nextId s) s6 = (Fulfilled (), s6)"
    by (simp add: updateTransaction_def)
  have r: "addUnapprovedTransaction e p originArg s = (Thrown (NonContractCall code), s6)"
    unfolding addUnapprovedTransaction_def
    using add dflt upd
    by (simp add: getEIP1559Compatibility_result [OF compat] andThen_simps valid [folded np_def]
        generateTxMeta_def Let_def authorizeOrigin_accepts [OF auth, folded np_def]
        determineTransactionType_sent_ether [OF draft] code_def [symmetric] np_def [symmetric]
        txMeta_def s2_def s6_def
        split del: if_split cong: andThen_weak_cong if_cong)
  show ?thesis
    using got6 by (simp add: r code_def txMeta_def generateTxMeta_def np_def)
qed

theorem addUnapprovedTransaction_non_contract_call_witness:
  "truthy (txData callDraft) \<and> truthy (toAddr callDraft) \<and> \<not> truthy (gas callDraft)
   \<and> noContractCode (getCode sampleEnv (toAddr callDraft))
   \<and> authorized sampleEnv (Some ''metamask'') callDraft
   \<and> map tx_id (transactions sampleStore) = [1] \<and> nextId sampleStore = 2
   \<and> fst (addUnapprovedTransaction sampleEnv callDraft (Some ''metamask'') sampleStore) =
       Thrown (NonContractCall (Some ''0x''))
   \<and> fieldOf status 2 (snd (addUnapprovedTransaction sampleEnv callDraft (Some ''metamask'')
        sampleStore)) = Some UNAPPROVED
   \<and> fieldOf loadingDefaults 2 (snd (addUnapprovedTransaction sampleEnv callDraft
        (Some ''metamask'') sampleStore)) = Some False
   \<and> fieldOf (\<lambda>t. gas (txParams t)) 2 (snd (addUnapprovedTransaction sampleEnv callDraft
        (Some ''metamask'') sampleStore)) = Some None"
proof -
  have c: "networkEIP1559 sampleEnv = Fulfilled False" "accountEIP1559 sampleEnv None = Fulfilled True"
    by (simp_all add: sampleEnv_def)
  have v: "validateTxParams sampleEnv (normalizeTxParams sampleEnv callDraft) (False \<and> True) = None"
    by (simp add: sampleEnv_def)
  have nm: "normalizeTxParams sampleEnv callDraft = callDraft"
    by (simp add: sampleEnv_def)
  have a: "authorized sampleEnv (Some ''metamask'') (normalizeTxParams sampleEnv callDraft)"
    by (simp add: authorized_def sampleEnv_def sampleParams_def callDraft_def)
  have f: "\<forall>t \<in> set (transactions sampleStore). tx_id t < nextId sampleStore"
    and ids: "map tx_id (transactions sampleStore) = [1]" "nextId sampleStore = 2"
    by (simp_all add: sampleStore_def sampleTx_def)
  have d: "truthy (txData callDraft)" "truthy (toAddr callDraft)"
    "tokenMethod sampleEnv (orElse (txData callDraft) []) = None"
    "noContractCode (getCode sampleEnv (toAddr callDraft))"
    and g: "\<not> truthy (gas callDraft)"
    by (simp_all add: callDraft_def sampleParams_def sampleEnv_def noContractCode_def truthy_def)
  have n: "truthy (txData (normalizeTxParams sampleEnv callDraft))"
    "truthy (toAddr (normalizeTxParams sampleEnv callDraft))"
    "\<not> truthy (gas (normalizeTxParams sampleEnv callDraft))"
    using d g by (simp_all add: nm)
  have ch: "chainTypeOf sampleEnv \<noteq> Custom" "gasFeeEstimates sampleEnv \<noteq> Pending"
    "queryGasPrice sampleEnv = Fulfilled (Some 20000000000)"
    by (simp_all add: sampleEnv_def)
  have code: "(case getCode sampleEnv (toAddr callDraft) of Fulfilled c \<Rightarrow> c | _ \<Rightarrow> None) = Some ''0x''"
    by (simp add: sampleEnv_def)
  have g0: "gas callDraft = None"
    by (simp add: callDraft_def)
  note th = addUnapprovedTransaction_non_contract_call [OF c v a f d n ch]
  show ?thesis
    using th d g g0 ids a unfolding nm code by (auto simp: fieldOf_def)
qed

text \<open>
  C7, as stated, fails on drafts with data and a recipient without contract code. A draft
  that names its own gas limit is accepted: gas defaulting returns before the check for
  contract code, the call fulfils with the new id and the record carries no error. The same
  draft without a gas limit is accepted when its data is a recognised token method or the
  chain is a custom one, where the gas limit is estimated instead. When the draft names no
  fee and the gas price query fails, the call throws the error of that query.
\<close>

theorem non_contract_call_with_gas_counterexample:
  "truthy (txData callDraftWithGas)
   \<and> noContractCode (getCode sampleEnv (toAddr callDraftWithGas))
   \<and> fst (addUnapprovedTransaction sampleEnv callDraftWithGas (Some ''metamask'') sampleStore) =
       Fulfilled 2
   \<and> fieldOf err 2 (snd (addUnapprovedTransaction sampleEnv callDraftWithGas (Some ''metamask'')
        sampleStore)) = Some None
   \<and> truthy (txData callDraft) \<and> \<not> truthy (gas callDraft)
   \<and> noContractCode (getCode sampleEnv (toAddr callDraft))
   \<and> fst (addUnapprovedTransaction
            (sampleEnv\<lparr>tokenMethod := (\<lambda>d. Some TOKEN_METHOD_TRANSFER)\<rparr>) callDraft
            (Some ''metamask'') sampleStore) = Fulfilled 2
   \<and> fst (addUnapprovedTransaction (sampleEnv\<lparr>chainTypeOf := Custom\<rparr>) callDraft
            (Some ''metamask'') sampleStore) = Fulfilled 2
   \<and> fst (addUnapprovedTransaction
            (sampleEnv\<lparr>gasFeeEstimates := Fulfilled NoEstimates,
                        queryGasPrice := Thrown (External ''timeout'')\<rparr>)
            (callDraft\<lparr>gasPrice := None\<rparr>) (Some ''metamask'') sampleStore) =
       Thrown (External ''timeout'')"
  by (simp add: eval_defs intake_defs sample_defs
      cong: andThen_weak_cong let_weak_cong)

section \<open>Confirmation and nonce duplicates\<close>

lemma droppedBy_simps [simp]:
  "tx_id (droppedBy h t) = tx_id t"
  "replacedBy (droppedBy h t) = h"
  "status (droppedBy h t) = (if terminal (status t) then status t else DROPPED)"
  "droppedBy h (droppedBy h t) = droppedBy h t"
  by (simp_all add: droppedBy_def terminal_def)

lemma specStatusChange_dropped:
  "specStatusChange st DROPPED = (if terminal st then Skip else Apply)"
  by (cases st) (simp_all add: specStatusChange_def terminal_def)

lemma specStatusChange_confirmed:
  "specStatusChange st CONFIRMED = (if terminal st then Reject else Apply)"
  by (cases st) (simp_all add: specStatusChange_def terminal_def)

lemma dropStep:
  assumes store: "statusChange e = specStatusChange"
      and other: "getTransaction other s = Some t"
      and conf: "getTransaction txId s = Some tc"
      and ne: "other \<noteq> txId"
  shows "\<exists>s3. andThen (updateTransaction txId (modifyTx other (\<lambda>t. t\<lparr>replacedBy := h\<rparr>) s))
                 (\<lambda>_ s2. andThen (dropTransaction e other s2) k) = k () s3
              \<and> (\<forall>i. getTransaction i s3 =
                    (if i = other then map_option (droppedBy h) (getTransaction i s)
                     else getTransaction i s))"
proof (cases "terminal (status t)")
  case True
  let ?s1 = "modifyTx other (\<lambda>t. t\<lparr>replacedBy := h\<rparr>) s"
  have "andThen (updateTransaction txId ?s1) (\<lambda>_ s2. andThen (dropTransaction e other s2) k) = k () ?s1"
    using assms True
    by (simp add: updateTransaction_def getTransaction_modifyTx andThen_simps dropTransaction_def
        setTxStatusDropped_def setTransactionStatus_def specStatusChange_dropped)
  moreover have "\<forall>i. getTransaction i ?s1 =
                    (if i = other then map_option (droppedBy h) (getTransaction i s)
                     else getTransaction i s)"
    using other True by (simp add: getTransaction_modifyTx droppedBy_def)
  ultimately show ?thesis by blast
next
  case False
  let ?s1 = "modifyTx other (\<lambda>t. t\<lparr>replacedBy := h\<rparr>) s"
  let ?s3 = "modifyTx other (\<lambda>t. t\<lparr>status := DROPPED\<rparr>) ?s1"
  have "andThen (updateTransaction txId ?s1) (\<lambda>_ s2. andThen (dropTransaction e other s2) k) = k () ?s3"
    using assms False
    by (simp add: updateTransaction_def getTransaction_modifyTx andThen_simps dropTransaction_def
        setTxStatusDropped_def setTransactionStatus_def specStatusChange_dropped)
  moreover have "\<forall>i. getTransaction i ?s3 =
                    (if i = other then map_option (droppedBy h) (getTransaction i s)
                     else getTransaction i s)"
    using other False by (simp add: getTransaction_modifyTx droppedBy_def)
  ultimately show ?thesis by blast
qed

lemma dropEach_effect:
  assumes store: "statusChange e = specStatusChange"
      and conf: "getTransaction txId s = Some tc"
      and present: "\<forall>i \<in> set ids. getTransaction i s \<noteq> None"
  shows "fst (dropEach e txId ids s) = Fulfilled ()
         \<and> (\<forall>i. getTransaction i (snd (dropEach e txId ids s)) =
                (if i \<in> set ids \<and> i \<noteq> txId
                 then map_option (droppedBy (hash tc)) (getTransaction i s)
                 else getTransaction i s))"
  using conf present
proof (induction ids arbitrary: s)
  case Nil
  then show ?case by simp
next
  case (Cons other rest)
  show ?case
  proof (cases "other = txId")
    case True
    then show ?thesis using Cons.IH [of s] Cons.prems by auto
  next
    case False
    obtain t where t: "getTransaction other s = Some t"
      using Cons.prems(2) by auto
    from dropStep [OF store t Cons.prems(1) False, of "hash tc" "\<lambda>_ s3. dropEach e txId rest s3"]
    obtain s3 where s3:
      "andThen (updateTransaction txId (modifyTx other (\<lambda>t. t\<lparr>replacedBy := hash tc\<rparr>) s))
         (\<lambda>_ s2. andThen (dropTransaction e other s2) (\<lambda>_ s3. dropEach e txId rest s3)) =
       dropEach e txId rest s3"
      "\<And>i. getTransaction i s3 =
              (if i = other then map_option (droppedBy (hash tc)) (getTransaction i s)
               else getTransaction i s)"
      by blast
    have eq: "dropEach e txId (other # rest) s = dropEach e txId rest s3"
      using False Cons.prems(1) s3(1) by (simp add: Let_def)
    have c3: "getTransaction txId s3 = Some tc"
      using s3(2) [of txId] False Cons.prems(1) by simp
    have p3: "\<forall>i \<in> set rest. getTransaction i s3 \<noteq> None"
      using s3(2) Cons.prems(2) by auto
    show ?thesis
      unfolding eq
      using Cons.IH [OF c3 p3] s3(2) t False
      by (auto simp: option.map_comp comp_def)
  qed
qed


lemma modifyTx_ids:
  assumes "\<And>t. tx_id (f t) = tx_id t"
  shows "map tx_id (transactions (modifyTx j f s)) = map tx_id (transactions s)"
  using assms by (simp add: modifyTx_def comp_def)

lemma stored_present:
  "t \<in> set (transactions s) \<Longrightarrow> getTransaction (tx_id t) s \<noteq> None"
  by (auto simp: getTransaction_def find_None_iff)

lemma distinct_find_unique:
  assumes "distinct (map tx_id xs)" and "find (\<lambda>t. tx_id t = i) xs = Some t"
      and "u \<in> set xs" and "tx_id u = i"
  shows "u = t"
  using assms
proof (induction xs)
  case Nil
  then show ?case by simp
next
  case (Cons x xs)
  then show ?case by (auto split: if_splits dest: find_Some_iff [THEN iffD1])
qed

lemma distinct_getTransaction:
  assumes "distinct (map tx_id (transactions s))" and "t \<in> set (transactions s)"
  shows "getTransaction (tx_id t) s = Some t"
proof -
  obtain u where u: "getTransaction (tx_id t) s = Some u"
    using stored_present [OF assms(2)] by auto
  then have "t = u"
    using distinct_find_unique [OF assms(1), of "tx_id t" u t] assms(2)
    by (simp add: getTransaction_def)
  then show ?thesis using u by simp
qed

lemma sameNonce_ids:
  assumes "distinct (map tx_id (transactions s))" and "getTransaction i s = Some t"
  shows "i \<in> set (map tx_id (getTransactions n f s)) \<longleftrightarrow>
           nonce (txParams t) = n \<and> fromAddr (txParams t) = f"
proof
  assume "i \<in> set (map tx_id (getTransactions n f s))"
  then obtain u where u: "u \<in> set (transactions s)" "tx_id u = i"
      "nonce (txParams u) = n" "fromAddr (txParams u) = f"
    by (auto simp: getTransactions_def)
  then have "u = t"
    using distinct_find_unique [OF assms(1), of i t u] assms(2) by (simp add: getTransaction_def)
  then show "nonce (txParams t) = n \<and> fromAddr (txParams t) = f" using u by simp
next
  assume h: "nonce (txParams t) = n \<and> fromAddr (txParams t) = f"
  have "t \<in> set (transactions s)" "tx_id t = i"
    using assms(2) by (auto simp: getTransaction_def find_Some_iff)
  then show "i \<in> set (map tx_id (getTransactions n f s))"
    using h by (auto simp: getTransactions_def)
qed

lemma markNonceDuplicatesDropped_effect:
  assumes store: "statusChange e = specStatusChange"
      and ids: "distinct (map tx_id (transactions s))"
      and conf: "getTransaction txId s = Some tc"
  shows "fst (markNonceDuplicatesDropped e txId s) = Fulfilled ()
         \<and> (\<forall>i t. getTransaction i s = Some t \<longrightarrow>
               getTransaction i (snd (markNonceDuplicatesDropped e txId s)) =
                 Some (if nonceDuplicate tc t then droppedBy (hash tc) t else t))"
proof -
  let ?ids = "map tx_id (getTransactions (nonce (txParams tc)) (fromAddr (txParams tc)) s)"
  have eq: "markNonceDuplicatesDropped e txId s = dropEach e txId ?ids s"
    using conf by (auto simp: markNonceDuplicatesDropped_def Let_def)
  have present: "\<forall>i \<in> set ?ids. getTransaction i s \<noteq> None"
    using stored_present [of _ s] by (auto simp: getTransactions_def)
  have id: "tx_id tc = txId"
    using conf by (auto simp: getTransaction_def find_Some_iff)
  show ?thesis
    unfolding eq
    using dropEach_effect [OF store conf present] sameNonce_ids [OF ids] id
    by (auto simp: nonceDuplicate_def getTransaction_def find_Some_iff)
qed


lemma confirmTransaction_state:
  assumes "getTransaction txId s = Some t"
  shows "snd (confirmTransaction e txId rcpt baseFee s) = snd (confirmBody e txId t rcpt baseFee s)"
  using assms
  by (cases "confirmBody e txId t rcpt baseFee s"; cases "fst (confirmBody e txId t rcpt baseFee s)")
     (simp_all add: confirmTransaction_def)

lemma confirm_tail:
  assumes "i \<noteq> txId \<or> (\<forall>t x. h (t\<lparr>postTxBalance := x\<rparr>) = h t)"
  shows "fieldOf h i
           (snd (andThen (updateTransaction txId s4) (\<lambda>_ s5.
                   if b
                   then andThen (getBalance e a, s5) (\<lambda>postBalance s6.
                          updateTransaction txId
                            (modifyTx txId (\<lambda>t. t\<lparr>postTxBalance := Some (toString16 postBalance)\<rparr>) s6))
                   else (Fulfilled (), s5)))) = fieldOf h i s4"
  using assms
  by (auto simp: andThen_keeps fieldOf_modifyTx fieldOf_modifyTx_other)

text \<open>
  C3, as amended. \<^verbatim>\<open>confirmTransaction(txId, receipt)\<close> is a no-op when no record with
  \<^verbatim>\<open>txId\<close> exists. Otherwise the receipt is attached, with \<^verbatim>\<open>gasUsed\<close> as a string.
  With the store of sections 3 and 4.1 and unique ids: a record that was not in a terminal
  status becomes \<^verbatim>\<open>confirmed\<close>, and every other record with its sender and nonce gets
  \<^verbatim>\<open>replacedBy\<close> set to the hash of the confirmed record and becomes \<^verbatim>\<open>dropped\<close>
  unless it was in a terminal status, which it keeps; all remaining records are as before.
  A record that was in a terminal status keeps it, and no other record changes.
\<close>

theorem confirmTransaction_confirms_and_drops_duplicates:
  assumes store: "statusChange e = specStatusChange"
      and ids: "distinct (map tx_id (transactions s))"
  shows "(getTransaction txId s = None \<longrightarrow>
            confirmTransaction e txId rcpt baseFee s = (Fulfilled (), s))
       \<and> (\<forall>t. getTransaction txId s = Some t \<longrightarrow>
             fieldOf txReceipt txId (snd (confirmTransaction e txId rcpt baseFee s)) =
               Some (Some \<lparr>sr_gasUsed = (case rc_gasUsed rcpt of Inl str \<Rightarrow> str
                                          | Inr n \<Rightarrow> toString16 n),
                           sr_status = rc_status rcpt\<rparr>)
             \<and> fieldOf status txId (snd (confirmTransaction e txId rcpt baseFee s)) =
                 Some (if terminal (status t) then status t else CONFIRMED)
             \<and> (\<forall>u \<in> set (transactions s). tx_id u \<noteq> txId \<longrightarrow>
                   getTransaction (tx_id u) (snd (confirmTransaction e txId rcpt baseFee s)) =
                     Some (if \<not> terminal (status t) \<and> nonceDuplicate t u
                           then droppedBy (hash t) u else u)))"
proof (rule conjI; intro allI impI)
  assume "getTransaction txId s = None"
  then show "confirmTransaction e txId rcpt baseFee s = (Fulfilled (), s)"
    by (simp add: confirmTransaction_def)
next
  fix t
  assume t: "getTransaction txId s = Some t"
  define rc where "rc = \<lparr>sr_gasUsed = (case rc_gasUsed rcpt of Inl str \<Rightarrow> str
                                          | Inr n \<Rightarrow> toString16 n),
                           sr_status = rc_status rcpt\<rparr>"
  define s1 where "s1 = modifyTx txId (\<lambda>t. t\<lparr>txReceipt := Some rc\<rparr>) s"
  define s2 where "s2 = (if truthy baseFee then modifyTx txId (\<lambda>t. t\<lparr>baseFeePerGas := baseFee\<rparr>) s1
                         else s1)"
  define t2 where "t2 = (if truthy baseFee then t\<lparr>txReceipt := Some rc, baseFeePerGas := baseFee\<rparr>
                         else t\<lparr>txReceipt := Some rc\<rparr>)"
  define K where "K = (\<lambda>(_::unit) s4. andThen (updateTransaction txId s4) (\<lambda>_ s5.
           if tx_type t = Some SWAP
           then andThen (getBalance e (fromAddr (txParams t)), s5) (\<lambda>postBalance s6.
                  updateTransaction txId
                    (modifyTx txId (\<lambda>t. t\<lparr>postTxBalance := Some (toString16 postBalance)\<rparr>) s6))
           else (Fulfilled (), s5)))"
  have body: "confirmBody e txId t rcpt baseFee s =
                andThen (setTxStatusConfirmed e txId s2) (\<lambda>_ s3.
                  andThen (markNonceDuplicatesDropped e txId s3) K)"
    by (simp add: confirmBody_def Let_def s2_def s1_def rc_def K_def)
  have g2: "getTransaction i s2 = (if i = txId then Some t2 else getTransaction i s)" for i
    using t by (simp add: s2_def s1_def t2_def getTransaction_modifyTx)
  have ids2: "distinct (map tx_id (transactions s2))"
    using ids by (simp add: s2_def s1_def modifyTx_ids)
  have t2f: "status t2 = status t" "hash t2 = hash t" "txParams t2 = txParams t"
    "tx_id t2 = tx_id t" "txReceipt t2 = Some rc"
    by (simp_all add: t2_def)
  have tid: "tx_id t = txId"
    using t by (auto simp: getTransaction_def find_Some_iff)
  have S: "snd (confirmTransaction e txId rcpt baseFee s) = snd (confirmBody e txId t rcpt baseFee s)"
    by (rule confirmTransaction_state [OF t])
  have others: "getTransaction (tx_id u) s = Some u" if "u \<in> set (transactions s)" for u
    using distinct_getTransaction [OF ids that] .
  have goal: "fieldOf txReceipt txId (snd (confirmBody e txId t rcpt baseFee s)) = Some (Some rc)
        \<and> fieldOf status txId (snd (confirmBody e txId t rcpt baseFee s)) =
                 Some (if terminal (status t) then status t else CONFIRMED)
        \<and> (\<forall>u \<in> set (transactions s). tx_id u \<noteq> txId \<longrightarrow>
                   getTransaction (tx_id u) (snd (confirmBody e txId t rcpt baseFee s)) =
                     Some (if \<not> terminal (status t) \<and> nonceDuplicate t u
                           then droppedBy (hash t) u else u))"
  proof (cases "terminal (status t)")
    case True
    have "setTxStatusConfirmed e txId s2 = (Thrown InvalidTransitionError, s2)"
      using True g2 [of txId] t2f
      by (simp add: setTxStatusConfirmed_def setTransactionStatus_def store
          specStatusChange_confirmed)
    then have "confirmBody e txId t rcpt baseFee s = (Thrown InvalidTransitionError, s2)"
      by (simp add: body andThen_simps)
    then show ?thesis
      using True g2 t2f others by (auto simp: fieldOf_def)
  next
    case False
    define s3 where "s3 = modifyTx txId (\<lambda>t. t\<lparr>status := CONFIRMED\<rparr>) s2"
    define tc where "tc = t2\<lparr>status := CONFIRMED\<rparr>"
    have c: "setTxStatusConfirmed e txId s2 = (Fulfilled (), s3)"
      using False g2 [of txId] t2f
      by (simp add: setTxStatusConfirmed_def setTransactionStatus_def store
          specStatusChange_confirmed s3_def)
    have g3: "getTransaction i s3 = (if i = txId then Some tc else getTransaction i s)" for i
      using g2 by (simp add: s3_def tc_def getTransaction_modifyTx)
    have ids3: "distinct (map tx_id (transactions s3))"
      using ids2 by (simp add: s3_def modifyTx_ids)
    have g3c: "getTransaction txId s3 = Some tc"
      using g3 [of txId] by simp
    note m = markNonceDuplicatesDropped_effect [OF store ids3 g3c]
    define s4 where "s4 = snd (markNonceDuplicatesDropped e txId s3)"
    have m1: "markNonceDuplicatesDropped e txId s3 = (Fulfilled (), s4)"
      using m [THEN conjunct1] by (metis prod.collapse s4_def)
    have nd: "nonceDuplicate tc u = nonceDuplicate t u" for u
      by (simp add: nonceDuplicate_def tc_def t2f)
    have tc_self: "\<not> nonceDuplicate tc tc"
      by (simp add: nonceDuplicate_def)
    have g4c: "getTransaction txId s4 = Some tc"
      using m [THEN conjunct2, rule_format, OF g3c] tc_self by (simp add: s4_def)
    have g4: "getTransaction (tx_id u) s4 =
                Some (if nonceDuplicate t u then droppedBy (hash t) u else u)"
      if "u \<in> set (transactions s)" "tx_id u \<noteq> txId" for u
    proof -
      have u3: "getTransaction (tx_id u) s3 = Some u"
        using g3 [of "tx_id u"] others [OF that(1)] that(2) by simp
      have hc: "hash tc = hash t"
        by (simp add: tc_def t2f)
      from m [THEN conjunct2, rule_format, OF u3] show ?thesis
        by (simp only: s4_def nd hc)
    qed
    have res: "snd (confirmBody e txId t rcpt baseFee s) = snd (K () s4)"
      by (simp add: body c m1 andThen_simps)
    have "fieldOf txReceipt txId (snd (K () s4)) = fieldOf txReceipt txId s4"
      unfolding K_def by (rule confirm_tail) simp
    then have r1: "fieldOf txReceipt txId (snd (K () s4)) = Some (Some rc)"
      using g4c by (simp add: fieldOf_def tc_def t2f)
    have "fieldOf status txId (snd (K () s4)) = fieldOf status txId s4"
      unfolding K_def by (rule confirm_tail) simp
    then have r2: "fieldOf status txId (snd (K () s4)) = Some CONFIRMED"
      using g4c by (simp add: fieldOf_def tc_def)
    have r3: "getTransaction (tx_id u) (snd (K () s4)) =
                Some (if nonceDuplicate t u then droppedBy (hash t) u else u)"
      if "u \<in> set (transactions s)" "tx_id u \<noteq> txId" for u
    proof -
      have "fieldOf (\<lambda>t. t) (tx_id u) (snd (K () s4)) = fieldOf (\<lambda>t. t) (tx_id u) s4"
        unfolding K_def by (rule confirm_tail) (simp add: that(2))
      then show ?thesis
        using g4 [OF that] by (simp add: fieldOf_def option.map_ident)
    qed
    show ?thesis
      unfolding res using False r1 r2 r3 by simp
  qed
  show "fieldOf txReceipt txId (snd (confirmTransaction e txId rcpt baseFee s)) =
               Some (Some \<lparr>sr_gasUsed = (case rc_gasUsed rcpt of Inl str \<Rightarrow> str
                                          | Inr n \<Rightarrow> toString16 n),
                           sr_status = rc_status rcpt\<rparr>)
             \<and> fieldOf status txId (snd (confirmTransaction e txId rcpt baseFee s)) =
                 Some (if terminal (status t) then status t else CONFIRMED)
             \<and> (\<forall>u \<in> set (transactions s). tx_id u \<noteq> txId \<longrightarrow>
                   getTransaction (tx_id u) (snd (confirmTransaction e txId rcpt baseFee s)) =
                     Some (if \<not> terminal (status t) \<and> nonceDuplicate t u
                           then droppedBy (hash t) u else u))"
    unfolding S using goal by (simp add: rc_def)
qed


lemmas confirm_defs = confirmTransaction_def confirmBody_def markNonceDuplicatesDropped_def
  getTransactions_def nonceDuplicate_def droppedBy_def speedUpTx_def replacedStore_def
  sampleReceipt_def failedTx_def failedStore_def droppedTx_def droppedStore_def

theorem confirmTransaction_confirms_and_drops_duplicates_witness:
  "statusChange sampleEnv = specStatusChange
   \<and> distinct (map tx_id (transactions replacedStore))
   \<and> getTransaction 7 replacedStore = None
   \<and> confirmTransaction sampleEnv 7 sampleReceipt None replacedStore = (Fulfilled (), replacedStore)
   \<and> getTransaction 2 replacedStore = Some speedUpTx
   \<and> \<not> terminal (status speedUpTx)
   \<and> submittedTx \<in> set (transactions replacedStore)
   \<and> nonceDuplicate speedUpTx submittedTx
   \<and> fieldOf txReceipt 2 (snd (confirmTransaction sampleEnv 2 sampleReceipt None replacedStore)) =
        Some (Some \<lparr>sr_gasUsed = ''5208'', sr_status = Some ''0x1''\<rparr>)
   \<and> fieldOf status 2 (snd (confirmTransaction sampleEnv 2 sampleReceipt None replacedStore)) =
        Some CONFIRMED
   \<and> getTransaction 1 (snd (confirmTransaction sampleEnv 2 sampleReceipt None replacedStore)) =
        Some (submittedTx\<lparr>replacedBy := Some ''0xdef'', status := DROPPED\<rparr>)"
proof -
  have store: "statusChange sampleEnv = specStatusChange"
    by (simp add: sampleEnv_def)
  have ids: "distinct (map tx_id (transactions replacedStore))"
    by (simp add: confirm_defs eval_defs sample_defs)
  have n7: "getTransaction 7 replacedStore = None"
    and n2: "getTransaction 2 replacedStore = Some speedUpTx"
    by (simp_all add: confirm_defs eval_defs sample_defs)
  have nt: "\<not> terminal (status speedUpTx)"
    and mem: "submittedTx \<in> set (transactions replacedStore)"
    and dup: "nonceDuplicate speedUpTx submittedTx"
    and one: "tx_id submittedTx = 1" "hash speedUpTx = Some ''0xdef''"
      "droppedBy (Some ''0xdef'') submittedTx =
         submittedTx\<lparr>replacedBy := Some ''0xdef'', status := DROPPED\<rparr>"
    and g: "(case rc_gasUsed sampleReceipt of Inl str \<Rightarrow> str | Inr n \<Rightarrow> toString16 n) = ''5208''"
      "rc_status sampleReceipt = Some ''0x1''"
    by (simp_all add: confirm_defs eval_defs sample_defs)
  note absent = confirmTransaction_confirms_and_drops_duplicates
      [OF store ids, where txId = 7 and rcpt = sampleReceipt and baseFee = None,
       THEN conjunct1, rule_format, OF n7]
  note present = confirmTransaction_confirms_and_drops_duplicates
      [OF store ids, where txId = 2 and rcpt = sampleReceipt and baseFee = None,
       THEN conjunct2, rule_format, OF n2]
  have r1: "fieldOf txReceipt 2 (snd (confirmTransaction sampleEnv 2 sampleReceipt None replacedStore)) =
        Some (Some \<lparr>sr_gasUsed = ''5208'', sr_status = Some ''0x1''\<rparr>)"
    using present [THEN conjunct1] by (simp only: g)
  have r2: "fieldOf status 2 (snd (confirmTransaction sampleEnv 2 sampleReceipt None replacedStore)) =
        Some CONFIRMED"
    using present [THEN conjunct2, THEN conjunct1] nt by simp
  have r3: "getTransaction 1 (snd (confirmTransaction sampleEnv 2 sampleReceipt None replacedStore)) =
        Some (submittedTx\<lparr>replacedBy := Some ''0xdef'', status := DROPPED\<rparr>)"
    using present [THEN conjunct2, THEN conjunct2, rule_format, OF mem] nt dup one by simp
  show ?thesis
    using store ids n7 absent n2 nt mem dup r1 r2 r3 by blast
qed

text \<open>
  C3, as stated, fails on records in a terminal status: a failed transfer that shares sender
  and nonce with the confirmed speed-up stays \<^verbatim>\<open>failed\<close>, and a dropped transfer whose
  receipt arrives stays \<^verbatim>\<open>dropped\<close>.
\<close>

theorem confirmTransaction_terminal_duplicate_counterexample:
  "getTransaction 2 failedStore = Some speedUpTx
   \<and> getTransaction 1 failedStore = Some failedTx
   \<and> nonceDuplicate speedUpTx failedTx
   \<and> fieldOf status 2 (snd (confirmTransaction sampleEnv 2 sampleReceipt None failedStore)) =
        Some CONFIRMED
   \<and> fieldOf status 1 (snd (confirmTransaction sampleEnv 2 sampleReceipt None failedStore)) =
        Some FAILED
   \<and> getTransaction 1 droppedStore = Some droppedTx
   \<and> fieldOf status 1 (snd (confirmTransaction sampleEnv 1 sampleReceipt None droppedStore)) =
        Some DROPPED"
  by (simp add: confirm_defs eval_defs sample_defs cong: andThen_weak_cong let_weak_cong)

end
